(* ===== verification/Prelude.thy ===== *)
theory Prelude
  imports Main
begin

text \<open>
  Shared vocabulary of the development: the collections of rewrite rules the
  component theories contribute to, the JavaScript string built-ins the
  client calls (\<open>String.prototype.trim\<close>, \<open>split\<close>, \<open>join\<close>,
  \<open>endsWith\<close>) and the generic list and map lemmas the component proofs
  share. JavaScript strings are modelled as \<open>string\<close> (\<open>char list\<close>), one
  \<open>char\<close> per UTF-16 code unit; the model covers strings whose code units lie
  in the Latin-1 range 0..255.
\<close>

named_theorems storage_simps \<open>rewrite rules for the browser's localStorage\<close>
named_theorems world_simps \<open>frame rules of the browser world record\<close>
named_theorems envelope_simps \<open>result envelopes of the service functions\<close>

section \<open>JavaScript string built-ins\<close>

text \<open>
  \<open>String.prototype.trim\<close> removes the white space characters of ECMAScript
  (WhiteSpace and LineTerminator) at both ends; within Latin-1 these are TAB,
  LF, VT, FF, CR, SPACE and NO-BREAK SPACE (U+00A0).
\<close>

definition js_is_space :: "char \<Rightarrow> bool" where
  "js_is_space c \<longleftrightarrow> of_char c \<in> ({9, 10, 11, 12, 13, 32, 160} :: nat set)"

definition js_trim :: "string \<Rightarrow> string" where
  "js_trim s = rev (dropWhile js_is_space (rev (dropWhile js_is_space s)))"

text \<open>
  \<open>s.split(c)\<close> for a one-character separator: the pieces between the
  occurrences of \<open>c\<close>, so that \<open>"".split(",")\<close> is \<open>[""]\<close> and
  \<open>"a,".split(",")\<close> is \<open>["a", ""]\<close>.
\<close>

fun js_split :: "char \<Rightarrow> string \<Rightarrow> string list" where
  "js_split c [] = [[]]"
| "js_split c (x # xs) =
     (if x = c then [] # js_split c xs
      else (case js_split c xs of [] \<Rightarrow> [[x]] | y # ys \<Rightarrow> (x # y) # ys))"

text \<open>\<open>xs.join(sep)\<close> on a list of strings.\<close>

fun js_join :: "string \<Rightarrow> string list \<Rightarrow> string" where
  "js_join sep [] = []"
| "js_join sep [x] = x"
| "js_join sep (x # y # ys) = x @ sep @ js_join sep (y # ys)"

text \<open>\<open>s.endsWith(t)\<close>.\<close>

definition js_endsWith :: "string \<Rightarrow> string \<Rightarrow> bool" where
  "js_endsWith s t \<longleftrightarrow> drop (length s - length t) s = t"

section \<open>Facts about the built-ins\<close>

lemma js_split_nonempty [simp]: "js_split c s \<noteq> []"
  by (induction s) (auto split: list.splits)

lemma js_split_length: "length (js_split c s) = Suc (count_list s c)"
proof (induction s)
  case Nil
  then show ?case by simp
next
  case (Cons x xs)
  then show ?case by (cases "js_split c xs") auto
qed

lemma js_split_no_sep: "y \<in> set (js_split c s) \<Longrightarrow> c \<notin> set y"
proof (induction s arbitrary: y)
  case Nil
  then show ?case by simp
next
  case (Cons x xs)
  then show ?case by (auto split: if_splits list.splits)
qed

lemma js_join_Cons:
  "js_join sep (x # xs) = x @ (if xs = [] then [] else sep @ js_join sep xs)"
  by (cases xs) auto

lemma js_join_split: "js_join [c] (js_split c s) = s"
proof (induction s)
  case Nil
  then show ?case by simp
next
  case (Cons x xs)
  then show ?case
    by (cases "js_split c xs") (auto simp del: js_join.simps simp: js_join_Cons)
qed

lemma js_endsWith_append [simp]: "js_endsWith (s @ t) t"
  by (simp add: js_endsWith_def)

lemma js_endsWith_slash:
  "js_endsWith s ''/'' \<longleftrightarrow> s \<noteq> [] \<and> last s = CHR ''/''"
proof (cases s rule: rev_cases)
  case Nil
  then show ?thesis by (simp add: js_endsWith_def)
next
  case (snoc ys y)
  then show ?thesis by (simp add: js_endsWith_def)
qed

lemma js_trim_no_space_ends:
  assumes "js_trim s = t" and "t \<noteq> []"
  shows "\<not> js_is_space (hd t) \<and> \<not> js_is_space (last t)"
proof -
  let ?u = "dropWhile js_is_space s"
  have t: "t = rev (dropWhile js_is_space (rev ?u))"
    using assms(1) by (simp add: js_trim_def)
  have "\<not> js_is_space (last t)"
    using assms(2) t hd_dropWhile [of js_is_space "rev ?u"]
    by (simp add: last_rev)
  moreover have "\<not> js_is_space (hd t)"
  proof -
    have ne: "?u \<noteq> []"
    proof
      assume "?u = []"
      with t have "t = []" by simp
      with assms(2) show False ..
    qed
    have "hd ?u = hd t"
    proof -
      have "rev ?u = takeWhile js_is_space (rev ?u) @ dropWhile js_is_space (rev ?u)"
        by simp
      then have "?u = t @ rev (takeWhile js_is_space (rev ?u))"
        using t by (metis rev_append rev_rev_ident)
      then show ?thesis using assms(2) by (metis hd_append2)
    qed
    then show ?thesis using hd_dropWhile [OF ne] by simp
  qed
  ultimately show ?thesis by simp
qed

lemma js_split_no_occurrence: "c \<notin> set a \<Longrightarrow> js_split c a = [a]"
  by (induction a) auto

lemma js_split_append_sep:
  "c \<notin> set a \<Longrightarrow> js_split c (a @ c # rest) = a # js_split c rest"
  by (induction a) auto

end
