(* ===== verification/Js_Value.thy ===== *)
theory Js_Value
  imports Prelude
begin

text \<open>
  The JavaScript values the client receives from \<open>response.json()\<close> and
  passes on: JSON data, \<open>undefined\<close> (a missing property), the truthiness
  that \<open>||\<close>, \<open>!\<close> and \<open>if\<close> test, property access (which throws on
  \<open>null\<close>), and the conversion to string that template literals and
  \<open>localStorage.setItem\<close> apply. Numbers are modelled as integers.
\<close>

datatype json =
    JNull
  | JBool bool
  | JNum int
  | JStr string
  | JArr "json list"
  | JObj "(string \<times> json) list"

text \<open>A JavaScript value read from JSON data: \<open>None\<close> is \<open>undefined\<close>.\<close>

type_synonym jsval = "json option"

text \<open>A thrown \<open>Error\<close> (\<open>TypeError\<close>, \<open>SyntaxError\<close>, \<open>new Error(m)\<close>), by its message.\<close>

datatype js_exn = JsError (exn_message: string)

fun truthy :: "jsval \<Rightarrow> bool" where
  "truthy None = False"
| "truthy (Some JNull) = False"
| "truthy (Some (JBool b)) = b"
| "truthy (Some (JNum n)) = (n \<noteq> 0)"
| "truthy (Some (JStr s)) = (s \<noteq> [])"
| "truthy (Some (JArr xs)) = True"
| "truthy (Some (JObj kvs)) = True"

text \<open>\<open>a || b\<close>.\<close>

definition js_or :: "jsval \<Rightarrow> jsval \<Rightarrow> jsval" where
  "js_or a b = (if truthy a then a else b)"

text \<open>
  \<open>!s\<close> for a string or \<open>null\<close>, as \<open>localStorage.getItem\<close> returns:
  \<open>null\<close> and the empty string are falsy.
\<close>

definition str_truthy :: "string option \<Rightarrow> bool" where
  "str_truthy s \<longleftrightarrow> s \<noteq> None \<and> s \<noteq> Some []"

text \<open>
  Reading a named data property \<open>v.k\<close> of a parsed JSON value. On \<open>null\<close>
  it throws a \<open>TypeError\<close>; on an object it yields the value of the last
  member named \<open>k\<close> (\<open>JSON.parse\<close> keeps the last of duplicate keys); on
  any other value, a data property such as \<open>token\<close> or \<open>doctors\<close> is
  \<open>undefined\<close>.
\<close>

fun js_get :: "json \<Rightarrow> string \<Rightarrow> js_exn + jsval" where
  "js_get JNull k = Inl (JsError (''Cannot read properties of null (reading '' @ k @ '')''))"
| "js_get (JObj kvs) k = Inr (map_of (rev kvs) k)"
| "js_get v k = Inr None"

text \<open>\<open>v.k\<close> on a value known not to be \<open>null\<close>.\<close>

definition js_prop :: "json \<Rightarrow> string \<Rightarrow> jsval" where
  "js_prop v k = (case js_get v k of Inl e \<Rightarrow> None | Inr x \<Rightarrow> x)"

text \<open>Decimal rendering of numbers, as \<open>String(n)\<close> prints an integer.\<close>

fun nat_str :: "nat \<Rightarrow> string" where
  "nat_str n = (if n < 10 then [char_of (48 + n)]
                else nat_str (n div 10) @ [char_of (48 + n mod 10)])"

definition int_str :: "int \<Rightarrow> string" where
  "int_str i = (if i < 0 then CHR ''-'' # nat_str (nat (- i)) else nat_str (nat i))"

text \<open>
  \<open>String(v)\<close>: \<open>undefined\<close> and \<open>null\<close> print as words, arrays as the
  comma-joined strings of their elements (with \<open>null\<close> elements empty), plain
  objects as \<open>[object Object]\<close>.
\<close>

fun json_str :: "json \<Rightarrow> string" where
  "json_str JNull = ''null''"
| "json_str (JBool b) = (if b then ''true'' else ''false'')"
| "json_str (JNum n) = int_str n"
| "json_str (JStr s) = s"
| "json_str (JArr xs) = js_join '','' (map (\<lambda>x. if x = JNull then [] else json_str x) xs)"
| "json_str (JObj kvs) = ''[object Object]''"

definition js_to_string :: "jsval \<Rightarrow> string" where
  "js_to_string v = (case v of None \<Rightarrow> ''undefined'' | Some x \<Rightarrow> json_str x)"

text \<open>\<open>v || d\<close> where the default \<open>d\<close> is a value (never \<open>undefined\<close>).\<close>

definition or_default :: "jsval \<Rightarrow> json \<Rightarrow> json" where
  "or_default v d = (case v of Some x \<Rightarrow> if truthy v then x else d | None \<Rightarrow> d)"

text \<open>The length of a value that the client reads with \<open>.length\<close>.\<close>

fun js_length :: "json \<Rightarrow> nat option" where
  "js_length (JArr xs) = Some (length xs)"
| "js_length (JStr s) = Some (length s)"
| "js_length v = None"

text \<open>
  The shape of a JSON request body as the back end reads it (spec section 6: JSON
  bodies): an object with the given members, in order, each a string or an array
  of strings.
\<close>

datatype field_type = FStr | FStrArr

definition is_jstr :: "json \<Rightarrow> bool" where
  "is_jstr v = (case v of JStr _ \<Rightarrow> True | _ \<Rightarrow> False)"

definition field_ok :: "field_type \<Rightarrow> json \<Rightarrow> bool" where
  "field_ok ft v =
     (case ft of
        FStr \<Rightarrow> is_jstr v
      | FStrArr \<Rightarrow> (case v of JArr xs \<Rightarrow> list_all is_jstr xs | _ \<Rightarrow> False))"

definition has_schema :: "(string \<times> field_type) list \<Rightarrow> json \<Rightarrow> bool" where
  "has_schema sch v =
     (case v of
        JObj ms \<Rightarrow> map fst ms = map fst sch \<and> list_all2 (\<lambda>(k, ft) (k', x). field_ok ft x) sch ms
      | _ \<Rightarrow> False)"

section \<open>Facts\<close>

lemma js_get_js_prop: "v \<noteq> JNull \<Longrightarrow> js_get v k = Inr (js_prop v k)"
  by (cases v) (simp_all add: js_prop_def)

lemma js_or_truthy [simp]: "truthy a \<Longrightarrow> js_or a b = a"
  by (simp add: js_or_def)

lemma js_or_falsy [simp]: "\<not> truthy a \<Longrightarrow> js_or a b = b"
  by (simp add: js_or_def)

lemma str_truthy_Some [simp]: "str_truthy (Some s) \<longleftrightarrow> s \<noteq> []"
  by (simp add: str_truthy_def)

lemma str_truthy_None [simp]: "\<not> str_truthy None"
  by (simp add: str_truthy_def)

lemma nat_str_nonempty: "nat_str n \<noteq> []"
  by (subst nat_str.simps) simp

declare nat_str.simps [simp del]

lemma js_to_string_JStr [simp]: "js_to_string (Some (JStr s)) = s"
  by (simp add: js_to_string_def)

lemma js_to_string_None [simp]: "js_to_string None = ''undefined''"
  by (simp add: js_to_string_def)

end
