(* ===== verification/Browser.thy ===== *)
theory Browser
  imports Js_Value
begin

text \<open>
  The browser the client runs in, as explicit state: the origin's
  \<open>localStorage\<close> (a map from keys to strings), the configured API base URL,
  the current page's path, and the observable effects the client's handlers
  have on the world, each kept as a list in the order they happen: the
  navigations requested by assigning \<open>window.location.href\<close>, the
  \<open>alert\<close> dialogs shown and the HTTP requests sent by \<open>fetch\<close>. The
  modal dialog that \<open>openModal\<close> and \<open>closeModal\<close> (modals.js and
  util.js, outside src/) show and hide is one optional name. Console output
  is a diagnostic side channel and is not modelled.

  The answer of the network to a \<open>fetch\<close> is an input of each handler: a
  transport failure (the promise rejects with a \<open>TypeError\<close>), or a
  response with a status code and a body that \<open>response.json()\<close> either
  parses or rejects with a \<open>SyntaxError\<close>.
\<close>

datatype http_method = GET | POST | DELETE

record http_request =
  req_method :: http_method
  req_url :: string
  req_body :: "json option"

datatype body = JsonBody json | BadJson string

datatype fetch_result = NetworkError string | Response nat body

definition resp_ok :: "nat \<Rightarrow> bool" where
  "resp_ok status \<longleftrightarrow> 200 \<le> status \<and> status \<le> 299"

text \<open>\<open>await response.json()\<close>: the parsed value, or the thrown \<open>SyntaxError\<close>.\<close>

fun resp_json :: "body \<Rightarrow> js_exn + json" where
  "resp_json (JsonBody v) = Inr v"
| "resp_json (BadJson m) = Inl (JsError m)"

record browser =
  storage :: "string \<rightharpoonup> string"
  api_base :: string
  pathname :: string
  navigations :: "string list"
  alerts :: "string list"
  requests :: "http_request list"
  modal :: "string option"

section \<open>Browser operations\<close>

definition getItem :: "string \<Rightarrow> 'a browser_scheme \<Rightarrow> string option" where
  "getItem k w = storage w k"

definition setItem :: "string \<Rightarrow> string \<Rightarrow> 'a browser_scheme \<Rightarrow> 'a browser_scheme" where
  "setItem k v w = w\<lparr>storage := (storage w)(k \<mapsto> v)\<rparr>"

definition removeItem :: "string \<Rightarrow> 'a browser_scheme \<Rightarrow> 'a browser_scheme" where
  "removeItem k w = w\<lparr>storage := (storage w)(k := None)\<rparr>"

definition alert :: "string \<Rightarrow> 'a browser_scheme \<Rightarrow> 'a browser_scheme" where
  "alert m w = w\<lparr>alerts := alerts w @ [m]\<rparr>"

definition navigate :: "string \<Rightarrow> 'a browser_scheme \<Rightarrow> 'a browser_scheme" where
  "navigate p w = w\<lparr>navigations := navigations w @ [p]\<rparr>"

definition send :: "http_request \<Rightarrow> 'a browser_scheme \<Rightarrow> 'a browser_scheme" where
  "send r w = w\<lparr>requests := requests w @ [r]\<rparr>"

text \<open>openModal and closeModal of modals.js / util.js: show or hide one named modal.\<close>

definition openModal :: "string \<Rightarrow> 'a browser_scheme \<Rightarrow> 'a browser_scheme" where
  "openModal name w = w\<lparr>modal := Some name\<rparr>"

definition closeModal :: "'a browser_scheme \<Rightarrow> 'a browser_scheme" where
  "closeModal w = w\<lparr>modal := None\<rparr>"

section \<open>Rewrite rules\<close>

lemma getItem_setItem [storage_simps]:
  "getItem k (setItem k' v w) = (if k = k' then Some v else getItem k w)"
  by (simp add: getItem_def setItem_def)

lemma getItem_removeItem [storage_simps]:
  "getItem k (removeItem k' w) = (if k = k' then None else getItem k w)"
  by (simp add: getItem_def removeItem_def)

lemma getItem_effects [storage_simps]:
  "getItem k (alert m w) = getItem k w"
  "getItem k (navigate p w) = getItem k w"
  "getItem k (send r w) = getItem k w"
  "getItem k (openModal n w) = getItem k w"
  "getItem k (closeModal w) = getItem k w"
  by (simp_all add: getItem_def alert_def navigate_def send_def openModal_def closeModal_def)

lemma effects_frame [world_simps]:
  "navigations (setItem k v w) = navigations w"  "navigations (removeItem k w) = navigations w"
  "navigations (alert m w) = navigations w"  "navigations (send r w) = navigations w"
  "navigations (navigate p w) = navigations w @ [p]"
  "alerts (setItem k v w) = alerts w"  "alerts (removeItem k w) = alerts w"
  "alerts (alert m w) = alerts w @ [m]"  "alerts (send r w) = alerts w"
  "alerts (navigate p w) = alerts w"
  "requests (setItem k v w) = requests w"  "requests (removeItem k w) = requests w"
  "requests (alert m w) = requests w"  "requests (send r w) = requests w @ [r]"
  "requests (navigate p w) = requests w"
  "storage (alert m w) = storage w"  "storage (navigate p w) = storage w"
  "storage (send r w) = storage w"
  "pathname (setItem k v w) = pathname w"  "pathname (removeItem k w) = pathname w"
  "pathname (alert m w) = pathname w"  "pathname (navigate p w) = pathname w"
  "pathname (send r w) = pathname w"
  "api_base (setItem k v w) = api_base w"  "api_base (removeItem k w) = api_base w"
  "api_base (alert m w) = api_base w"  "api_base (navigate p w) = api_base w"
  "api_base (send r w) = api_base w"
  "modal (setItem k v w) = modal w"  "modal (removeItem k w) = modal w"
  "modal (alert m w) = modal w"  "modal (navigate p w) = modal w"  "modal (send r w) = modal w"
  by (simp_all add: setItem_def removeItem_def alert_def navigate_def send_def)

lemma getItem_page_upd [storage_simps]:
  "getItem k (w\<lparr>pathname := p\<rparr>) = getItem k w"
  "getItem k (w\<lparr>modal := m\<rparr>) = getItem k w"
  by (simp_all add: getItem_def)

lemma setItem_setItem_same [storage_simps]: "setItem k v (setItem k v' w) = setItem k v w"
  by (simp add: setItem_def)

lemma removeItem_setItem_same [storage_simps]: "removeItem k (setItem k v w) = removeItem k w"
  by (simp add: setItem_def removeItem_def)

end
