(* ===== verification/Index.thy ===== *)
theory Index
  imports Browser
begin

text \<open>
  services/index.js: the role-selection page. \<open>selectRole\<close> stores the chosen
  role and branches on which role buttons the page has (captured when the page
  loaded); \<open>adminLoginHandler\<close> and \<open>doctorLoginHandler\<close> post the
  credentials, store the returned token and the role, and go to the role's
  dashboard, or alert. The two handlers differ only in endpoint, credential
  fields, role, dashboard and messages, so both are instances of one flow,
  \<open>login_flow\<close>, whose lemmas serve both.
\<close>

record role_buttons =
  has_admin_btn :: bool
  has_doctor_btn :: bool
  has_patient_btn :: bool

definition selectRole :: "role_buttons \<Rightarrow> string \<Rightarrow> 'a browser_scheme \<Rightarrow> 'a browser_scheme" where
  "selectRole btns role w =
     (let w1 = setItem ''userRole'' role w in
      if has_admin_btn btns then w1
      else if has_doctor_btn btns then w1
      else if has_patient_btn btns then navigate ''/pages/patientDashboard.html'' w1
      else w1)"

text \<open>
  One login handler: POST the credentials as JSON to \<open>api_base @ api\<close>; on a
  2xx answer read \<open>data.token\<close>, store it (as \<open>setItem\<close> stores it: the
  string conversion of whatever was read, \<open>undefined\<close> included) and the
  role, and navigate to the dashboard; otherwise alert the server's message or
  the default. Every exception (transport failure, a body that is not JSON, a
  property read on \<open>null\<close>) ends in the catch block's alert.
\<close>

definition login_flow ::
  "string \<Rightarrow> json \<Rightarrow> string \<Rightarrow> string \<Rightarrow> string \<Rightarrow> string \<Rightarrow>
   fetch_result \<Rightarrow> 'a browser_scheme \<Rightarrow> 'a browser_scheme" where
  "login_flow api creds role dest dflt catch_msg r w =
     (let w1 = send \<lparr>req_method = POST, req_url = api_base w @ api, req_body = Some creds\<rparr> w in
      case r of
        NetworkError m \<Rightarrow> alert catch_msg w1
      | Response status b \<Rightarrow>
          (if resp_ok status then
             (case resp_json b of
                Inl e \<Rightarrow> alert catch_msg w1
              | Inr data \<Rightarrow>
                  (case js_get data ''token'' of
                     Inl e \<Rightarrow> alert catch_msg w1
                   | Inr token \<Rightarrow>
                       navigate dest
                         (setItem ''userRole'' role (setItem ''token'' (js_to_string token) w1))))
           else
             (case resp_json b of
                Inl e \<Rightarrow> alert catch_msg w1
              | Inr errorData \<Rightarrow>
                  (case js_get errorData ''message'' of
                     Inl e \<Rightarrow> alert catch_msg w1
                   | Inr m \<Rightarrow>
                       alert (''Login failed: '' @ js_to_string (js_or m (Some (JStr dflt)))) w1))))"

definition adminLoginHandler ::
  "string \<Rightarrow> string \<Rightarrow> fetch_result \<Rightarrow> 'a browser_scheme \<Rightarrow> 'a browser_scheme" where
  "adminLoginHandler username password r w =
     login_flow ''/admin'' (JObj [(''username'', JStr username), (''password'', JStr password)])
       ''admin'' ''/pages/adminDashboard.html'' ''Invalid username or password.''
       ''An error occurred during login. Please try again later.'' r w"

definition doctorLoginHandler ::
  "string \<Rightarrow> string \<Rightarrow> fetch_result \<Rightarrow> 'a browser_scheme \<Rightarrow> 'a browser_scheme" where
  "doctorLoginHandler email password r w =
     login_flow ''/doctor/login'' (JObj [(''email'', JStr email), (''password'', JStr password)])
       ''doctor'' ''/pages/doctorDashboard.html'' ''Invalid email or password.''
       ''An error occurred during login. Please check your network connection.'' r w"

section \<open>The login flow\<close>

text \<open>
  Every run of the flow sends exactly one request, the credentials POST, and
  navigates at most once; the outcomes are a successful login (token and role
  stored, one navigation to the dashboard, no alert) or a failure (storage and
  location untouched, one alert).
\<close>

definition login_request :: "string \<Rightarrow> json \<Rightarrow> 'a browser_scheme \<Rightarrow> http_request" where
  "login_request api creds w = \<lparr>req_method = POST, req_url = api_base w @ api, req_body = Some creds\<rparr>"

definition login_token :: "fetch_result \<Rightarrow> jsval option" where
  "login_token r =
     (case r of
        NetworkError m \<Rightarrow> None
      | Response status b \<Rightarrow>
          (if resp_ok status then
             (case resp_json b of
                Inl e \<Rightarrow> None
              | Inr data \<Rightarrow> (case js_get data ''token'' of Inl e \<Rightarrow> None | Inr t \<Rightarrow> Some t))
           else None))"

lemma login_flow_success:
  assumes "login_token r = Some t"
  shows "login_flow api creds role dest dflt cm r w =
           navigate dest (setItem ''userRole'' role (setItem ''token'' (js_to_string t)
             (send (login_request api creds w) w)))"
  using assms
  by (auto simp: login_flow_def login_token_def login_request_def Let_def
           split: fetch_result.splits if_splits sum.splits)

lemma login_flow_failure:
  assumes "login_token r = None"
  shows "\<exists>msg. login_flow api creds role dest dflt cm r w =
           alert msg (send (login_request api creds w) w)"
  using assms
  by (auto simp: login_flow_def login_token_def login_request_def Let_def
           split: fetch_result.splits if_splits sum.splits)

lemma login_flow_frame [world_simps]:
  "api_base (login_flow api creds role dest dflt cm r w) = api_base w"
  "pathname (login_flow api creds role dest dflt cm r w) = pathname w"
  by (auto simp: login_flow_def Let_def world_simps split: fetch_result.splits sum.splits)

lemma selectRole_stores_role [storage_simps]:
  "getItem k (selectRole btns role w) = (if k = ''userRole'' then Some role else getItem k w)"
  by (simp add: selectRole_def Let_def storage_simps)

section \<open>Properties of the login handlers and the role selection\<close>

text \<open>
  C5. Admin login with accepted credentials: when the server answers with a 2xx
  status and a JSON body whose \<open>token\<close> is the string \<open>t\<close>, the handler
  sends exactly one request (the credentials POST to the admin endpoint), stores
  \<open>t\<close> as the token and \<open>admin\<close> as the role, requests exactly one
  navigation, to the admin dashboard, and shows no alert.
\<close>

theorem adminLoginHandler_success:
  assumes "resp_ok status" and "js_get data ''token'' = Inr (Some (JStr t))"
  shows "getItem ''token'' (adminLoginHandler u p (Response status (JsonBody data)) w) = Some t
       \<and> getItem ''userRole'' (adminLoginHandler u p (Response status (JsonBody data)) w) = Some ''admin''
       \<and> navigations (adminLoginHandler u p (Response status (JsonBody data)) w)
           = navigations w @ [''/pages/adminDashboard.html'']
       \<and> requests (adminLoginHandler u p (Response status (JsonBody data)) w)
           = requests w @ [\<lparr>req_method = POST, req_url = api_base w @ ''/admin'',
                            req_body = Some (JObj [(''username'', JStr u), (''password'', JStr p)])\<rparr>]
       \<and> alerts (adminLoginHandler u p (Response status (JsonBody data)) w) = alerts w"
proof -
  have "login_token (Response status (JsonBody data)) = Some (Some (JStr t))"
    using assms by (simp add: login_token_def)
  then show ?thesis
    by (simp add: adminLoginHandler_def login_flow_success login_request_def
                  storage_simps world_simps)
qed

theorem adminLoginHandler_success_witness:
  "getItem ''token'' (adminLoginHandler ''root'' ''pw''
      (Response 200 (JsonBody (JObj [(''token'', JStr ''tok123'')])))
      \<lparr>storage = Map.empty, api_base = ''http://localhost:8080'', pathname = ''/'',
       navigations = [], alerts = [], requests = [], modal = Some ''adminLogin''\<rparr>) = Some ''tok123''"
  using adminLoginHandler_success [of 200 "JObj [(''token'', JStr ''tok123'')]" "''tok123''"
      "''root''" "''pw''" "\<lparr>storage = Map.empty, api_base = ''http://localhost:8080'', pathname = ''/'',
       navigations = [], alerts = [], requests = [], modal = Some ''adminLogin''\<rparr>"]
  by (simp add: resp_ok_def)

text \<open>
  A failed doctor login (the request could not be sent, or the server
  answered with a non-2xx status) changes nothing in localStorage and requests
  no navigation: the handler sends the one credentials POST and shows exactly
  one alert.
\<close>

theorem doctorLoginHandler_failure:
  assumes "r = NetworkError m \<or> (\<exists>b. r = Response status b \<and> \<not> resp_ok status)"
  shows "storage (doctorLoginHandler e p r w) = storage w
       \<and> navigations (doctorLoginHandler e p r w) = navigations w
       \<and> length (alerts (doctorLoginHandler e p r w)) = Suc (length (alerts w))
       \<and> requests (doctorLoginHandler e p r w)
           = requests w @ [\<lparr>req_method = POST, req_url = api_base w @ ''/doctor/login'',
                            req_body = Some (JObj [(''email'', JStr e), (''password'', JStr p)])\<rparr>]"
proof -
  have "login_token r = None"
    using assms by (auto simp: login_token_def)
  then obtain msg where
    "doctorLoginHandler e p r w =
       alert msg (send (login_request ''/doctor/login''
         (JObj [(''email'', JStr e), (''password'', JStr p)]) w) w)"
    unfolding doctorLoginHandler_def by (metis login_flow_failure)
  then show ?thesis by (simp add: login_request_def world_simps)
qed

theorem doctorLoginHandler_failure_witness:
  "alerts (doctorLoginHandler ''a@b.c'' ''bad''
      (Response 401 (JsonBody (JObj [(''message'', JStr ''Invalid credentials'')])))
      \<lparr>storage = Map.empty, api_base = [], pathname = ''/'',
       navigations = [], alerts = [], requests = [], modal = None\<rparr>)
   = [''Login failed: Invalid credentials'']
   \<and> navigations (doctorLoginHandler ''a@b.c'' ''bad''
      (Response 401 (JsonBody (JObj [(''message'', JStr ''Invalid credentials'')])))
      \<lparr>storage = Map.empty, api_base = [], pathname = ''/'',
       navigations = [], alerts = [], requests = [], modal = None\<rparr>) = []"
proof -
  have "navigations (doctorLoginHandler ''a@b.c'' ''bad''
      (Response 401 (JsonBody (JObj [(''message'', JStr ''Invalid credentials'')])))
      \<lparr>storage = Map.empty, api_base = [], pathname = ''/'',
       navigations = [], alerts = [], requests = [], modal = None\<rparr>) = []"
    using doctorLoginHandler_failure [of "Response 401 (JsonBody (JObj [(''message'', JStr ''Invalid credentials'')]))"
        _ 401 "''a@b.c''" "''bad''" "\<lparr>storage = Map.empty, api_base = [], pathname = ''/'',
       navigations = [], alerts = [], requests = [], modal = None\<rparr>"]
    by (simp add: resp_ok_def)
  moreover have "alerts (doctorLoginHandler ''a@b.c'' ''bad''
      (Response 401 (JsonBody (JObj [(''message'', JStr ''Invalid credentials'')])))
      \<lparr>storage = Map.empty, api_base = [], pathname = ''/'',
       navigations = [], alerts = [], requests = [], modal = None\<rparr>)
   = [''Login failed: Invalid credentials'']"
    by (simp add: doctorLoginHandler_def login_flow_def resp_ok_def alert_def send_def)
  ultimately show ?thesis by simp
qed

text \<open>
  C6. A 2xx login answer whose body has no \<open>token\<close> member still counts as
  a successful login: the handler stores the string \<open>"undefined"\<close> (what
  \<open>setItem\<close> makes of \<open>undefined\<close>) as the token, the admin role, and goes
  to the admin dashboard.
\<close>

theorem adminLoginHandler_missing_token:
  assumes "resp_ok status" and "js_get data ''token'' = Inr None"
  shows "getItem ''token'' (adminLoginHandler u p (Response status (JsonBody data)) w) = Some ''undefined''
       \<and> getItem ''userRole'' (adminLoginHandler u p (Response status (JsonBody data)) w) = Some ''admin''
       \<and> navigations (adminLoginHandler u p (Response status (JsonBody data)) w)
           = navigations w @ [''/pages/adminDashboard.html'']"
proof -
  have "login_token (Response status (JsonBody data)) = Some None"
    using assms by (simp add: login_token_def)
  then show ?thesis
    by (simp add: adminLoginHandler_def login_flow_success storage_simps world_simps)
qed

theorem adminLoginHandler_missing_token_witness:
  "getItem ''token'' (adminLoginHandler ''root'' ''pw'' (Response 200 (JsonBody (JObj [])))
      \<lparr>storage = Map.empty, api_base = [], pathname = ''/'',
       navigations = [], alerts = [], requests = [], modal = None\<rparr>) = Some ''undefined''"
  using adminLoginHandler_missing_token [of 200 "JObj []" "''root''" "''pw''"
      "\<lparr>storage = Map.empty, api_base = [], pathname = ''/'',
       navigations = [], alerts = [], requests = [], modal = None\<rparr>"]
  by (simp add: resp_ok_def)

text \<open>
  C7. selectRole stores the chosen role, but which branch it takes depends on
  the buttons the page has, not on the role: on a page that has the admin
  button (the role-selection page has all three), choosing the patient role
  requests no navigation to the patient dashboard.
\<close>

theorem selectRole_patient_no_navigation:
  assumes "has_admin_btn btns"
  shows "getItem ''userRole'' (selectRole btns ''patient'' w) = Some ''patient''
       \<and> navigations (selectRole btns ''patient'' w) = navigations w"
  using assms by (simp add: selectRole_def storage_simps world_simps)

theorem selectRole_patient_no_navigation_witness:
  "navigations (selectRole \<lparr>has_admin_btn = True, has_doctor_btn = True, has_patient_btn = True\<rparr>
      ''patient'' \<lparr>storage = Map.empty, api_base = [], pathname = ''/'',
       navigations = [], alerts = [], requests = [], modal = None\<rparr>) = []"
  using selectRole_patient_no_navigation [of "\<lparr>has_admin_btn = True, has_doctor_btn = True,
      has_patient_btn = True\<rparr>" "\<lparr>storage = Map.empty, api_base = [], pathname = ''/'',
       navigations = [], alerts = [], requests = [], modal = None\<rparr>"]
  by simp

end
