(* ===== verification/Header.thy ===== *)
theory Header
  imports Index
begin

text \<open>
  components/header.js: \<open>renderHeader\<close> re-derives the header from the
  session in localStorage each time a page loads. On the root page it clears
  the role and shows the logo only; elsewhere it first checks for an expired
  session (an authenticated role without a token), which clears the role,
  alerts and redirects to the root page without rendering any control;
  otherwise it renders the role's controls. The controls' handlers are
  \<open>logout\<close>, \<open>logoutPatient\<close>, the inline \<open>onclick\<close> attributes and the
  listeners of \<open>attachHeaderButtonListeners\<close>, all modelled by
  \<open>headerClick\<close>. The header's markup is modelled by which controls it
  holds, in order.
\<close>

datatype nav_item =
    AddDocBtn
  | LogoutLink
  | DoctorHomeBtn
  | PatientLoginBtn
  | PatientSignupBtn
  | PatientHomeBtn
  | PatientAppointmentsBtn
  | PatientLogoutLink

datatype header_view = HeaderEmpty | HeaderLogo | HeaderNav "nav_item list"

text \<open>A page that loads header.js: \<open>None\<close> when it has no element \<open>#header\<close>.\<close>

record header_page = browser +
  header_div :: "header_view option"

text \<open>Step 7 of renderHeader: the controls of each role.\<close>

definition nav_items :: "string option \<Rightarrow> nav_item list" where
  "nav_items role =
     (if role = Some ''admin'' then [AddDocBtn, LogoutLink]
      else if role = Some ''doctor'' then [DoctorHomeBtn, LogoutLink]
      else if role = Some ''patient'' then [PatientLoginBtn, PatientSignupBtn]
      else if role = Some ''loggedPatient'' then
        [PatientHomeBtn, PatientAppointmentsBtn, PatientLogoutLink]
      else [])"

text \<open>Step 6: the condition for an expired or invalid session.\<close>

definition session_expired :: "string option \<Rightarrow> string option \<Rightarrow> bool" where
  "session_expired role token \<longleftrightarrow>
     (role = Some ''loggedPatient'' \<or> role = Some ''admin'' \<or> role = Some ''doctor'')
     \<and> \<not> str_truthy token"

definition expired_msg :: string where
  "expired_msg = ''Session expired or invalid login. Please log in again.''"

definition renderHeader :: "'a header_page_scheme \<Rightarrow> 'a header_page_scheme" where
  "renderHeader w =
     (case header_div w of
        None \<Rightarrow> w
      | Some _ \<Rightarrow>
          (if js_endsWith (pathname w) ''/'' then
             (removeItem ''userRole'' w)\<lparr>header_div := Some HeaderLogo\<rparr>
           else
             (let role = getItem ''userRole'' w; token = getItem ''token'' w in
              if session_expired role token then
                navigate ''/'' (alert expired_msg (removeItem ''userRole'' w))
              else w\<lparr>header_div := Some (HeaderNav (nav_items role))\<rparr>)))"

definition logout :: "'a browser_scheme \<Rightarrow> 'a browser_scheme" where
  "logout w =
     navigate ''/'' (alert ''Logged out successfully.''
       (removeItem ''token'' (removeItem ''userRole'' w)))"

definition logoutPatient :: "'a browser_scheme \<Rightarrow> 'a browser_scheme" where
  "logoutPatient w =
     navigate ''/pages/patientDashboard.html'' (alert ''Logged out successfully.''
       (setItem ''userRole'' ''patient'' (removeItem ''token'' w)))"

text \<open>
  A click on a header control. The patient login and sign-up buttons get their
  listeners from attachHeaderButtonListeners, which open the modal only when a
  global \<open>openModal\<close> exists (\<open>has_openModal\<close>); the doctor's Home
  button calls the global \<open>selectRole\<close> of index.js with the page's role
  buttons.
\<close>

fun headerClick ::
  "bool \<Rightarrow> role_buttons \<Rightarrow> nav_item \<Rightarrow> 'a header_page_scheme \<Rightarrow> 'a header_page_scheme" where
  "headerClick has_openModal btns AddDocBtn w = openModal ''addDoctor'' w"
| "headerClick has_openModal btns LogoutLink w = logout w"
| "headerClick has_openModal btns DoctorHomeBtn w = selectRole btns ''doctor'' w"
| "headerClick has_openModal btns PatientLoginBtn w =
     (if has_openModal then openModal ''patientLogin'' w else w)"
| "headerClick has_openModal btns PatientSignupBtn w =
     (if has_openModal then openModal ''patientSignup'' w else w)"
| "headerClick has_openModal btns PatientHomeBtn w =
     navigate ''/pages/loggedPatientDashboard.html'' w"
| "headerClick has_openModal btns PatientAppointmentsBtn w =
     navigate ''/pages/patientAppointments.html'' w"
| "headerClick has_openModal btns PatientLogoutLink w = logoutPatient w"

section \<open>The session check\<close>

text \<open>
  The spec's session invariant: an authenticated role (admin, doctor, logged-in
  patient) is stored only together with a token.
\<close>

definition auth_role :: "string option \<Rightarrow> bool" where
  "auth_role role \<longleftrightarrow> role = Some ''loggedPatient'' \<or> role = Some ''admin'' \<or> role = Some ''doctor''"

definition session_consistent :: "'a browser_scheme \<Rightarrow> bool" where
  "session_consistent w \<longleftrightarrow> (auth_role (getItem ''userRole'' w) \<longrightarrow> str_truthy (getItem ''token'' w))"

text \<open>The controls only an authenticated user may see: all but Login and Sign Up.\<close>

definition auth_control :: "nav_item \<Rightarrow> bool" where
  "auth_control x \<longleftrightarrow> x \<noteq> PatientLoginBtn \<and> x \<noteq> PatientSignupBtn"

lemma session_expired_auth_role: "session_expired role token \<longleftrightarrow> auth_role role \<and> \<not> str_truthy token"
  by (simp add: session_expired_def auth_role_def)

lemma nav_items_auth_control:
  assumes "x \<in> set (nav_items role)" and "auth_control x"
  shows "auth_role role"
  using assms by (auto simp: nav_items_def auth_control_def auth_role_def split: if_splits)

lemma header_page_frame [world_simps]:
  "header_div (setItem k v w) = header_div w"
  "header_div (removeItem k w) = header_div w"
  "header_div (alert m w) = header_div w"
  "header_div (navigate p w) = header_div w"
  "header_div (send r w) = header_div w"
  "header_div (openModal n w) = header_div w"
  by (simp_all add: setItem_def removeItem_def alert_def navigate_def send_def openModal_def)

lemma getItem_header_div_upd [storage_simps]:
  "getItem k (w\<lparr>header_div := h\<rparr>) = getItem k w"
  by (simp add: getItem_def)

lemma renderHeader_not_root:
  assumes "header_div w \<noteq> None" and "\<not> js_endsWith (pathname w) ''/''"
  shows "renderHeader w =
           (if session_expired (getItem ''userRole'' w) (getItem ''token'' w) then
              navigate ''/'' (alert expired_msg (removeItem ''userRole'' w))
            else w\<lparr>header_div := Some (HeaderNav (nav_items (getItem ''userRole'' w)))\<rparr>)"
  using assms by (auto simp: renderHeader_def Let_def)

lemma renderHeader_root:
  assumes "header_div w \<noteq> None" and "js_endsWith (pathname w) ''/''"
  shows "renderHeader w = (removeItem ''userRole'' w)\<lparr>header_div := Some HeaderLogo\<rparr>"
  using assms by (auto simp: renderHeader_def)

section \<open>Properties of the header\<close>

text \<open>
  C1. On a page other than the root, a session whose role is an authenticated
  one (loggedPatient, admin, doctor) but which has no token is treated as
  expired: the role is removed, one alert is shown, exactly one redirect to the
  root page is requested, the header is left as it was (no control is rendered)
  and the token entry is not touched.
\<close>

theorem renderHeader_expired_redirect:
  assumes "header_div w \<noteq> None" and "\<not> js_endsWith (pathname w) ''/''"
    and "auth_role (getItem ''userRole'' w)" and "\<not> str_truthy (getItem ''token'' w)"
  shows "header_div (renderHeader w) = header_div w
       \<and> getItem ''userRole'' (renderHeader w) = None
       \<and> getItem ''token'' (renderHeader w) = getItem ''token'' w
       \<and> navigations (renderHeader w) = navigations w @ [''/'']
       \<and> alerts (renderHeader w) = alerts w @ [expired_msg]"
  using assms
  by (simp add: renderHeader_not_root session_expired_auth_role storage_simps world_simps)

theorem renderHeader_expired_redirect_witness:
  "header_div (renderHeader \<lparr>storage = [''userRole'' \<mapsto> ''loggedPatient''], api_base = [],
      pathname = ''/pages/loggedPatientDashboard.html'', navigations = [], alerts = [],
      requests = [], modal = None, header_div = Some HeaderEmpty\<rparr>) = Some HeaderEmpty
   \<and> navigations (renderHeader \<lparr>storage = [''userRole'' \<mapsto> ''loggedPatient''], api_base = [],
      pathname = ''/pages/loggedPatientDashboard.html'', navigations = [], alerts = [],
      requests = [], modal = None, header_div = Some HeaderEmpty\<rparr>) = [''/'']"
  using renderHeader_expired_redirect [of "\<lparr>storage = [''userRole'' \<mapsto> ''loggedPatient''], api_base = [],
      pathname = ''/pages/loggedPatientDashboard.html'', navigations = [], alerts = [],
      requests = [], modal = None, header_div = Some HeaderEmpty\<rparr>"]
  by (simp add: js_endsWith_def auth_role_def getItem_def)

text \<open>
  C2. Whatever localStorage holds (including storage cleared or edited outside
  the client), rendering the header on a page that has one leaves the session
  consistent: an authenticated role is left stored only together with a token.
\<close>

theorem renderHeader_session_consistent:
  assumes "header_div w \<noteq> None"
  shows "session_consistent (renderHeader w)"
proof (cases "js_endsWith (pathname w) ''/''")
  case True
  then show ?thesis using assms
    by (simp add: renderHeader_root session_consistent_def auth_role_def storage_simps)
next
  case False
  then show ?thesis using assms
    by (auto simp: renderHeader_not_root session_consistent_def session_expired_auth_role
                   auth_role_def storage_simps)
qed

theorem renderHeader_session_consistent_witness:
  "session_consistent (renderHeader \<lparr>storage = [''userRole'' \<mapsto> ''admin''], api_base = [],
      pathname = ''/pages/adminDashboard.html'', navigations = [], alerts = [],
      requests = [], modal = None, header_div = Some HeaderEmpty\<rparr>)"
  by (rule renderHeader_session_consistent) simp

text \<open>
  C3. When a page loads with its empty header element, every control the
  rendered header offers that needs a login (all but Login and Sign Up) is
  offered only while a token is stored.
\<close>

theorem renderHeader_controls_need_token:
  assumes "header_div w = Some HeaderEmpty"
    and "header_div (renderHeader w) = Some (HeaderNav xs)"
    and "x \<in> set xs" and "auth_control x"
  shows "str_truthy (getItem ''token'' (renderHeader w))"
proof (cases "js_endsWith (pathname w) ''/''")
  case True
  with assms(1,2) show ?thesis by (simp add: renderHeader_root)
next
  case False
  show ?thesis
  proof (cases "session_expired (getItem ''userRole'' w) (getItem ''token'' w)")
    case True
    with False assms(1,2) show ?thesis by (simp add: renderHeader_not_root world_simps)
  next
    case nexp: False
    with False assms(1,2) have xs: "xs = nav_items (getItem ''userRole'' w)"
      by (simp add: renderHeader_not_root)
    with assms(3,4) have "auth_role (getItem ''userRole'' w)"
      by (simp add: nav_items_auth_control)
    with nexp have "str_truthy (getItem ''token'' w)"
      by (simp add: session_expired_auth_role)
    with False nexp assms(1) show ?thesis
      by (simp add: renderHeader_not_root storage_simps)
  qed
qed

theorem renderHeader_controls_need_token_witness:
  "str_truthy (getItem ''token'' (renderHeader \<lparr>storage = [''userRole'' \<mapsto> ''admin'', ''token'' \<mapsto> ''t0''],
      api_base = [], pathname = ''/pages/adminDashboard.html'', navigations = [], alerts = [],
      requests = [], modal = None, header_div = Some HeaderEmpty\<rparr>))"
  by (rule renderHeader_controls_need_token [where xs = "[AddDocBtn, LogoutLink]" and x = LogoutLink])
     (simp_all add: renderHeader_def js_endsWith_def session_expired_def nav_items_def
        auth_control_def getItem_def)

text \<open>
  On the root page the header shows the logo only and the stored role is
  removed, but the token is kept: visiting the root page does not end a
  login session.
\<close>

theorem renderHeader_root_keeps_token:
  assumes "header_div w \<noteq> None" and "js_endsWith (pathname w) ''/''"
  shows "header_div (renderHeader w) = Some HeaderLogo
       \<and> getItem ''userRole'' (renderHeader w) = None
       \<and> getItem ''token'' (renderHeader w) = getItem ''token'' w
       \<and> navigations (renderHeader w) = navigations w
       \<and> alerts (renderHeader w) = alerts w"
  using assms by (simp add: renderHeader_root storage_simps world_simps)

theorem renderHeader_root_keeps_token_witness:
  "getItem ''token'' (renderHeader \<lparr>storage = [''userRole'' \<mapsto> ''admin'', ''token'' \<mapsto> ''t0''],
      api_base = [], pathname = ''/'', navigations = [], alerts = [],
      requests = [], modal = None, header_div = Some HeaderEmpty\<rparr>) = Some ''t0''"
  using renderHeader_root_keeps_token [of "\<lparr>storage = [''userRole'' \<mapsto> ''admin'', ''token'' \<mapsto> ''t0''],
      api_base = [], pathname = ''/'', navigations = [], alerts = [],
      requests = [], modal = None, header_div = Some HeaderEmpty\<rparr>"]
  by (simp add: js_endsWith_def getItem_def)

text \<open>
  C4. logout ends the session: role and token are removed, every other stored
  key is kept, one alert is shown and one navigation to the root page is
  requested.
\<close>

theorem logout_clears_session:
  "getItem ''userRole'' (logout w) = None
   \<and> getItem ''token'' (logout w) = None
   \<and> (\<forall>k. k \<noteq> ''userRole'' \<and> k \<noteq> ''token'' \<longrightarrow> getItem k (logout w) = getItem k w)
   \<and> navigations (logout w) = navigations w @ [''/'']
   \<and> alerts (logout w) = alerts w @ [''Logged out successfully.'']"
  by (simp add: logout_def storage_simps world_simps)

theorem logout_clears_session_witness:
  "getItem ''doctorId'' (logout \<lparr>storage = [''userRole'' \<mapsto> ''doctor'', ''token'' \<mapsto> ''t0'',
      ''doctorId'' \<mapsto> ''7''], api_base = [], pathname = ''/pages/doctorDashboard.html'',
      navigations = [], alerts = [], requests = [], modal = None\<rparr>) = Some ''7''"
  using logout_clears_session [of "\<lparr>storage = [''userRole'' \<mapsto> ''doctor'', ''token'' \<mapsto> ''t0'',
      ''doctorId'' \<mapsto> ''7''], api_base = [], pathname = ''/pages/doctorDashboard.html'',
      navigations = [], alerts = [], requests = [], modal = None\<rparr>"]
  by (simp add: getItem_def)

text \<open>
  logoutPatient demotes a logged-in patient: the token is removed, the role
  becomes the unauthenticated patient, and one navigation to the patient
  landing page is requested; the session is consistent afterwards.
\<close>

theorem logoutPatient_demotes:
  "getItem ''token'' (logoutPatient w) = None
   \<and> getItem ''userRole'' (logoutPatient w) = Some ''patient''
   \<and> navigations (logoutPatient w) = navigations w @ [''/pages/patientDashboard.html'']
   \<and> session_consistent (logoutPatient w)"
  by (simp add: logoutPatient_def session_consistent_def auth_role_def storage_simps world_simps)

theorem logoutPatient_demotes_witness:
  "session_consistent (logoutPatient \<lparr>storage = [''userRole'' \<mapsto> ''loggedPatient'', ''token'' \<mapsto> ''t0''],
      api_base = [], pathname = ''/pages/loggedPatientDashboard.html'',
      navigations = [], alerts = [], requests = [], modal = None\<rparr>)"
  using logoutPatient_demotes [of "\<lparr>storage = [''userRole'' \<mapsto> ''loggedPatient'', ''token'' \<mapsto> ''t0''],
      api_base = [], pathname = ''/pages/loggedPatientDashboard.html'',
      navigations = [], alerts = [], requests = [], modal = None\<rparr>"]
  by simp

end
