(* ===== verification/Session.thy ===== *)
theory Session
  imports Header
begin

text \<open>
  The client-side session as a state machine (spec section 4.1). A state is a
  page of the browser (\<open>header_page\<close>): localStorage, the current path, the
  header the page shows and the effects so far. The steps are what a user can
  do: open a URL, click a role button or submit a login form on the
  role-selection page (the root page, which has all three role buttons), or
  click a control that the header shows (dashboard pages have no role buttons).
  After a handler has requested navigations the browser loads the last one, and
  the new page's header.js runs \<open>renderHeader\<close> again; loading a page
  follows the one redirect that \<open>renderHeader\<close> may request, which always
  targets the root page, where it never requests another.

  The invariants proved by rule induction over the reachable pages are the one
  the header's session check exists for (a header that shows a control requiring
  a login is shown only while a token is stored) and the stronger one that the
  header shown is always current with the store. Their base case is any first
  page load from any storage contents, so they cover storage that was cleared or
  edited before the page loaded. \<open>session_step\<close> states the same moves as a
  relation between two pages; \<open>load_settled\<close> is the browser's own loop of
  following navigations, proved to end after at most one redirect.
\<close>

definition loadPage :: "string \<Rightarrow> 'a header_page_scheme \<Rightarrow> 'a header_page_scheme" where
  "loadPage p w = renderHeader (w\<lparr>pathname := p, modal := None, header_div := Some HeaderEmpty\<rparr>)"

definition visit :: "string \<Rightarrow> 'a header_page_scheme \<Rightarrow> 'a header_page_scheme" where
  "visit p w =
     (let w1 = loadPage p w in
      if length (navigations w) < length (navigations w1) then loadPage (last (navigations w1)) w1
      else w1)"

text \<open>
  The browser itself follows every navigation a page requests while it loads, for
  as long as the pages keep requesting them; nothing bounds the chain in advance,
  so the loop is a partial function whose value \<open>None\<close> is a page that never
  settles.
\<close>

partial_function (option) load_settled ::
  "string \<Rightarrow> 'a header_page_scheme \<Rightarrow> 'a header_page_scheme option" where
  "load_settled p w =
     (let w1 = loadPage p w in
      if length (navigations w) < length (navigations w1) then load_settled (last (navigations w1)) w1
      else Some w1)"

definition after :: "'a header_page_scheme \<Rightarrow> 'a header_page_scheme \<Rightarrow> 'a header_page_scheme" where
  "after w w1 =
     (if length (navigations w) < length (navigations w1) then visit (last (navigations w1)) w1
      else w1)"

definition index_buttons :: role_buttons where
  "index_buttons = \<lparr>has_admin_btn = True, has_doctor_btn = True, has_patient_btn = True\<rparr>"

definition no_buttons :: role_buttons where
  "no_buttons = \<lparr>has_admin_btn = False, has_doctor_btn = False, has_patient_btn = False\<rparr>"

text \<open>The roles the role-selection page's buttons pass to \<open>selectRole\<close>.\<close>

definition selectable_role :: "string \<Rightarrow> bool" where
  "selectable_role r \<longleftrightarrow> r = ''admin'' \<or> r = ''doctor'' \<or> r = ''patient''"

inductive session_reach :: "header_page \<Rightarrow> bool" where
  open_url: "session_reach (visit p w)"
| visit_url: "session_reach w \<Longrightarrow> session_reach (visit p w)"
| choose_role: "session_reach w \<Longrightarrow> pathname w = ''/'' \<Longrightarrow> selectable_role r \<Longrightarrow>
     session_reach (after w (selectRole index_buttons r w))"
| admin_login: "session_reach w \<Longrightarrow> pathname w = ''/'' \<Longrightarrow>
     session_reach (after w (adminLoginHandler u pw r w))"
| doctor_login: "session_reach w \<Longrightarrow> pathname w = ''/'' \<Longrightarrow>
     session_reach (after w (doctorLoginHandler e pw r w))"
| header_click: "session_reach w \<Longrightarrow> header_div w = Some (HeaderNav xs) \<Longrightarrow> x \<in> set xs \<Longrightarrow>
     session_reach (after w (headerClick True no_buttons x w))"

text \<open>
  The same moves as a step relation between two pages, for statements about a
  single step of a run.
\<close>

inductive session_step :: "header_page \<Rightarrow> header_page \<Rightarrow> bool" where
  visit_url: "session_step w (visit p w)"
| choose_role: "pathname w = ''/'' \<Longrightarrow> selectable_role r \<Longrightarrow>
     session_step w (after w (selectRole index_buttons r w))"
| admin_login: "pathname w = ''/'' \<Longrightarrow> session_step w (after w (adminLoginHandler u pw r w))"
| doctor_login: "pathname w = ''/'' \<Longrightarrow> session_step w (after w (doctorLoginHandler e pw r w))"
| header_click: "header_div w = Some (HeaderNav xs) \<Longrightarrow> x \<in> set xs \<Longrightarrow>
     session_step w (after w (headerClick True no_buttons x w))"

inductive_cases session_stepE: "session_step w w'"

text \<open>The header's promise, as a predicate of one page.\<close>

definition header_guarded :: "'a header_page_scheme \<Rightarrow> bool" where
  "header_guarded w \<longleftrightarrow>
     (\<forall>xs. header_div w = Some (HeaderNav xs) \<longrightarrow> list_ex auth_control xs \<longrightarrow>
        str_truthy (getItem ''token'' w))"

text \<open>
  Spec section 4.3: the header re-derives its controls from the session store and
  must be rendered again after every change of role or token. The header a page
  shows is current when it is what renderHeader would render from the store as
  it is now: a role's controls only for that role and a session that has not
  expired, and the logo on the root page.
\<close>

definition header_current :: "'a header_page_scheme \<Rightarrow> bool" where
  "header_current w \<longleftrightarrow>
     (\<forall>xs. header_div w = Some (HeaderNav xs) \<longrightarrow>
        xs = nav_items (getItem ''userRole'' w)
        \<and> \<not> session_expired (getItem ''userRole'' w) (getItem ''token'' w))
     \<and> (js_endsWith (pathname w) ''/'' \<longrightarrow> header_div w = Some HeaderLogo)"

text \<open>A handler that does not navigate keeps the path, the header, and the session the header shows.\<close>

definition keeps_view :: "'a header_page_scheme \<Rightarrow> 'a header_page_scheme \<Rightarrow> bool" where
  "keeps_view w w1 \<longleftrightarrow>
     header_div w1 = header_div w \<and> pathname w1 = pathname w
     \<and> (\<forall>xs. header_div w = Some (HeaderNav xs) \<longrightarrow>
          getItem ''userRole'' w1 = getItem ''userRole'' w \<and> getItem ''token'' w1 = getItem ''token'' w)"

section \<open>Page loads\<close>

lemma loadPage_header_current: "header_current (loadPage p w)"
  by (auto simp: loadPage_def renderHeader_def header_current_def Let_def storage_simps world_simps)

lemma visit_header_current: "header_current (visit p w)"
  by (simp add: visit_def Let_def loadPage_header_current)

lemma after_header_current:
  assumes "header_current w"
    and "length (navigations w) < length (navigations w1) \<or> keeps_view w w1"
  shows "header_current (after w w1)"
proof (cases "length (navigations w) < length (navigations w1)")
  case True
  then show ?thesis by (simp add: after_def visit_header_current)
next
  case False
  with assms(2) have "keeps_view w w1" by simp
  with False assms(1) show ?thesis
    by (auto simp: after_def keeps_view_def header_current_def)
qed

lemma loadPage_root_no_navigation:
  "navigations (loadPage ''/'' w) = navigations w"
  by (simp add: loadPage_def renderHeader_root js_endsWith_def world_simps)

lemma loadPage_header_guarded: "header_guarded (loadPage p w)"
  unfolding header_guarded_def list_ex_iff
  using renderHeader_controls_need_token [of "w\<lparr>pathname := p, modal := None, header_div := Some HeaderEmpty\<rparr>"]
  by (auto simp: loadPage_def)

lemma loadPage_navigations:
  "navigations (loadPage p w) = navigations w
   \<or> navigations (loadPage p w) = navigations w @ [''/'']"
  by (simp add: loadPage_def renderHeader_def Let_def world_simps)

lemma visit_header_guarded: "header_guarded (visit p w)"
  by (simp add: visit_def Let_def loadPage_header_guarded)

text \<open>
  Each handler a step runs either requests a navigation (and the page is
  replaced) or leaves the token and the header as they were.
\<close>

definition keeps_token_and_header :: "'a header_page_scheme \<Rightarrow> 'a header_page_scheme \<Rightarrow> bool" where
  "keeps_token_and_header w w1 \<longleftrightarrow>
     getItem ''token'' w1 = getItem ''token'' w \<and> header_div w1 = header_div w"

lemma after_header_guarded:
  assumes "header_guarded w"
    and "length (navigations w) < length (navigations w1) \<or> keeps_token_and_header w w1"
  shows "header_guarded (after w w1)"
proof (cases "length (navigations w) < length (navigations w1)")
  case True
  then show ?thesis by (simp add: after_def visit_header_guarded)
next
  case False
  with assms(2) have "keeps_token_and_header w w1" by simp
  with False assms(1) show ?thesis
    by (simp add: after_def keeps_token_and_header_def header_guarded_def)
qed

lemma selectRole_keeps:
  "length (navigations w) < length (navigations (selectRole b r w))
   \<or> keeps_token_and_header w (selectRole b r w)"
  by (auto simp: selectRole_def Let_def keeps_token_and_header_def storage_simps world_simps)

lemma login_flow_keeps:
  "length (navigations w) < length (navigations (login_flow api c role d m cm r w))
   \<or> keeps_token_and_header w (login_flow api c role d m cm r w)"
proof (cases "login_token r")
  case None
  then obtain msg where "login_flow api c role d m cm r w = alert msg (send (login_request api c w) w)"
    using login_flow_failure by metis
  then show ?thesis by (simp add: keeps_token_and_header_def storage_simps world_simps)
next
  case (Some t)
  then show ?thesis by (simp add: login_flow_success world_simps)
qed

lemma headerClick_keeps:
  "length (navigations w) < length (navigations (headerClick True b x w))
   \<or> keeps_token_and_header w (headerClick True b x w)"
proof (cases x)
  case DoctorHomeBtn
  then show ?thesis using selectRole_keeps by simp
qed (auto simp: keeps_token_and_header_def logout_def logoutPatient_def openModal_def
                getItem_def world_simps)

lemma session_reach_step:
  assumes "session_reach w" and "session_step w w'"
  shows "session_reach w'"
  using assms(2)
proof cases
  case (visit_url p)
  then show ?thesis using assms(1) by (simp add: session_reach.visit_url)
next
  case (choose_role r)
  then show ?thesis using assms(1) by (simp add: session_reach.choose_role)
next
  case (admin_login u pw r)
  then show ?thesis using assms(1) by (simp add: session_reach.admin_login)
next
  case (doctor_login e pw r)
  then show ?thesis using assms(1) by (simp add: session_reach.doctor_login)
next
  case (header_click xs x)
  then show ?thesis using assms(1) by (blast intro: session_reach.header_click)
qed

lemma selectRole_root_keeps_view:
  assumes "header_current w" and "pathname w = ''/''"
  shows "keeps_view w (selectRole index_buttons r w)"
  using assms
  by (simp add: selectRole_def index_buttons_def keeps_view_def header_current_def js_endsWith_def
                world_simps header_page_frame)

lemma login_flow_keeps_view:
  "length (navigations w) < length (navigations (login_flow api c role d m cm r w))
   \<or> keeps_view w (login_flow api c role d m cm r w)"
proof (cases "login_token r")
  case None
  then obtain msg where "login_flow api c role d m cm r w = alert msg (send (login_request api c w) w)"
    using login_flow_failure by metis
  then show ?thesis by (simp add: keeps_view_def storage_simps world_simps)
next
  case (Some t)
  then show ?thesis by (simp add: login_flow_success world_simps)
qed

lemma doctorHome_role:
  assumes "header_current w" and "header_div w = Some (HeaderNav xs)" and "DoctorHomeBtn \<in> set xs"
  shows "getItem ''userRole'' w = Some ''doctor''"
  using assms by (auto simp: header_current_def nav_items_def split: if_splits)

lemma headerClick_keeps_view:
  assumes "header_current w" and "header_div w = Some (HeaderNav xs)" and "x \<in> set xs"
  shows "length (navigations w) < length (navigations (headerClick True no_buttons x w))
         \<or> keeps_view w (headerClick True no_buttons x w)"
proof (cases x)
  case DoctorHomeBtn
  with assms have "getItem ''userRole'' w = Some ''doctor''" by (simp add: doctorHome_role)
  with DoctorHomeBtn show ?thesis
    by (simp add: selectRole_def no_buttons_def keeps_view_def storage_simps world_simps header_page_frame)
qed (auto simp: keeps_view_def logout_def logoutPatient_def openModal_def getItem_def world_simps)

lemma reach_header_current:
  assumes "session_reach w"
  shows "header_current w"
  using assms
proof (induction rule: session_reach.induct)
  case (open_url p w)
  show ?case by (rule visit_header_current)
next
  case (visit_url w p)
  show ?case by (rule visit_header_current)
next
  case (choose_role w r)
  then show ?case by (simp add: after_header_current selectRole_root_keeps_view)
next
  case (admin_login w u pw r)
  then show ?case by (simp add: adminLoginHandler_def after_header_current login_flow_keeps_view)
next
  case (doctor_login w e pw r)
  then show ?case by (simp add: doctorLoginHandler_def after_header_current login_flow_keeps_view)
next
  case (header_click w xs x)
  then show ?case by (simp add: after_header_current headerClick_keeps_view)
qed

section \<open>Properties of the session machine\<close>

text \<open>
  C10. Loading a page always settles, after at most one redirect: the only
  navigation renderHeader requests goes to the root page, whose load requests
  none. So the browser's redirect loop returns, and its result is \<open>visit\<close>, the
  one-redirect page load the session machine uses.
\<close>

theorem load_settled_visit: "load_settled p w = Some (visit p w)"
proof -
  have root: "load_settled ''/'' w1 = Some (loadPage ''/'' w1)" for w1 :: "'a header_page_scheme"
    by (subst load_settled.simps) (simp add: loadPage_root_no_navigation)
  show ?thesis
  proof (cases "length (navigations w) < length (navigations (loadPage p w))")
    case True
    with loadPage_navigations [of p w] have "last (navigations (loadPage p w)) = ''/''" by auto
    with True root show ?thesis by (subst load_settled.simps) (simp add: visit_def Let_def)
  next
    case False
    then show ?thesis by (subst load_settled.simps) (simp add: visit_def Let_def)
  qed
qed


text \<open>
  In every reachable state of the session machine (from a first page load
  with any storage contents, through page loads, role choices, logins and header
  clicks), a header that shows a control requiring a login is shown only while a
  non-empty token is stored.
\<close>

theorem session_reach_header_guarded:
  assumes "session_reach w"
  shows "header_guarded w"
  using assms
proof (induction rule: session_reach.induct)
  case (open_url p w)
  show ?case by (rule visit_header_guarded)
next
  case (visit_url w p)
  show ?case by (rule visit_header_guarded)
next
  case (choose_role w r)
  then show ?case by (simp add: after_header_guarded selectRole_keeps)
next
  case (admin_login w u pw r)
  then show ?case by (simp add: adminLoginHandler_def after_header_guarded login_flow_keeps)
next
  case (doctor_login w e pw r)
  then show ?case by (simp add: doctorLoginHandler_def after_header_guarded login_flow_keeps)
next
  case (header_click w xs x)
  then show ?case by (simp add: after_header_guarded headerClick_keeps)
qed

theorem session_reach_header_guarded_witness:
  "header_guarded (after (visit ''/'' \<lparr>storage = Map.empty, api_base = [], pathname = [],
       navigations = [], alerts = [], requests = [], modal = None, header_div = None\<rparr>)
     (adminLoginHandler ''root'' ''pw'' (Response 200 (JsonBody (JObj [(''token'', JStr ''t0'')])))
       (visit ''/'' \<lparr>storage = Map.empty, api_base = [], pathname = [],
       navigations = [], alerts = [], requests = [], modal = None, header_div = None\<rparr>)))"
proof (rule session_reach_header_guarded)
  let ?w0 = "\<lparr>storage = Map.empty, api_base = [], pathname = [],
       navigations = [], alerts = [], requests = [], modal = None, header_div = None\<rparr> :: header_page"
  have "session_reach (visit ''/'' ?w0)" by (rule session_reach.open_url)
  moreover have "pathname (visit ''/'' ?w0) = ''/''"
    by (simp add: visit_def loadPage_def renderHeader_root js_endsWith_def world_simps)
  ultimately show "session_reach (after (visit ''/'' ?w0)
     (adminLoginHandler ''root'' ''pw'' (Response 200 (JsonBody (JObj [(''token'', JStr ''t0'')])))
       (visit ''/'' ?w0)))"
    by (rule session_reach.admin_login)
qed

text \<open>
  C8. The header is never stale: in every reachable state, a header that shows
  controls shows exactly the controls of the role stored now, for a session that
  has not expired, and the root page shows the logo; every handler that changes
  the role or the token either navigates (and the next page renders its header)
  or changes nothing the header shows.
\<close>

theorem session_reach_header_current:
  assumes "session_reach w"
  shows "header_current w"
  using assms by (rule reach_header_current)

theorem session_reach_header_current_witness:
  "header_current (visit ''/pages/adminDashboard.html'' \<lparr>storage = [''userRole'' \<mapsto> ''admin'', ''token'' \<mapsto> ''t0''],
       api_base = [], pathname = [], navigations = [], alerts = [], requests = [], modal = None,
       header_div = None\<rparr>)"
  by (rule session_reach_header_current) (rule session_reach.open_url)

text \<open>
  C9. The spec's session invariant (a token is stored only while the role is an
  authenticated one) is not kept by the code. Starting from a browser with an
  empty store, two steps of the session machine, an admin login answered with a
  token and then opening the root page, reach a state with the token still
  stored and no role: the root page's load removes the role and keeps the token.
\<close>

theorem session_reach_token_without_role:
  "\<exists>w. session_step\<^sup>*\<^sup>* (visit ''/'' \<lparr>storage = Map.empty, api_base = [], pathname = [], navigations = [], alerts = [], requests = [], modal = None, header_div = None\<rparr>) w
     \<and> getItem ''token'' w = Some ''t0'' \<and> \<not> auth_role (getItem ''userRole'' w)"
proof -
  let ?w0 = "\<lparr>storage = Map.empty, api_base = [], pathname = [], navigations = [], alerts = [], requests = [], modal = None, header_div = None\<rparr> :: header_page"
  let ?w1 = "visit ''/'' ?w0"
  let ?r = "Response 200 (JsonBody (JObj [(''token'', JStr ''t0'')]))"
  let ?w2 = "after ?w1 (adminLoginHandler ''root'' ''pw'' ?r ?w1)"
  have p1: "pathname ?w1 = ''/''"
    by (simp add: visit_def loadPage_def renderHeader_root js_endsWith_def world_simps)
  have s1: "session_step ?w1 ?w2" using p1 by (rule session_step.admin_login)
  have s2: "session_step ?w2 (visit ''/'' ?w2)" by (rule session_step.visit_url)
  have tok: "getItem ''token'' ?w2 = Some ''t0''"
    by (simp add: after_def visit_def loadPage_def renderHeader_def js_endsWith_def Let_def
        adminLoginHandler_def login_flow_def resp_ok_def session_expired_def storage_simps world_simps)
  have "getItem ''token'' (visit ''/'' ?w2) = Some ''t0'' \<and> getItem ''userRole'' (visit ''/'' ?w2) = None"
    using tok
    by (simp add: visit_def loadPage_def renderHeader_root js_endsWith_def Let_def
        loadPage_root_no_navigation storage_simps world_simps)
  moreover have "session_step\<^sup>*\<^sup>* ?w1 (visit ''/'' ?w2)"
    using s1 s2 by (meson converse_rtranclp_into_rtranclp r_into_rtranclp)
  ultimately show ?thesis by (auto simp: auth_role_def)
qed

end
