(* ===== verification/Doctor_Services.thy ===== *)
theory Doctor_Services
  imports Browser
begin

text \<open>
  services/doctorServices.js: the API layer for doctors. Each function sends one
  request and turns every outcome (transport failure, non-2xx status, a body that
  is not JSON, a property read on \<open>null\<close>) into a value rather than an
  exception: \<open>getDoctors\<close> into the doctor array or \<open>[]\<close>,
  \<open>deleteDoctor\<close> and \<open>saveDoctor\<close> into the envelope
  \<open>{success, message}\<close>, \<open>filterDoctors\<close> into \<open>{doctors, success,
  message}\<close> (and an alert on a transport failure). Each function returns its
  result together with the world, which records the request and the alert.

  \<open>encodeURIComponent\<close> is the browser's: characters outside the unreserved
  set are percent-encoded as their UTF-8 bytes with upper-case hex digits; a
  code unit 128..255 is two UTF-8 bytes.
\<close>

section \<open>encodeURIComponent\<close>

definition uri_unreserved :: "char \<Rightarrow> bool" where
  "uri_unreserved c \<longleftrightarrow>
     (let n = (of_char c :: nat) in
      (65 \<le> n \<and> n \<le> 90) \<or> (97 \<le> n \<and> n \<le> 122) \<or> (48 \<le> n \<and> n \<le> 57)
      \<or> n = 39 \<or> c \<in> set ''-_.!~*()'')"

definition hex_digit :: "nat \<Rightarrow> char" where
  "hex_digit n = ''0123456789ABCDEF'' ! n"

definition pct_byte :: "nat \<Rightarrow> string" where
  "pct_byte b = [CHR ''%'', hex_digit (b div 16), hex_digit (b mod 16)]"

definition enc_char :: "char \<Rightarrow> string" where
  "enc_char c =
     (if uri_unreserved c then [c]
      else if of_char c < (128 :: nat) then pct_byte (of_char c)
      else pct_byte (192 + of_char c div 64) @ pct_byte (128 + of_char c mod 64))"

definition encodeURIComponent :: "string \<Rightarrow> string" where
  "encodeURIComponent s = concat (map enc_char s)"

section \<open>The service functions\<close>

definition DOCTOR_API :: "'a browser_scheme \<Rightarrow> string" where
  "DOCTOR_API w = api_base w @ ''/doctor''"

text \<open>
  Each service function calls \<open>fetch\<close> at once (the request is sent when the
  function is called) and continues when the answer arrives; the continuation is
  the function's \<open>_settle\<close> part, a function of the fetch outcome.
\<close>

definition getDoctors_settle :: "fetch_result \<Rightarrow> json" where
  "getDoctors_settle r =
     (case r of
        NetworkError m \<Rightarrow> JArr []
      | Response status b \<Rightarrow>
          (if \<not> resp_ok status then JArr []
           else (case resp_json b of
                   Inl e \<Rightarrow> JArr []
                 | Inr data \<Rightarrow>
                     (case js_get data ''doctors'' of
                        Inl e \<Rightarrow> JArr []
                      | Inr ds \<Rightarrow> or_default ds (JArr [])))))"

definition getDoctors :: "fetch_result \<Rightarrow> 'a browser_scheme \<Rightarrow> json \<times> 'a browser_scheme" where
  "getDoctors r w =
     (getDoctors_settle r, send \<lparr>req_method = GET, req_url = DOCTOR_API w, req_body = None\<rparr> w)"

text \<open>The envelope \<open>{success, message}\<close>; the message is whatever value the code put there.\<close>

record envelope =
  success :: bool
  message :: jsval

text \<open>
  The shared shape of deleteDoctor and saveDoctor after the request is sent:
  parse the body, throw \<open>new Error(data.message || fail)\<close> on a non-2xx status,
  return \<open>{success: true, message: data.message || ok}\<close> otherwise; the catch
  block answers \<open>{success: false, message: error.message || caught}\<close>.
\<close>

definition caught_envelope :: "js_exn \<Rightarrow> string \<Rightarrow> envelope" where
  "caught_envelope e caught =
     \<lparr>success = False, message = js_or (Some (JStr (exn_message e))) (Some (JStr caught))\<rparr>"

definition mutation_envelope :: "string \<Rightarrow> string \<Rightarrow> string \<Rightarrow> fetch_result \<Rightarrow> envelope" where
  "mutation_envelope fail ok caught r =
     (case r of
        NetworkError m \<Rightarrow> caught_envelope (JsError m) caught
      | Response status b \<Rightarrow>
          (case resp_json b of
             Inl e \<Rightarrow> caught_envelope e caught
           | Inr data \<Rightarrow>
               (case js_get data ''message'' of
                  Inl e \<Rightarrow> caught_envelope e caught
                | Inr msg \<Rightarrow>
                    (if \<not> resp_ok status then
                       caught_envelope (JsError (js_to_string (js_or msg (Some (JStr fail))))) caught
                     else \<lparr>success = True, message = js_or msg (Some (JStr ok))\<rparr>))))"

text \<open>
  deleteDoctor split at its \<open>await fetch\<close>: the request it sends, and the
  envelope it resolves to once the answer is given.
\<close>

definition deleteDoctor_request :: "jsval \<Rightarrow> string \<Rightarrow> 'a browser_scheme \<Rightarrow> http_request" where
  "deleteDoctor_request doctorId token w =
     \<lparr>req_method = DELETE, req_url = DOCTOR_API w @ ''/'' @ js_to_string doctorId @ ''/'' @ token,
      req_body = None\<rparr>"

definition deleteDoctor_settle :: "jsval \<Rightarrow> fetch_result \<Rightarrow> envelope" where
  "deleteDoctor_settle doctorId r =
     mutation_envelope ''Failed to delete doctor on the server.''
       (''Doctor '' @ js_to_string doctorId @ '' successfully deleted.'')
       ''Network error or failed to connect to the server.'' r"

definition deleteDoctor ::
  "jsval \<Rightarrow> string \<Rightarrow> fetch_result \<Rightarrow> 'a browser_scheme \<Rightarrow> envelope \<times> 'a browser_scheme" where
  "deleteDoctor doctorId token r w =
     (deleteDoctor_settle doctorId r, send (deleteDoctor_request doctorId token w) w)"

text \<open>
  saveDoctor split at its \<open>await fetch\<close>, as getDoctors is: the request it
  sends, and the envelope it resolves to once the answer is given.
\<close>

definition saveDoctor_request :: "json \<Rightarrow> string \<Rightarrow> 'a browser_scheme \<Rightarrow> http_request" where
  "saveDoctor_request doctorData token w =
     \<lparr>req_method = POST, req_url = DOCTOR_API w @ ''/save/'' @ token, req_body = Some doctorData\<rparr>"

definition saveDoctor_settle :: "fetch_result \<Rightarrow> envelope" where
  "saveDoctor_settle r =
     mutation_envelope ''Failed to save doctor.'' ''Doctor successfully created.''
       ''Network error or failed to save doctor.'' r"

definition saveDoctor ::
  "json \<Rightarrow> string \<Rightarrow> fetch_result \<Rightarrow> 'a browser_scheme \<Rightarrow> envelope \<times> 'a browser_scheme" where
  "saveDoctor doctorData token r w =
     (saveDoctor_settle r, send (saveDoctor_request doctorData token w) w)"

record filter_result =
  f_doctors :: json
  f_success :: bool
  f_message :: jsval

definition filter_param :: "string \<Rightarrow> string" where
  "filter_param x = encodeURIComponent (if x = [] then ''all'' else x)"

definition filter_url :: "'a browser_scheme \<Rightarrow> string \<Rightarrow> string \<Rightarrow> string \<Rightarrow> string" where
  "filter_url w name time specialty =
     DOCTOR_API w @ ''/filter/'' @ filter_param name @ ''/'' @ filter_param time @ ''/''
       @ filter_param specialty"

definition filter_network_failure :: "'a browser_scheme \<Rightarrow> filter_result \<times> 'a browser_scheme" where
  "filter_network_failure w =
     (\<lparr>f_doctors = JArr [], f_success = False, f_message = Some (JStr ''Failed to connect to the server.'')\<rparr>,
      alert ''A network error occurred while trying to filter doctors.'' w)"

definition filter_settle :: "fetch_result \<Rightarrow> 'a browser_scheme \<Rightarrow> filter_result \<times> 'a browser_scheme" where
  "filter_settle r w1 =
     (case r of
        NetworkError m \<Rightarrow> filter_network_failure w1
      | Response status b \<Rightarrow>
          (case resp_json b of
             Inl e \<Rightarrow> filter_network_failure w1
           | Inr data \<Rightarrow>
               (if resp_ok status then
                  (case js_get data ''doctors'' of
                     Inl e \<Rightarrow> filter_network_failure w1
                   | Inr ds \<Rightarrow> (\<lparr>f_doctors = or_default ds (JArr []), f_success = True, f_message = None\<rparr>, w1))
                else
                  (case js_get data ''message'' of
                     Inl e \<Rightarrow> filter_network_failure w1
                   | Inr m \<Rightarrow> (\<lparr>f_doctors = JArr [], f_success = False, f_message = m\<rparr>, w1)))))"

definition filterDoctors ::
  "string \<Rightarrow> string \<Rightarrow> string \<Rightarrow> fetch_result \<Rightarrow> 'a browser_scheme \<Rightarrow> filter_result \<times> 'a browser_scheme" where
  "filterDoctors name time specialty r w =
     filter_settle r (send \<lparr>req_method = GET, req_url = filter_url w name time specialty, req_body = None\<rparr> w)"

section \<open>Decoding, to state what the URLs carry\<close>

text \<open>
  The inverse the server applies to a path segment, \<open>decodeURIComponent\<close>,
  for the alphabet \<open>encodeURIComponent\<close> produces: percent escapes with
  hex digits of either case and literal ASCII, decoded as UTF-8 of one or two
  bytes. \<open>parse_filter_url\<close> reads the three filter terms back from a filter
  URL.
\<close>

definition hex_val :: "char \<Rightarrow> nat option" where
  "hex_val c =
     (let n = (of_char c :: nat) in
      if 48 \<le> n \<and> n \<le> 57 then Some (n - 48)
      else if 65 \<le> n \<and> n \<le> 70 then Some (n - 55)
      else if 97 \<le> n \<and> n \<le> 102 then Some (n - 87)
      else None)"

fun pct_decode :: "string \<Rightarrow> nat list option" where
  "pct_decode [] = Some []"
| "pct_decode (c # cs) =
     (if c = CHR ''%'' then
        (case cs of
           h1 # h2 # rest \<Rightarrow>
             (case (hex_val h1, hex_val h2) of
                (Some a, Some b) \<Rightarrow> map_option (Cons (16 * a + b)) (pct_decode rest)
              | _ \<Rightarrow> None)
         | _ \<Rightarrow> None)
      else if of_char c < (128 :: nat) then map_option (Cons (of_char c)) (pct_decode cs)
      else None)"

fun utf8_decode :: "nat list \<Rightarrow> string option" where
  "utf8_decode [] = Some []"
| "utf8_decode (b # bs) =
     (if b < 128 then map_option (Cons (char_of b)) (utf8_decode bs)
      else if 194 \<le> b \<and> b \<le> 195 then
        (case bs of
           u # us \<Rightarrow>
             (if 128 \<le> u \<and> u < 192 then
                map_option (Cons (char_of ((b - 192) * 64 + (u - 128)))) (utf8_decode us)
              else None)
         | [] \<Rightarrow> None)
      else None)"

definition decodeURIComponent :: "string \<Rightarrow> string option" where
  "decodeURIComponent s = Option.bind (pct_decode s) utf8_decode"

definition utf8_bytes :: "char \<Rightarrow> nat list" where
  "utf8_bytes c =
     (if of_char c < (128 :: nat) then [of_char c]
      else [192 + of_char c div 64, 128 + of_char c mod 64])"

definition parse_filter_url :: "string \<Rightarrow> string \<Rightarrow> (string \<times> string \<times> string) option" where
  "parse_filter_url pre url =
     (if take (length pre) url \<noteq> pre then None
      else (case js_split CHR ''/'' (drop (length pre) url) of
              [a, b, c] \<Rightarrow>
                (case (decodeURIComponent a, decodeURIComponent b, decodeURIComponent c) of
                   (Some x, Some y, Some z) \<Rightarrow> Some (x, y, z)
                 | _ \<Rightarrow> None)
            | _ \<Rightarrow> None))"

text \<open>The filter term a blank input stands for.\<close>

definition filter_term :: "string \<Rightarrow> string" where
  "filter_term x = (if x = [] then ''all'' else x)"

section \<open>Lemmas on the encoding\<close>

lemma enc_char_length:
  "length (enc_char c) = (if uri_unreserved c then 1 else if of_char c < (128 :: nat) then 3 else 6)"
  by (simp add: enc_char_def pct_byte_def)

lemma encodeURIComponent_length:
  "length s \<le> length (encodeURIComponent s) \<and> length (encodeURIComponent s) \<le> 6 * length s"
  by (induction s) (auto simp: encodeURIComponent_def enc_char_length)

lemma filter_param_length: "length (filter_param x) \<le> 6 * length x + 3"
proof (cases "x = []")
  case True
  then show ?thesis by (simp add: filter_param_def encodeURIComponent_def enc_char_def uri_unreserved_def)
next
  case False
  then show ?thesis using encodeURIComponent_length [of x] by (simp add: filter_param_def)
qed

lemma hex_val_hex_digit: "n < 16 \<Longrightarrow> hex_val (hex_digit n) = Some n"
  by (auto simp: less_Suc_eq numeral_eq_Suc hex_digit_def hex_val_def)

lemma hex_digit_not_slash: "n < 16 \<Longrightarrow> hex_digit n \<noteq> CHR ''/'' \<and> hex_digit n \<noteq> CHR ''%''"
  by (auto simp: less_Suc_eq numeral_eq_Suc hex_digit_def)

lemma pct_decode_pct_byte:
  "b < 256 \<Longrightarrow> pct_decode (pct_byte b @ rest) = map_option (Cons b) (pct_decode rest)"
  by (simp add: pct_byte_def hex_val_hex_digit less_mult_imp_div_less)


lemma utf8_lead_bytes:
  "192 + of_char c div 64 < (256 :: nat)" "128 + of_char c mod 64 < (256 :: nat)"
  using nat_of_char_less_256 [of c] by arith+

lemma uri_unreserved_ascii: "uri_unreserved c \<Longrightarrow> of_char c < (128 :: nat) \<and> c \<noteq> CHR ''%''"
  by (auto simp: uri_unreserved_def Let_def)

lemma pct_decode_enc_char:
  "pct_decode (enc_char c @ rest) = map_option (\<lambda>bs. utf8_bytes c @ bs) (pct_decode rest)"
proof -
  have n: "of_char c < (256 :: nat)" by (rule nat_of_char_less_256)
  show ?thesis
  proof (cases "uri_unreserved c")
    case True
    then show ?thesis
      by (cases "pct_decode rest") (simp_all add: enc_char_def utf8_bytes_def uri_unreserved_ascii)
  next
    case False
    then show ?thesis using n utf8_lead_bytes [of c]
      by (cases "pct_decode rest")
         (simp_all add: enc_char_def utf8_bytes_def pct_decode_pct_byte)
  qed
qed

lemma utf8_decode_bytes:
  "utf8_decode (utf8_bytes c @ bs) = map_option (Cons c) (utf8_decode bs)"
proof (cases "of_char c < (128 :: nat)")
  case True
  then show ?thesis by (simp add: utf8_bytes_def)
next
  case False
  have n: "of_char c < (256 :: nat)" by (rule nat_of_char_less_256)
  with False have d: "of_char c div 64 = (2::nat) \<or> of_char c div 64 = (3::nat)" by linarith
  have eq: "(of_char c div 64) * 64 + of_char c mod 64 = (of_char c :: nat)" by simp
  from False d eq show ?thesis by (auto simp: utf8_bytes_def)
qed

lemma pct_decode_encode:
  "pct_decode (encodeURIComponent s) = Some (concat (map utf8_bytes s))"
  by (induction s) (simp_all add: encodeURIComponent_def pct_decode_enc_char)

lemma utf8_decode_concat: "utf8_decode (concat (map utf8_bytes s)) = Some s"
  by (induction s) (simp_all add: utf8_decode_bytes)

lemma decode_encode: "decodeURIComponent (encodeURIComponent s) = Some s"
  by (simp add: decodeURIComponent_def pct_decode_encode utf8_decode_concat)

lemma enc_char_no_slash: "CHR ''/'' \<notin> set (enc_char c)"
proof -
  have n: "of_char c < (256 :: nat)" by (rule nat_of_char_less_256)
  have "CHR ''/'' \<notin> set (pct_byte b)" if "b < 256" for b :: nat
    using that hex_digit_not_slash [of "b div 16"] hex_digit_not_slash [of "b mod 16"]
    by (auto simp: pct_byte_def less_mult_imp_div_less)
  moreover have "\<not> uri_unreserved (CHR ''/'')" by (simp add: uri_unreserved_def)
  ultimately show ?thesis using n utf8_lead_bytes [of c] by (auto simp: enc_char_def)
qed

lemma encode_no_slash: "CHR ''/'' \<notin> set (encodeURIComponent s)"
  by (auto simp: encodeURIComponent_def enc_char_no_slash)

lemma filter_url_split:
  "js_split CHR ''/'' (filter_param n @ CHR ''/'' # filter_param t @ CHR ''/'' # filter_param s)
     = [filter_param n, filter_param t, filter_param s]"
  by (simp add: filter_param_def encode_no_slash js_split_append_sep js_split_no_occurrence)

lemma filter_param_decode: "decodeURIComponent (filter_param x) = Some (filter_term x)"
  by (simp add: filter_param_def filter_term_def decode_encode)

lemma parse_filter_url_filter_url:
  "parse_filter_url (DOCTOR_API w @ ''/filter/'') (filter_url w n t s)
     = Some (filter_term n, filter_term t, filter_term s)"
  by (simp add: parse_filter_url_def filter_url_def filter_url_split filter_param_decode)

text \<open>The continuation of filterDoctors touches the world only by its alert.\<close>

lemma filter_settle_world:
  "snd (filter_settle r w) = w
   \<or> snd (filter_settle r w) = alert ''A network error occurred while trying to filter doctors.'' w"
  by (auto simp: filter_settle_def filter_network_failure_def split: fetch_result.splits sum.splits)

lemma filterDoctors_requests [world_simps]:
  "requests (snd (filterDoctors n t s r w))
     = requests w @ [\<lparr>req_method = GET, req_url = filter_url w n t s, req_body = None\<rparr>]"
  by (auto simp: filterDoctors_def filter_settle_def filter_network_failure_def Let_def world_simps
           split: fetch_result.splits sum.splits)

lemma mutation_envelope_ok:
  assumes "resp_ok status" and "js_get data ''message'' = Inr msg"
  shows "mutation_envelope fail ok caught (Response status (JsonBody data))
           = \<lparr>success = True, message = js_or msg (Some (JStr ok))\<rparr>"
  using assms by (simp add: mutation_envelope_def)

lemma mutation_envelope_error:
  assumes "\<not> resp_ok status" and "js_get data ''message'' = Inr (Some (JStr m))" and "m \<noteq> []"
  shows "mutation_envelope fail ok caught (Response status (JsonBody data))
           = \<lparr>success = False, message = Some (JStr m)\<rparr>"
  using assms by (simp add: mutation_envelope_def caught_envelope_def)

section \<open>Properties of the service functions\<close>

text \<open>
  C15. The filter URL stays within a length bound linear in the search terms:
  each character of a term becomes at most six (two percent-encoded UTF-8
  bytes), a blank term three ("all"), plus the fixed \<open>/filter/\<close> and
  separators.
\<close>

theorem filter_url_length_bound:
  "length (filter_url w n t sp) \<le> length (DOCTOR_API w) + 19 + 6 * (length n + length t + length sp)"
  using filter_param_length [of n] filter_param_length [of t] filter_param_length [of sp]
  by (simp add: filter_url_def)

text \<open>
  C13. Blank filter terms stand for "all": \<open>filterDoctors("", "", "")\<close> sends
  the same request and returns the same result as
  \<open>filterDoctors("all", "all", "all")\<close>, whatever the server answers.
\<close>

theorem filterDoctors_blank_is_all:
  "filterDoctors [] [] [] r w = filterDoctors ''all'' ''all'' ''all'' r w"
  by (simp add: filterDoctors_def filter_url_def filter_param_def)

text \<open>
  C14. The filter request carries its three terms faithfully: filterDoctors sends
  exactly one GET, and splitting its URL after \<open>/doctor/filter/\<close> at the
  slashes and URI-decoding the three segments gives back the name, time and
  specialty (\<open>"all"\<close> for a blank one), whatever characters they contain.
\<close>

theorem filterDoctors_url_roundtrip:
  "\<exists>u. requests (snd (filterDoctors n t s r w))
          = requests w @ [\<lparr>req_method = GET, req_url = u, req_body = None\<rparr>]
     \<and> parse_filter_url (DOCTOR_API w @ ''/filter/'') u
          = Some (filter_term n, filter_term t, filter_term s)"
  by (simp add: filterDoctors_requests parse_filter_url_filter_url)

text \<open>
  Two filter requests go to the same URL only when their terms agree after
  blank terms are replaced by \<open>"all"\<close>: the URL loses no information.
\<close>

theorem filter_url_injective:
  assumes "filter_url w n t s = filter_url w n' t' s'"
  shows "filter_term n = filter_term n' \<and> filter_term t = filter_term t' \<and> filter_term s = filter_term s'"
proof -
  have "Some (filter_term n, filter_term t, filter_term s)
          = Some (filter_term n', filter_term t', filter_term s')"
    using parse_filter_url_filter_url [of w n t s] parse_filter_url_filter_url [of w n' t' s'] assms
    by simp
  then show ?thesis by simp
qed

theorem filter_url_injective_witness:
  "filter_term [] = filter_term ''all''"
  using filter_url_injective [of "\<lparr>storage = Map.empty, api_base = [], pathname = [],
      navigations = [], alerts = [], requests = [], modal = None\<rparr>" "[]" "[]" "[]" "''all''" "''all''" "''all''"]
  by (simp add: filter_url_def filter_param_def)

text \<open>
  C16. getDoctors never fails: on a transport failure, a non-2xx status or a body
  that is not JSON it resolves to the empty array, after sending exactly one GET
  to the doctor endpoint and without alerting.
\<close>

theorem getDoctors_failure_empty:
  assumes "r = NetworkError m \<or> (\<exists>b. r = Response status b \<and> \<not> resp_ok status)
           \<or> r = Response status (BadJson e)"
  shows "fst (getDoctors r w) = JArr []
       \<and> requests (snd (getDoctors r w))
           = requests w @ [\<lparr>req_method = GET, req_url = DOCTOR_API w, req_body = None\<rparr>]
       \<and> alerts (snd (getDoctors r w)) = alerts w"
  using assms by (auto simp: getDoctors_def getDoctors_settle_def world_simps)

theorem getDoctors_failure_empty_witness:
  "fst (getDoctors (NetworkError ''Failed to fetch'') \<lparr>storage = Map.empty, api_base = [], pathname = [],
      navigations = [], alerts = [], requests = [], modal = None\<rparr>) = JArr []"
  using getDoctors_failure_empty [of "NetworkError ''Failed to fetch''" "''Failed to fetch''" _ _
      "\<lparr>storage = Map.empty, api_base = [], pathname = [],
       navigations = [], alerts = [], requests = [], modal = None\<rparr>"]
  by simp

text \<open>
  C17. saveDoctor reports the server's reason: when the answer has a non-2xx
  status and a body with a non-empty \<open>message\<close>, the result is
  \<open>{success: false, message}\<close> with that message, after exactly one POST of
  the doctor to \<open>/doctor/save/{token}\<close>.
\<close>

theorem saveDoctor_server_error:
  assumes "\<not> resp_ok status" and "js_get data ''message'' = Inr (Some (JStr m))" and "m \<noteq> []"
  shows "fst (saveDoctor d token (Response status (JsonBody data)) w)
           = \<lparr>success = False, message = Some (JStr m)\<rparr>
       \<and> requests (snd (saveDoctor d token (Response status (JsonBody data)) w))
           = requests w @ [\<lparr>req_method = POST, req_url = DOCTOR_API w @ ''/save/'' @ token,
                            req_body = Some d\<rparr>]"
  using assms by (simp add: saveDoctor_def saveDoctor_settle_def saveDoctor_request_def
                          mutation_envelope_error world_simps)

theorem saveDoctor_server_error_witness:
  "fst (saveDoctor (JObj [(''name'', JStr ''A'')]) ''tok123''
      (Response 400 (JsonBody (JObj [(''message'', JStr ''email exists'')])))
      \<lparr>storage = Map.empty, api_base = [], pathname = [],
       navigations = [], alerts = [], requests = [], modal = None\<rparr>)
   = \<lparr>success = False, message = Some (JStr ''email exists'')\<rparr>"
  using saveDoctor_server_error [of 400 "JObj [(''message'', JStr ''email exists'')]" "''email exists''"
      "JObj [(''name'', JStr ''A'')]" "''tok123''" "\<lparr>storage = Map.empty, api_base = [], pathname = [],
       navigations = [], alerts = [], requests = [], modal = None\<rparr>"]
  by (simp add: resp_ok_def)

text \<open>
  deleteDoctor on success: a 2xx answer whose body parses gives
  \<open>{success: true}\<close> with the server's message or the default one, after
  exactly one DELETE to \<open>/doctor/{doctorId}/{token}\<close>.
\<close>

theorem deleteDoctor_success:
  assumes "resp_ok status" and "js_get data ''message'' = Inr msg"
  shows "fst (deleteDoctor i token (Response status (JsonBody data)) w)
           = \<lparr>success = True,
              message = js_or msg (Some (JStr (''Doctor '' @ js_to_string i @ '' successfully deleted.'')))\<rparr>
       \<and> requests (snd (deleteDoctor i token (Response status (JsonBody data)) w))
           = requests w @ [\<lparr>req_method = DELETE,
                            req_url = DOCTOR_API w @ ''/'' @ js_to_string i @ ''/'' @ token,
                            req_body = None\<rparr>]"
  using assms by (simp add: deleteDoctor_def deleteDoctor_settle_def deleteDoctor_request_def
                          mutation_envelope_ok world_simps)

theorem deleteDoctor_success_witness:
  "success (fst (deleteDoctor (Some (JStr ''7'')) ''tok'' (Response 200 (JsonBody (JObj [])))
      \<lparr>storage = Map.empty, api_base = [], pathname = [],
       navigations = [], alerts = [], requests = [], modal = None\<rparr>))"
  using deleteDoctor_success [of 200 "JObj []" None "Some (JStr ''7'')" "''tok''" "\<lparr>storage = Map.empty, api_base = [], pathname = [],
       navigations = [], alerts = [], requests = [], modal = None\<rparr>"]
  by (simp add: resp_ok_def)

text \<open>
  C18. deleteDoctor parses the body before it looks at the status, so a 2xx
  answer without a JSON body (such as 204 No Content after a completed delete)
  is reported as a failure.
\<close>

theorem deleteDoctor_unparsable_success:
  assumes "resp_ok status"
  shows "\<not> success (fst (deleteDoctor i token (Response status (BadJson m)) w))"
  by (simp add: deleteDoctor_def deleteDoctor_settle_def mutation_envelope_def caught_envelope_def)

theorem deleteDoctor_unparsable_success_witness:
  "\<not> success (fst (deleteDoctor (Some (JStr ''7'')) ''tok''
      (Response 204 (BadJson ''Unexpected end of JSON input''))
      \<lparr>storage = Map.empty, api_base = [], pathname = [],
       navigations = [], alerts = [], requests = [], modal = None\<rparr>))"
  using deleteDoctor_unparsable_success [of 204] by (simp add: resp_ok_def)

text \<open>
  filterDoctors on a transport failure alerts the user once (a data-fetch
  function doing UI work) and resolves to \<open>{doctors: [], success: false}\<close>
  with the fixed message.
\<close>

theorem filterDoctors_network_error:
  "fst (filterDoctors n t s (NetworkError m) w)
     = \<lparr>f_doctors = JArr [], f_success = False, f_message = Some (JStr ''Failed to connect to the server.'')\<rparr>
   \<and> alerts (snd (filterDoctors n t s (NetworkError m) w))
     = alerts w @ [''A network error occurred while trying to filter doctors.'']"
  by (simp add: filterDoctors_def filter_settle_def filter_network_failure_def world_simps)

end
