(* ===== verification/Doctor_Card.thy ===== *)
theory Doctor_Card
  imports Doctor_Services
begin

text \<open>
  components/doctorCard.js: \<open>createDoctorCard\<close> builds a card for one doctor
  record of the API and gives it one action by the role stored in localStorage
  (read inside the function): a delete button for the admin, a "Book Now"
  button for the unauthenticated patient, a "Book Appointment" button for the
  logged-in patient, none otherwise. A card is modelled by the texts it shows
  and its action; building it throws (a \<open>TypeError\<close>) when the doctor is
  \<open>null\<close> or its \<open>availableTimes\<close> is not an array. The three click
  listeners are \<open>deleteClick\<close>, \<open>bookClickPatient\<close> and
  \<open>bookClickLoggedPatient\<close>; the patient lookup and the booking overlay
  (patientServices.js, loggedPatient.js, outside src/) are inputs and outputs.
\<close>

datatype card_action = DeleteDoctorBtn | BookNowBtn | BookAppointmentBtn | NoAction

record doctor_card =
  card_doctor :: json
  card_doctor_id :: string
  card_name :: string
  card_specialty :: string
  card_email :: string
  card_times :: "string list"
  card_action :: card_action

text \<open>
  \<open>element.textContent = v\<close>: \<open>null\<close> and \<open>undefined\<close> give the empty
  text, any other value its string.
\<close>

definition text_content :: "jsval \<Rightarrow> string" where
  "text_content v = (case v of None \<Rightarrow> [] | Some JNull \<Rightarrow> [] | Some x \<Rightarrow> json_str x)"

definition role_action :: "string option \<Rightarrow> card_action" where
  "role_action role =
     (if role = Some ''admin'' then DeleteDoctorBtn
      else if role = Some ''patient'' then BookNowBtn
      else if role = Some ''loggedPatient'' then BookAppointmentBtn
      else NoAction)"

definition createDoctorCard :: "json \<Rightarrow> 'a browser_scheme \<Rightarrow> js_exn + doctor_card" where
  "createDoctorCard doctor w =
     (if doctor = JNull then Inl (JsError ''Cannot read properties of null (reading doctorId)'')
      else
        (case js_prop doctor ''availableTimes'' of
           Some (JArr ts) \<Rightarrow>
             Inr \<lparr>card_doctor = doctor,
                  card_doctor_id = js_to_string (js_prop doctor ''doctorId''),
                  card_name = text_content (js_prop doctor ''name''),
                  card_specialty = text_content (js_prop doctor ''specialization''),
                  card_email = ''Email: '' @ js_to_string (js_prop doctor ''email''),
                  card_times = map json_str ts,
                  card_action = role_action (getItem ''userRole'' w)\<rparr>
         | _ \<Rightarrow> Inl (JsError ''doctor.availableTimes.map is not a function'')))"

text \<open>
  The admin's delete button up to its \<open>await deleteDoctor(...)\<close>: after the
  confirmation dialog (its answer is an input), with a stored token it sends the
  DELETE. The result is the token the request was sent with, if it was sent.
\<close>

definition deleteClick_start :: "bool \<Rightarrow> json \<Rightarrow> 'a browser_scheme \<Rightarrow> string option \<times> 'a browser_scheme" where
  "deleteClick_start confirmed doctor w =
     (if \<not> confirmed then (None, w)
      else
        (let adminToken = getItem ''token'' w in
         if \<not> str_truthy adminToken then
           (None, alert ''Authentication token missing. Please log in again.'' w)
         else
           (adminToken, send (deleteDoctor_request (js_prop doctor ''doctorId'') (the adminToken) w) w)))"

text \<open>
  The listener after the await: deleteDoctor resolves and its result is not
  looked at; the success alert follows, then \<open>card.remove()\<close> (the caller's).
\<close>

definition deleteClick_settle :: "json \<Rightarrow> 'a browser_scheme \<Rightarrow> 'a browser_scheme" where
  "deleteClick_settle doctor w1 =
     alert (''Doctor '' @ js_to_string (js_prop doctor ''name'') @ '' successfully deleted.'') w1"

text \<open>The listener run to its end, the answer given; the result is whether the card is removed.\<close>

definition deleteClick ::
  "bool \<Rightarrow> json \<Rightarrow> fetch_result \<Rightarrow> 'a browser_scheme \<Rightarrow> bool \<times> 'a browser_scheme" where
  "deleteClick confirmed doctor r w =
     (case deleteClick_start confirmed doctor w of
        (None, w1) \<Rightarrow> (False, w1)
      | (Some tok, w1) \<Rightarrow> (True, deleteClick_settle doctor w1))"

definition bookClickPatient :: "'a browser_scheme \<Rightarrow> 'a browser_scheme" where
  "bookClickPatient w = alert ''Please log in or sign up to book an appointment.'' w"

text \<open>
  The logged-in patient's button: without token or patient id it alerts and goes
  to the root page; otherwise it fetches the patient (the answer, or the thrown
  error, is an input) and opens the booking overlay on doctor and patient, the
  second component of the result.
\<close>

definition bookClickLoggedPatient ::
  "json \<Rightarrow> js_exn + json \<Rightarrow> 'a browser_scheme \<Rightarrow> (json \<times> json) option \<times> 'a browser_scheme" where
  "bookClickLoggedPatient doctor patientDetails w =
     (let patientToken = getItem ''token'' w; patientId = getItem ''patientId'' w in
      if \<not> str_truthy patientToken \<or> \<not> str_truthy patientId then
        (None, navigate ''/'' (alert ''Session expired. Please log in again.'' w))
      else
        (case patientDetails of
           Inl e \<Rightarrow> (None, alert (''Error preparing booking: '' @ exn_message e) w)
         | Inr patientData \<Rightarrow> (Some (doctor, patientData), w)))"

section \<open>Properties of the doctor card\<close>

lemma createDoctorCard_Inr:
  "createDoctorCard d w = Inr c \<Longrightarrow> card_action c = role_action (getItem ''userRole'' w)"
  by (auto simp: createDoctorCard_def split: if_splits option.splits json.splits)

text \<open>
  C19. The action a card offers follows the role table of the spec: a delete
  button exactly for the admin, "Book Now" exactly for the unauthenticated
  patient, "Book Appointment" exactly for the logged-in patient, and no action
  for any other stored role or none.
\<close>

theorem createDoctorCard_role_action:
  assumes "createDoctorCard d w = Inr c"
  shows "(card_action c = DeleteDoctorBtn \<longleftrightarrow> getItem ''userRole'' w = Some ''admin'')
       \<and> (card_action c = BookNowBtn \<longleftrightarrow> getItem ''userRole'' w = Some ''patient'')
       \<and> (card_action c = BookAppointmentBtn \<longleftrightarrow> getItem ''userRole'' w = Some ''loggedPatient'')
       \<and> (card_action c = NoAction \<longleftrightarrow>
            getItem ''userRole'' w \<notin> {Some ''admin'', Some ''patient'', Some ''loggedPatient''})"
  using createDoctorCard_Inr [OF assms] by (simp add: role_action_def)

theorem createDoctorCard_role_action_witness:
  "card_action (projr (createDoctorCard (JObj [(''doctorId'', JNum 7), (''name'', JStr ''Ada''), (''availableTimes'', JArr [JStr ''09:00''])]) \<lparr>storage = [''userRole'' \<mapsto> ''admin'', ''token'' \<mapsto> ''t0''], api_base = [],
       pathname = ''/pages/adminDashboard.html'', navigations = [], alerts = [], requests = [],
       modal = None\<rparr>)) = DeleteDoctorBtn"
proof -
  have c: "createDoctorCard (JObj [(''doctorId'', JNum 7), (''name'', JStr ''Ada''), (''availableTimes'', JArr [JStr ''09:00''])]) \<lparr>storage = [''userRole'' \<mapsto> ''admin'', ''token'' \<mapsto> ''t0''], api_base = [],
       pathname = ''/pages/adminDashboard.html'', navigations = [], alerts = [], requests = [],
       modal = None\<rparr>
     = Inr (projr (createDoctorCard (JObj [(''doctorId'', JNum 7), (''name'', JStr ''Ada''), (''availableTimes'', JArr [JStr ''09:00''])]) \<lparr>storage = [''userRole'' \<mapsto> ''admin'', ''token'' \<mapsto> ''t0''], api_base = [],
       pathname = ''/pages/adminDashboard.html'', navigations = [], alerts = [], requests = [],
       modal = None\<rparr>))"
    by (simp add: createDoctorCard_def js_prop_def)
  have "getItem ''userRole'' \<lparr>storage = [''userRole'' \<mapsto> ''admin'', ''token'' \<mapsto> ''t0''], api_base = [],
       pathname = ''/pages/adminDashboard.html'', navigations = [], alerts = [], requests = [],
       modal = None\<rparr> = Some ''admin''" by (simp add: getItem_def)
  then show ?thesis using createDoctorCard_role_action [OF c] by simp
qed

text \<open>
  Building a card fails (throws) exactly when the doctor is \<open>null\<close> or its
  \<open>availableTimes\<close> is not an array; otherwise the card lists the slots in
  their order.
\<close>

theorem createDoctorCard_defined:
  "(\<exists>c. createDoctorCard d w = Inr c)
     \<longleftrightarrow> d \<noteq> JNull \<and> (\<exists>ts. js_prop d ''availableTimes'' = Some (JArr ts))"
  by (auto simp: createDoctorCard_def split: option.splits json.splits)

text \<open>
  C20. The admin's delete button ignores the result of deleteDoctor: once the
  deletion is confirmed and a token is stored, exactly one request is sent, the
  DELETE to \<open>/doctor/{doctorId}/{token}\<close> with the card's doctor id and the
  stored token, and the
  card is removed and "successfully deleted" is alerted whatever the server
  answers, failures included.
\<close>

theorem deleteClick_ignores_result:
  assumes "getItem ''token'' w = Some tok" and "tok \<noteq> []"
  shows "fst (deleteClick True d r w) = True
       \<and> alerts (snd (deleteClick True d r w))
           = alerts w @ [''Doctor '' @ js_to_string (js_prop d ''name'') @ '' successfully deleted.'']
       \<and> requests (snd (deleteClick True d r w))
           = requests w @ [\<lparr>req_method = DELETE,
                            req_url = DOCTOR_API w @ ''/'' @ js_to_string (js_prop d ''doctorId'') @ ''/'' @ tok,
                            req_body = None\<rparr>]"
  using assms
  by (simp add: deleteClick_def deleteClick_start_def deleteClick_settle_def deleteDoctor_request_def
                str_truthy_def world_simps)

theorem deleteClick_ignores_result_witness:
  "requests (snd (deleteClick True (JObj [(''doctorId'', JStr ''7''), (''name'', JStr ''Ada''), (''availableTimes'', JArr [JStr ''09:00''])]) (Response 500 (JsonBody (JObj [(''message'', JStr ''error'')]))) \<lparr>storage = [''userRole'' \<mapsto> ''admin'', ''token'' \<mapsto> ''t0''], api_base = [], pathname = ''/pages/adminDashboard.html'', navigations = [], alerts = [], requests = [], modal = None\<rparr>))
     = [\<lparr>req_method = DELETE, req_url = ''/doctor/7/t0'', req_body = None\<rparr>]"
  using deleteClick_ignores_result [of "\<lparr>storage = [''userRole'' \<mapsto> ''admin'', ''token'' \<mapsto> ''t0''], api_base = [], pathname = ''/pages/adminDashboard.html'', navigations = [], alerts = [], requests = [], modal = None\<rparr>" "''t0''" "JObj [(''doctorId'', JStr ''7''), (''name'', JStr ''Ada''), (''availableTimes'', JArr [JStr ''09:00''])]" "Response 500 (JsonBody (JObj [(''message'', JStr ''error'')]))"]
  by (simp add: getItem_def DOCTOR_API_def js_prop_def js_to_string_def)

text \<open>
  Without a stored token the delete button sends nothing: after the
  confirmation it alerts once and keeps the card.
\<close>

theorem deleteClick_without_token:
  assumes "\<not> str_truthy (getItem ''token'' w)"
  shows "deleteClick True d r w = (False, alert ''Authentication token missing. Please log in again.'' w)"
  using assms by (simp add: deleteClick_def deleteClick_start_def)

theorem deleteClick_without_token_witness:
  "fst (deleteClick True (JObj [(''doctorId'', JNum 7), (''name'', JStr ''Ada''), (''availableTimes'', JArr [JStr ''09:00''])]) (NetworkError ''x'')
      \<lparr>storage = [''userRole'' \<mapsto> ''admin''], api_base = [], pathname = [], navigations = [],
       alerts = [], requests = [], modal = None\<rparr>) = False"
  using deleteClick_without_token [of "\<lparr>storage = [''userRole'' \<mapsto> ''admin''], api_base = [],
      pathname = [], navigations = [], alerts = [], requests = [], modal = None\<rparr>"]
  by (simp add: getItem_def)

text \<open>
  C21. The logged-in patient's booking button checks the session first: without
  a token or without a patient id it opens no overlay, alerts once and requests
  one navigation to the root page.
\<close>

theorem bookClickLoggedPatient_session_check:
  assumes "\<not> str_truthy (getItem ''token'' w) \<or> \<not> str_truthy (getItem ''patientId'' w)"
  shows "fst (bookClickLoggedPatient d p w) = None
       \<and> navigations (snd (bookClickLoggedPatient d p w)) = navigations w @ [''/'']
       \<and> alerts (snd (bookClickLoggedPatient d p w)) = alerts w @ [''Session expired. Please log in again.'']"
  using assms by (auto simp: bookClickLoggedPatient_def Let_def world_simps)

theorem bookClickLoggedPatient_session_check_witness:
  "navigations (snd (bookClickLoggedPatient (JObj [(''doctorId'', JNum 7), (''name'', JStr ''Ada''), (''availableTimes'', JArr [JStr ''09:00''])]) (Inr JNull)
      \<lparr>storage = [''userRole'' \<mapsto> ''loggedPatient'', ''token'' \<mapsto> ''t0''], api_base = [],
       pathname = [], navigations = [], alerts = [], requests = [], modal = None\<rparr>)) = [''/'']"
  using bookClickLoggedPatient_session_check [of "\<lparr>storage = [''userRole'' \<mapsto> ''loggedPatient'',
      ''token'' \<mapsto> ''t0''], api_base = [], pathname = [], navigations = [], alerts = [], requests = [],
      modal = None\<rparr>"]
  by (simp add: getItem_def)

end
