(* ===== verification/Roles.thy ===== *)
theory Roles
  imports Session Doctor_Card
begin

text \<open>
  The spec's view of the session (sections 3, 4.1 and 9): a role drawn from five
  tags and whether a token is held. The code keeps the role as a string in
  localStorage and dispatches on it by string comparison in header.js
  (\<open>nav_items\<close>, \<open>session_expired\<close>) and doctorCard.js (\<open>role_action\<close>).
  This theory gives the tagged variant the spec recommends and abstracts a page
  of the session machine to the pair (role, token held). It names the events of
  the session machine (a page opened, a role chosen, a login answered, a header
  control clicked), gives each the move of spec section 4.1 it makes, states
  those moves as a function on the abstract session, and proves that every
  event moves the abstract session exactly as its move says.
\<close>

datatype role = Anonymous | Admin | Doctor | Patient | LoggedPatient

lemma role_UNIV: "(UNIV :: role set) = {Anonymous, Admin, Doctor, Patient, LoggedPatient}"
proof -
  have "x \<in> {Anonymous, Admin, Doctor, Patient, LoggedPatient}" for x :: role by (cases x) auto
  then show ?thesis by blast
qed

instantiation role :: enum
begin

definition "enum_role = [Anonymous, Admin, Doctor, Patient, LoggedPatient]"

definition "enum_all_role P \<longleftrightarrow> P Anonymous \<and> P Admin \<and> P Doctor \<and> P Patient \<and> P LoggedPatient"

definition "enum_ex_role P \<longleftrightarrow> P Anonymous \<or> P Admin \<or> P Doctor \<or> P Patient \<or> P LoggedPatient"

instance
  by standard (simp_all add: role_UNIV enum_role_def enum_all_role_def enum_ex_role_def)

end

text \<open>The stored \<open>userRole\<close> read as a tag, as every comparison chain of the code reads it.\<close>

definition role_of :: "string option \<Rightarrow> role" where
  "role_of r =
     (if r = Some ''admin'' then Admin
      else if r = Some ''doctor'' then Doctor
      else if r = Some ''patient'' then Patient
      else if r = Some ''loggedPatient'' then LoggedPatient
      else Anonymous)"

fun authenticated :: "role \<Rightarrow> bool" where
  "authenticated Admin = True"
| "authenticated Doctor = True"
| "authenticated LoggedPatient = True"
| "authenticated _ = False"

section \<open>The abstract session and its moves\<close>

type_synonym asession = "role \<times> bool"

definition sess_abs :: "'a browser_scheme \<Rightarrow> asession" where
  "sess_abs w = (role_of (getItem ''userRole'' w), str_truthy (getItem ''token'' w))"

text \<open>The events of the session machine, as \<open>session_step\<close> lists them.\<close>

datatype sess_event = OpenUrl string | ChooseRole string | AdminLogin string string fetch_result
  | DoctorLogin string string fetch_result | Click nav_item

fun exec_event :: "sess_event \<Rightarrow> header_page \<Rightarrow> header_page" where
  "exec_event (OpenUrl p) w = visit p w"
| "exec_event (ChooseRole r) w = after w (selectRole index_buttons r w)"
| "exec_event (AdminLogin u pw r) w = after w (adminLoginHandler u pw r w)"
| "exec_event (DoctorLogin e pw r) w = after w (doctorLoginHandler e pw r w)"
| "exec_event (Click x) w = after w (headerClick True no_buttons x w)"

fun event_enabled :: "sess_event \<Rightarrow> header_page \<Rightarrow> bool" where
  "event_enabled (OpenUrl p) w = True"
| "event_enabled (ChooseRole r) w = (pathname w = ''/'' \<and> selectable_role r)"
| "event_enabled (AdminLogin u pw r) w = (pathname w = ''/'')"
| "event_enabled (DoctorLogin e pw r) w = (pathname w = ''/'')"
| "event_enabled (Click x) w = (case header_div w of Some (HeaderNav xs) \<Rightarrow> x \<in> set xs | _ \<Rightarrow> False)"

text \<open>
  The moves of the session (spec section 4.1, with the code's own): opening the
  root page drops the role and keeps the token; opening any other page resets an
  expired session (an authenticated role without a token) and keeps any other;
  choosing a role stores it and keeps the token; a login answered with a token
  stores the role and whether the token is non-empty, and the dashboard it opens
  then checks the session; a login without a token changes nothing; logout ends
  the session; the logged-in patient's logout demotes to the patient role
  without a token; the other controls only open a modal.
\<close>

datatype sess_move = OpenRoot | OpenPage | Choose role | Login role bool | LoginFail | Logout | Demote | UiOnly

definition load_abs :: "asession \<Rightarrow> asession" where
  "load_abs s = (if authenticated (fst s) \<and> \<not> snd s then (Anonymous, False) else s)"

fun role_move :: "sess_move \<Rightarrow> asession \<Rightarrow> asession" where
  "role_move OpenRoot (q, t) = (Anonymous, t)"
| "role_move OpenPage s = load_abs s"
| "role_move (Choose r) (q, t) = (r, t)"
| "role_move (Login r ok) s = load_abs (r, ok)"
| "role_move LoginFail s = s"
| "role_move Logout s = (Anonymous, False)"
| "role_move Demote s = (Patient, False)"
| "role_move UiOnly s = s"

definition login_move :: "role \<Rightarrow> fetch_result \<Rightarrow> sess_move" where
  "login_move q r = (case login_token r of None \<Rightarrow> LoginFail | Some t \<Rightarrow> Login q (js_to_string t \<noteq> []))"

fun sess_label :: "sess_event \<Rightarrow> sess_move" where
  "sess_label (OpenUrl p) = (if js_endsWith p ''/'' then OpenRoot else OpenPage)"
| "sess_label (ChooseRole r) = Choose (role_of (Some r))"
| "sess_label (AdminLogin u pw r) = login_move Admin r"
| "sess_label (DoctorLogin e pw r) = login_move Doctor r"
| "sess_label (Click LogoutLink) = Logout"
| "sess_label (Click PatientLogoutLink) = Demote"
| "sess_label (Click DoctorHomeBtn) = Choose Doctor"
| "sess_label (Click PatientHomeBtn) = OpenPage"
| "sess_label (Click PatientAppointmentsBtn) = OpenPage"
| "sess_label (Click AddDocBtn) = UiOnly"
| "sess_label (Click PatientLoginBtn) = UiOnly"
| "sess_label (Click PatientSignupBtn) = UiOnly"

section \<open>Lemmas on the abstraction\<close>

lemma authenticated_role_of: "authenticated (role_of r) \<longleftrightarrow> auth_role r"
  by (simp add: role_of_def auth_role_def)

lemma session_step_event: "session_step w w' \<longleftrightarrow> (\<exists>e. event_enabled e w \<and> w' = exec_event e w)"
proof
  assume "session_step w w'"
  then show "\<exists>e. event_enabled e w \<and> w' = exec_event e w"
  proof cases
    case (visit_url p)
    then show ?thesis by (intro exI [of _ "OpenUrl p"]) simp
  next
    case (choose_role r)
    then show ?thesis by (intro exI [of _ "ChooseRole r"]) simp
  next
    case (admin_login u pw r)
    then show ?thesis by (intro exI [of _ "AdminLogin u pw r"]) simp
  next
    case (doctor_login e pw r)
    then show ?thesis by (intro exI [of _ "DoctorLogin e pw r"]) simp
  next
    case (header_click xs x)
    then show ?thesis by (intro exI [of _ "Click x"]) simp
  qed
next
  assume "\<exists>e. event_enabled e w \<and> w' = exec_event e w"
  then obtain e where "event_enabled e w" and "w' = exec_event e w" by blast
  then show "session_step w w'"
    by (cases e) (auto intro: session_step.intros split: option.splits header_view.splits)
qed

lemma sess_abs_frame [simp]:
  "sess_abs (alert m w) = sess_abs w" "sess_abs (send x w) = sess_abs w"
  "sess_abs (navigate p w) = sess_abs w" "sess_abs (openModal n w) = sess_abs w"
  by (simp_all add: sess_abs_def storage_simps getItem_def alert_def send_def navigate_def openModal_def)

lemma sess_abs_visit:
  "sess_abs (visit p w) = (if js_endsWith p ''/'' then (Anonymous, snd (sess_abs w)) else load_abs (sess_abs w))"
  by (auto simp: visit_def loadPage_def renderHeader_def Let_def js_endsWith_def sess_abs_def load_abs_def
        session_expired_auth_role authenticated_role_of auth_role_def role_of_def
        storage_simps world_simps)

lemma sess_abs_after_nonroot:
  assumes "length (navigations w) < length (navigations w1) \<Longrightarrow> \<not> js_endsWith (last (navigations w1)) ''/''"
  shows "sess_abs (after w w1) =
           (if length (navigations w) < length (navigations w1) then load_abs (sess_abs w1) else sess_abs w1)"
  using assms by (simp add: after_def sess_abs_visit)

lemma load_abs_idem [simp]: "load_abs (load_abs s) = load_abs s"
  by (simp add: load_abs_def)

lemma sess_abs_login:
  assumes "\<not> js_endsWith dest ''/''" and "authenticated q" and "role_of (Some role) = q"
  shows "sess_abs (after w (login_flow api c role dest m cm r w)) = role_move (login_move q r) (sess_abs w)"
proof (cases "login_token r")
  case None
  then obtain msg where "login_flow api c role dest m cm r w = alert msg (send (login_request api c w) w)"
    using login_flow_failure by metis
  with None show ?thesis by (simp add: after_def login_move_def world_simps)
next
  case (Some t)
  have "sess_abs (setItem ''userRole'' role (setItem ''token'' (js_to_string t) (send (login_request api c w) w)))
          = (q, js_to_string t \<noteq> [])"
    using assms(3) by (simp add: sess_abs_def storage_simps str_truthy_def)
  with Some assms(1) show ?thesis
    by (simp add: login_flow_success after_def sess_abs_visit login_move_def world_simps)
qed

lemma sess_abs_exec_event:
  "sess_abs (exec_event e w) = role_move (sess_label e) (sess_abs w)"
proof (cases e)
  case (OpenUrl p)
  then show ?thesis by (cases "sess_abs w") (simp add: sess_abs_visit)
next
  case (ChooseRole r)
  then show ?thesis
    by (cases "sess_abs w") (simp add: after_def selectRole_def index_buttons_def sess_abs_def storage_simps world_simps)
next
  case (AdminLogin u pw r)
  then show ?thesis by (simp add: adminLoginHandler_def sess_abs_login js_endsWith_def role_of_def)
next
  case (DoctorLogin em pw r)
  then show ?thesis by (simp add: doctorLoginHandler_def sess_abs_login js_endsWith_def role_of_def)
next
  case (Click x)
  show ?thesis
  proof (cases x)
    case LogoutLink
    with Click show ?thesis
      by (simp add: logout_def after_def sess_abs_visit js_endsWith_def world_simps)
         (simp add: sess_abs_def storage_simps role_of_def)
  next
    case PatientLogoutLink
    with Click show ?thesis
      by (simp add: logoutPatient_def after_def sess_abs_visit js_endsWith_def load_abs_def world_simps)
         (simp add: sess_abs_def storage_simps role_of_def)
  next
    case DoctorHomeBtn
    with Click show ?thesis
      by (cases "sess_abs w") (simp add: after_def selectRole_def no_buttons_def sess_abs_def role_of_def
                                         storage_simps world_simps)
  next
    case PatientHomeBtn
    with Click show ?thesis by (simp add: after_def sess_abs_visit js_endsWith_def world_simps)
  next
    case PatientAppointmentsBtn
    with Click show ?thesis by (simp add: after_def sess_abs_visit js_endsWith_def world_simps)
  qed (use Click in \<open>simp_all add: after_def openModal_def sess_abs_def getItem_def world_simps\<close>)
qed

lemma role_move_privilege:
  assumes "event_enabled e w" and "s' = role_move (sess_label e) s"
  shows "(\<not> snd s \<and> snd s' \<longrightarrow> fst s' \<in> {Admin, Doctor}) \<and> (fst s' = LoggedPatient \<longrightarrow> fst s = LoggedPatient)"
proof (cases e)
  case (ChooseRole r)
  with assms show ?thesis by (cases s) (auto simp: selectable_role_def role_of_def)
next
  case (Click x)
  with assms show ?thesis by (cases s; cases x) (auto simp: load_abs_def)
qed (use assms in \<open>cases s; auto simp: load_abs_def login_move_def split: option.splits\<close>)+

lemma role_of_Admin_Doctor:
  "role_of r = Admin \<longleftrightarrow> r = Some ''admin''"
  "role_of r = Doctor \<longleftrightarrow> r = Some ''doctor''"
  "role_of r = LoggedPatient \<longleftrightarrow> r = Some ''loggedPatient''"
  by (auto simp: role_of_def)

lemma root_visit_reach:
  "session_reach (visit ''/'' w) \<and> pathname (visit ''/'' w) = ''/''"
proof
  show "session_reach (visit ''/'' w)" by (rule session_reach.open_url)
  show "pathname (visit ''/'' w) = ''/''"
    by (simp add: visit_def loadPage_def renderHeader_root js_endsWith_def world_simps)
qed

section \<open>Properties of the role model\<close>

text \<open>
  C11. The session machine refines the abstract moves: for every event (a page
  opened, a role chosen, a login answered, a header control clicked, each with the
  page load it causes) the abstract session after the event, the stored role as
  a tag and whether a non-empty token is held, is the event's move applied to the
  abstract session before it. In particular logout ends with no token, the
  logged-in patient's logout demotes to the patient role without a token, a
  role choice keeps the token, and only a login answered with a token sets one.
\<close>

theorem session_event_refines:
  "sess_abs (exec_event e w) = role_move (sess_label e) (sess_abs w)"
  by (rule sess_abs_exec_event)

text \<open>
  C12. Only a login grants privileges: a step after which a non-empty token is
  held that was not held before stores the role admin or doctor, and no step of
  the client enters the logged-in patient role (no code of the repository logs a
  patient in; that role only comes from storage written elsewhere).
\<close>

theorem session_step_privilege:
  assumes "session_reach w" and "session_step w w'"
  shows "(\<not> str_truthy (getItem ''token'' w) \<and> str_truthy (getItem ''token'' w')
            \<longrightarrow> getItem ''userRole'' w' \<in> {Some ''admin'', Some ''doctor''})
       \<and> (getItem ''userRole'' w' = Some ''loggedPatient''
            \<longrightarrow> getItem ''userRole'' w = Some ''loggedPatient'')"
proof -
  from assms(2) obtain e where en: "event_enabled e w" and w': "w' = exec_event e w"
    by (auto simp: session_step_event)
  have "sess_abs w' = role_move (sess_label e) (sess_abs w)" using w' by (simp add: sess_abs_exec_event)
  with en have "(\<not> snd (sess_abs w) \<and> snd (sess_abs w') \<longrightarrow> fst (sess_abs w') \<in> {Admin, Doctor})
       \<and> (fst (sess_abs w') = LoggedPatient \<longrightarrow> fst (sess_abs w) = LoggedPatient)"
    by (rule role_move_privilege)
  then show ?thesis by (simp add: sess_abs_def role_of_Admin_Doctor)
qed

theorem session_step_privilege_witness:
  "getItem ''userRole'' (after (visit ''/'' \<lparr>storage = Map.empty, api_base = [], pathname = [], navigations = [], alerts = [], requests = [], modal = None, header_div = None\<rparr>) (adminLoginHandler ''root'' ''pw'' (Response 200 (JsonBody (JObj [(''token'', JStr ''t0'')]))) (visit ''/'' \<lparr>storage = Map.empty, api_base = [], pathname = [], navigations = [], alerts = [], requests = [], modal = None, header_div = None\<rparr>)))
     \<in> {Some ''admin'', Some ''doctor''}"
proof -
  let ?w = "visit ''/'' \<lparr>storage = Map.empty, api_base = [], pathname = [], navigations = [], alerts = [], requests = [], modal = None, header_div = None\<rparr>"
  let ?w' = "after ?w (adminLoginHandler ''root'' ''pw'' (Response 200 (JsonBody (JObj [(''token'', JStr ''t0'')]))) ?w)"
  have r: "session_reach ?w" and s: "session_step ?w ?w'"
    using root_visit_reach by (blast intro: session_step.admin_login)+
  have t0: "\<not> str_truthy (getItem ''token'' ?w)"
    by (simp add: visit_def loadPage_def renderHeader_root js_endsWith_def getItem_def removeItem_def world_simps)
  have t1: "str_truthy (getItem ''token'' ?w')"
    by (simp add: after_def visit_def loadPage_def renderHeader_def js_endsWith_def Let_def
        adminLoginHandler_def login_flow_def resp_ok_def session_expired_def storage_simps world_simps)
  from session_step_privilege [OF r s] t0 t1 show ?thesis by blast
qed

end
