(* ===== verification/Admin_Dashboard.thy ===== *)
theory Admin_Dashboard
  imports Doctor_Card Header
begin

text \<open>
  adminDashboard.js: the admin's page. Its \<open>#content\<close> element holds either
  a message or the doctor cards; \<open>loadDoctorCards\<close> fills it from
  \<open>getDoctors\<close>, \<open>filterDoctorsOnChange\<close> from \<open>filterDoctors\<close> with the
  search and filter inputs, \<open>renderDoctorCards\<close> clears it and appends one card
  per doctor (a card that cannot be built throws out of the loop, leaving the
  cards appended so far), and \<open>adminAddDoctor\<close> posts the add-doctor form and
  starts a reload of the list. Every fetch outcome is an input. Each asynchronous
  function is its synchronous part (up to the request it sends) and its
  \<open>_settle\<close> continuation; \<open>inflight\<close> lists the calls started and not yet
  answered, which Admin_Page lets settle in any order.
\<close>

datatype admin_content = ContentBlank | ContentMessage string | ContentCards "doctor_card list"

text \<open>
  A call of the page whose answer has not arrived yet: a load of all doctors, a
  filter request with its three terms, the save of the add-doctor form with the
  doctor object and the token it was posted with, or the delete of a card's
  doctor with the card's DOM node (see Admin_Page), the doctor and the token.
\<close>

datatype admin_call = LoadCall | FilterCall string string string | SaveCall json string
  | DeleteCall nat json string

record admin_page = header_page +
  content :: admin_content
  inflight :: "admin_call list"

text \<open>The \<open>forEach\<close> loop of renderDoctorCards: the cards built, and the error that stopped it.\<close>

fun render_cards ::
  "json list \<Rightarrow> 'a browser_scheme \<Rightarrow> doctor_card list \<Rightarrow> js_exn option \<times> doctor_card list" where
  "render_cards [] w acc = (None, acc)"
| "render_cards (d # ds) w acc =
     (case createDoctorCard d w of
        Inl e \<Rightarrow> (Some e, acc)
      | Inr c \<Rightarrow> render_cards ds w (acc @ [c]))"

definition renderDoctorCards :: "json \<Rightarrow> 'a admin_page_scheme \<Rightarrow> js_exn option \<times> 'a admin_page_scheme" where
  "renderDoctorCards doctors w =
     (case doctors of
        JArr ds \<Rightarrow> (let (err, cs) = render_cards ds w [] in (err, w\<lparr>content := ContentCards cs\<rparr>))
      | _ \<Rightarrow> (Some (JsError ''doctors.forEach is not a function''), w\<lparr>content := ContentCards []\<rparr>))"

text \<open>loadDoctorCards after \<open>await getDoctors()\<close>, given the value it resolved to.\<close>

definition loadDoctorCards_settle :: "json \<Rightarrow> 'a admin_page_scheme \<Rightarrow> 'a admin_page_scheme" where
  "loadDoctorCards_settle doctors w1 =
     (if js_length doctors = Some 0 then
        w1\<lparr>content := ContentMessage ''No doctors currently registered.''\<rparr>
      else
        (case renderDoctorCards doctors w1 of
           (None, w2) \<Rightarrow> w2
         | (Some e, w2) \<Rightarrow>
             w2\<lparr>content := ContentMessage
                   ''Failed to load doctor data. Please check the network connection.''\<rparr>))"

text \<open>loadDoctorCards run to its end, the answer to its request given.\<close>

definition loadDoctorCards :: "fetch_result \<Rightarrow> 'a admin_page_scheme \<Rightarrow> 'a admin_page_scheme" where
  "loadDoctorCards r w = (let (doctors, w1) = getDoctors r w in loadDoctorCards_settle doctors w1)"

text \<open>
  loadDoctorCards called and not awaited: getDoctors sends its request and the
  call is left in flight.
\<close>

definition loadDoctorCards_start :: "'a admin_page_scheme \<Rightarrow> 'a admin_page_scheme" where
  "loadDoctorCards_start w =
     (send \<lparr>req_method = GET, req_url = DOCTOR_API w, req_body = None\<rparr> w)\<lparr>inflight := inflight w @ [LoadCall]\<rparr>"

text \<open>filterDoctorsOnChange after \<open>await filterDoctors(...)\<close>, given its result.\<close>

definition filterDoctorsOnChange_settle ::
  "filter_result \<Rightarrow> 'a admin_page_scheme \<Rightarrow> 'a admin_page_scheme" where
  "filterDoctorsOnChange_settle result w1 =
     (if f_success result then
        (case js_length (f_doctors result) of
           Some n \<Rightarrow>
             (if 0 < n then
                (case renderDoctorCards (f_doctors result) w1 of
                   (None, w2) \<Rightarrow> w2
                 | (Some e, w2) \<Rightarrow>
                     alert ''An unexpected error occurred while filtering. Please try again.'' w2)
              else w1\<lparr>content := ContentMessage ''No doctors found with the given filters.''\<rparr>)
         | None \<Rightarrow> w1\<lparr>content := ContentMessage ''No doctors found with the given filters.''\<rparr>)
      else
        (alert (''Error filtering doctors: '' @ js_to_string (f_message result)) w1)
          \<lparr>content := ContentMessage (''Error: '' @ js_to_string (f_message result))\<rparr>)"

text \<open>filterDoctorsOnChange run to its end, with the three inputs' values and the answer given.\<close>

definition filterDoctorsOnChange ::
  "string \<Rightarrow> string \<Rightarrow> string \<Rightarrow> fetch_result \<Rightarrow> 'a admin_page_scheme \<Rightarrow> 'a admin_page_scheme" where
  "filterDoctorsOnChange searchValue time specialty r w =
     (let name = js_trim searchValue;
          (result, w1) = filterDoctors name time specialty r w in
      filterDoctorsOnChange_settle result w1)"

text \<open>The add-doctor form's six inputs, as the strings their \<open>.value\<close> gives.\<close>

record doctor_form =
  add_name :: string
  add_email :: string
  add_phone :: string
  add_password :: string
  add_specialty :: string
  add_times :: string

definition form_times :: "doctor_form \<Rightarrow> string list" where
  "form_times f = map js_trim (js_split CHR '','' (add_times f))"

definition form_doctor :: "doctor_form \<Rightarrow> json" where
  "form_doctor f =
     JObj [(''name'', JStr (add_name f)), (''email'', JStr (add_email f)),
           (''phone'', JStr (add_phone f)), (''password'', JStr (add_password f)),
           (''specialty'', JStr (add_specialty f)),
           (''availableTimes'', JArr (map JStr (form_times f)))]"

text \<open>
  adminAddDoctor after \<open>await saveDoctor(doctor, token)\<close>, given its result.
  On success it calls loadDoctorCards without awaiting it: the reload's request
  is sent and the reload is left in flight.
\<close>

definition adminAddDoctor_settle :: "envelope \<Rightarrow> 'a admin_page_scheme \<Rightarrow> 'a admin_page_scheme" where
  "adminAddDoctor_settle result w1 =
     (if success result then
        loadDoctorCards_start (closeModal (alert (''Success! '' @ js_to_string (message result)) w1))
      else alert (''Failed to add doctor: '' @ js_to_string (message result)) w1)"

text \<open>
  adminAddDoctor up to its \<open>await\<close>: the token check and, with a token,
  saveDoctor's POST of the form, the save left in flight.
\<close>

definition adminAddDoctor_start :: "doctor_form \<Rightarrow> 'a admin_page_scheme \<Rightarrow> 'a admin_page_scheme" where
  "adminAddDoctor_start f w =
     (let token = getItem ''token'' w in
      if \<not> str_truthy token then
        alert ''Authorization failed. Please log in as an administrator.'' w
      else
        (send (saveDoctor_request (form_doctor f) (the token) w) w)
          \<lparr>inflight := inflight w @ [SaveCall (form_doctor f) (the token)]\<rparr>)"

text \<open>adminAddDoctor run to its end, the answer to its save request given.\<close>

definition adminAddDoctor ::
  "doctor_form \<Rightarrow> fetch_result \<Rightarrow> 'a admin_page_scheme \<Rightarrow> 'a admin_page_scheme" where
  "adminAddDoctor f r w =
     (let token = getItem ''token'' w in
      if \<not> str_truthy token then
        alert ''Authorization failed. Please log in as an administrator.'' w
      else
        (let (result, w1) = saveDoctor (form_doctor f) (the token) r w in
         adminAddDoctor_settle result w1))"

section \<open>Lemmas on rendering\<close>

lemma render_cards_None_length:
  "render_cards ds w acc = (None, cs) \<Longrightarrow> length cs = length acc + length ds"
  by (induction ds w acc rule: render_cards.induct) (auto split: sum.splits)

lemma render_cards_all_built:
  assumes "\<forall>d \<in> set ds. \<exists>c. createDoctorCard d w = Inr c"
  shows "render_cards ds w acc = (None, acc @ map (\<lambda>d. projr (createDoctorCard d w)) ds)"
  using assms by (induction ds w acc rule: render_cards.induct) auto

lemma createDoctorCard_effects:
  "createDoctorCard d (send x w) = createDoctorCard d w"
  "createDoctorCard d (alert m w) = createDoctorCard d w"
  by (simp_all add: createDoctorCard_def storage_simps cong: option.case_cong json.case_cong)

lemma admin_content_frame [world_simps]:
  "content (alert m w) = content w" "content (send x w) = content w"
  "content (closeModal w) = content w"
  by (simp_all add: alert_def send_def closeModal_def)

lemma admin_inflight_frame [world_simps]:
  "inflight (alert m w) = inflight w" "inflight (send x w) = inflight w"
  "inflight (closeModal w) = inflight w"
  by (simp_all add: alert_def send_def closeModal_def)

lemma loadDoctorCards_start_frame [world_simps]:
  "requests (loadDoctorCards_start w) = requests w @ [\<lparr>req_method = GET, req_url = DOCTOR_API w, req_body = None\<rparr>]"
  "inflight (loadDoctorCards_start w) = inflight w @ [LoadCall]"
  "modal (loadDoctorCards_start w) = modal w" "alerts (loadDoctorCards_start w) = alerts w"
  "content (loadDoctorCards_start w) = content w"
  "storage (loadDoctorCards_start w) = storage w" "api_base (loadDoctorCards_start w) = api_base w"
  by (simp_all add: loadDoctorCards_start_def world_simps admin_content_frame)

lemma filterDoctors_pair:
  "filterDoctors n t s r w = (res, w1) \<Longrightarrow>
   requests w1 = requests w @ [\<lparr>req_method = GET, req_url = filter_url w n t s, req_body = None\<rparr>]"
  using filterDoctors_requests [of n t s r w] by simp

lemma render_cards_send:
  "render_cards ds (send x w) acc = render_cards ds w acc"
  by (induction ds arbitrary: acc) (simp_all add: createDoctorCard_effects split: sum.splits)

lemma getDoctors_world: "snd (getDoctors r w) = send \<lparr>req_method = GET, req_url = DOCTOR_API w, req_body = None\<rparr> w"
  by (auto simp: getDoctors_def getDoctors_settle_def Let_def split: fetch_result.splits sum.splits)

lemma getDoctors_pair:
  "getDoctors r w = (d, w1) \<Longrightarrow> w1 = send \<lparr>req_method = GET, req_url = DOCTOR_API w, req_body = None\<rparr> w"
  using getDoctors_world [of r w] by simp

lemma renderDoctorCards_frame [world_simps]:
  "requests (snd (renderDoctorCards d w)) = requests w"
  "alerts (snd (renderDoctorCards d w)) = alerts w"
  "modal (snd (renderDoctorCards d w)) = modal w"
  by (auto simp: renderDoctorCards_def split: json.splits prod.splits)

lemma renderDoctorCards_content:
  assumes "renderDoctorCards (JArr ds) w = (None, w2)" and "ds \<noteq> []"
  shows "\<exists>cs. content w2 = ContentCards cs \<and> cs \<noteq> []"
proof -
  obtain e cs where rc: "render_cards ds w [] = (e, cs)" by fastforce
  with assms(1) have "e = None" and w2: "w2 = w\<lparr>content := ContentCards cs\<rparr>"
    by (auto simp: renderDoctorCards_def)
  with rc have "length cs = length ds" by (simp add: render_cards_None_length)
  with assms(2) have "cs \<noteq> []" by auto
  with w2 show ?thesis by simp
qed

lemma renderDoctorCards_None_array:
  "renderDoctorCards d w = (None, w2) \<Longrightarrow> \<exists>ds. d = JArr ds"
  by (auto simp: renderDoctorCards_def split: json.splits)

lemma renderDoctorCards_pair:
  "renderDoctorCards d w = (e, w2) \<Longrightarrow>
   requests w2 = requests w \<and> alerts w2 = alerts w \<and> modal w2 = modal w"
  using renderDoctorCards_frame [of d w] by simp

lemma loadDoctorCards_frame [world_simps]:
  "requests (loadDoctorCards r w) = requests w @ [\<lparr>req_method = GET, req_url = DOCTOR_API w, req_body = None\<rparr>]"
  "modal (loadDoctorCards r w) = modal w"
  "alerts (loadDoctorCards r w) = alerts w"
  by (auto simp: loadDoctorCards_def loadDoctorCards_settle_def world_simps dest!: getDoctors_pair renderDoctorCards_pair
           split: prod.splits option.splits)

lemma loadDoctorCards_settle_frame [world_simps]:
  "requests (loadDoctorCards_settle d w) = requests w" "inflight (loadDoctorCards_settle d w) = inflight w"
  "api_base (loadDoctorCards_settle d w) = api_base w" "storage (loadDoctorCards_settle d w) = storage w"
  by (auto simp: loadDoctorCards_settle_def renderDoctorCards_def split: prod.splits json.splits option.splits)

lemma filterDoctorsOnChange_settle_frame [world_simps]:
  "requests (filterDoctorsOnChange_settle res w) = requests w"
  "inflight (filterDoctorsOnChange_settle res w) = inflight w"
  "api_base (filterDoctorsOnChange_settle res w) = api_base w"
  "storage (filterDoctorsOnChange_settle res w) = storage w"
  by (auto simp: filterDoctorsOnChange_settle_def renderDoctorCards_def world_simps
           split: prod.splits json.splits option.splits)

lemma filter_settle_frame [world_simps]:
  "requests (snd (filter_settle r w)) = requests w" "inflight (snd (filter_settle r w)) = inflight w"
  "api_base (snd (filter_settle r w)) = api_base w" "storage (snd (filter_settle r w)) = storage w"
  using filter_settle_world [of r w] by (auto simp: world_simps)

section \<open>Properties of the admin dashboard\<close>

text \<open>
  C22. Loading the doctor list never leaves a blank panel: whatever getDoctors
  resolves to, the content is a message or at least one card.
\<close>

theorem loadDoctorCards_never_blank:
  "content (loadDoctorCards r w) \<noteq> ContentBlank \<and> content (loadDoctorCards r w) \<noteq> ContentCards []"
proof -
  obtain doctors w1 where g: "getDoctors r w = (doctors, w1)" by fastforce
  show ?thesis
  proof (cases "js_length doctors = Some 0")
    case True
    with g show ?thesis by (simp add: loadDoctorCards_def loadDoctorCards_settle_def)
  next
    case nz: False
    obtain err w2 where rd: "renderDoctorCards doctors w1 = (err, w2)" by fastforce
    show ?thesis
    proof (cases err)
      case None
      with rd obtain ds where ds: "doctors = JArr ds" by (auto dest: renderDoctorCards_None_array)
      with nz have "ds \<noteq> []" by auto
      with rd None ds obtain cs where "content w2 = ContentCards cs" and "cs \<noteq> []"
        using renderDoctorCards_content by blast
      with g nz rd None show ?thesis by (simp add: loadDoctorCards_def loadDoctorCards_settle_def)
    next
    case (Some e)
      with g nz rd show ?thesis by (simp add: loadDoctorCards_def loadDoctorCards_settle_def)
    qed
  qed
qed

text \<open>
  A failed fetch is shown as an empty register: when the request cannot be
  sent, the dashboard says "No doctors currently registered.", the same as for
  a server that has no doctors.
\<close>

theorem loadDoctorCards_network_error:
  "content (loadDoctorCards (NetworkError m) w) = ContentMessage ''No doctors currently registered.''"
  by (simp add: loadDoctorCards_def loadDoctorCards_settle_def getDoctors_def getDoctors_settle_def)

text \<open>
  C23. When getDoctors yields a non-empty array of doctors that can all be
  rendered, the panel shows exactly one card per doctor, in the server's order.
\<close>

theorem loadDoctorCards_renders_all:
  assumes "fst (getDoctors r w) = JArr ds" and "ds \<noteq> []"
    and "\<forall>d \<in> set ds. \<exists>c. createDoctorCard d w = Inr c"
  shows "content (loadDoctorCards r w) = ContentCards (map (\<lambda>d. projr (createDoctorCard d w)) ds)"
proof -
  let ?w1 = "send \<lparr>req_method = GET, req_url = DOCTOR_API w, req_body = None\<rparr> w"
  have g: "getDoctors r w = (JArr ds, ?w1)"
    using assms(1) getDoctors_world [of r w] by (metis prod.collapse)
  have rc: "render_cards ds ?w1 [] = (None, map (\<lambda>d. projr (createDoctorCard d w)) ds)"
    using render_cards_all_built [OF assms(3), of "[]"] by (simp add: render_cards_send)
  have "js_length (JArr ds) \<noteq> Some 0" using assms(2) by simp
  with g rc show ?thesis by (simp add: loadDoctorCards_def loadDoctorCards_settle_def renderDoctorCards_def)
qed

theorem loadDoctorCards_renders_all_witness:
  "content (loadDoctorCards (Response 200 (JsonBody (JObj [(''doctors'',
      JArr [JObj [(''name'', JStr ''Ada''), (''availableTimes'', JArr [])]])]))) \<lparr>storage = [''userRole'' \<mapsto> ''admin'', ''token'' \<mapsto> ''t0''], api_base = [],
       pathname = ''/pages/adminDashboard.html'', navigations = [], alerts = [], requests = [],
       modal = None, header_div = Some HeaderEmpty, content = ContentBlank, inflight = []\<rparr>)
   = ContentCards [projr (createDoctorCard (JObj [(''name'', JStr ''Ada''), (''availableTimes'', JArr [])])
       \<lparr>storage = [''userRole'' \<mapsto> ''admin'', ''token'' \<mapsto> ''t0''], api_base = [],
       pathname = ''/pages/adminDashboard.html'', navigations = [], alerts = [], requests = [],
       modal = None, header_div = Some HeaderEmpty, content = ContentBlank, inflight = []\<rparr>)]"
  using loadDoctorCards_renders_all [of "Response 200 (JsonBody (JObj [(''doctors'',
      JArr [JObj [(''name'', JStr ''Ada''), (''availableTimes'', JArr [])]])]))"
      "\<lparr>storage = [''userRole'' \<mapsto> ''admin'', ''token'' \<mapsto> ''t0''], api_base = [],        pathname = ''/pages/adminDashboard.html'', navigations = [], alerts = [], requests = [],        modal = None, header_div = Some HeaderEmpty, content = ContentBlank, inflight = []\<rparr>"
      "[JObj [(''name'', JStr ''Ada''), (''availableTimes'', JArr [])]]"]
  by (simp add: getDoctors_def getDoctors_settle_def resp_ok_def or_default_def createDoctorCard_def js_prop_def)

text \<open>
  C24. Filtering can leave a blank panel: a successful filter answer whose
  doctor list holds an entry that cannot be rendered clears the panel, and the
  catch block only alerts.
\<close>

theorem filterDoctorsOnChange_blank_panel:
  "\<exists>r. content (filterDoctorsOnChange n t s r w) = ContentCards []"
proof
  show "content (filterDoctorsOnChange n t s
          (Response 200 (JsonBody (JObj [(''doctors'', JArr [JNull])]))) w) = ContentCards []"
    by (simp add: filterDoctorsOnChange_def filterDoctorsOnChange_settle_def filterDoctors_def filter_settle_def resp_ok_def or_default_def
                  renderDoctorCards_def createDoctorCard_def Let_def world_simps)
qed

text \<open>
  The search term is trimmed before it is sent: filterDoctorsOnChange sends
  exactly one request, the filter GET for the trimmed name and the selected
  time and specialty.
\<close>

theorem filterDoctorsOnChange_request:
  "requests (filterDoctorsOnChange n t s r w)
     = requests w @ [\<lparr>req_method = GET, req_url = filter_url w (js_trim n) t s, req_body = None\<rparr>]"
  by (auto simp: filterDoctorsOnChange_def filterDoctorsOnChange_settle_def Let_def world_simps
           dest!: filterDoctors_pair renderDoctorCards_pair split: prod.splits option.splits if_splits)

text \<open>
  Adding a doctor without a stored token sends nothing and changes nothing
  but one alert.
\<close>

theorem adminAddDoctor_without_token:
  assumes "\<not> str_truthy (getItem ''token'' w)"
  shows "adminAddDoctor f r w = alert ''Authorization failed. Please log in as an administrator.'' w"
  using assms by (simp add: adminAddDoctor_def)

theorem adminAddDoctor_without_token_witness:
  "requests (adminAddDoctor \<lparr>add_name = ''A'', add_email = ''a@b'', add_phone = ''1'', add_password = ''p'',
      add_specialty = ''x'', add_times = ''09:00''\<rparr> (NetworkError ''x'')
      \<lparr>storage = Map.empty, api_base = [], pathname = [], navigations = [], alerts = [],
       requests = [], modal = None, header_div = None, content = ContentBlank, inflight = []\<rparr>) = []"
  using adminAddDoctor_without_token [of "\<lparr>storage = Map.empty, api_base = [], pathname = [],
      navigations = [], alerts = [], requests = [], modal = None, header_div = None,
      content = ContentBlank, inflight = []\<rparr>"]
  by (simp add: getItem_def alert_def)

text \<open>
  With a token stored, adding a doctor first POSTs the form to
  \<open>/doctor/save/{token}\<close>; its available times are the comma-separated
  pieces of the input, each trimmed, one more than the commas (so an empty input
  gives one empty slot).
\<close>

theorem adminAddDoctor_request:
  assumes "getItem ''token'' w = Some tok" and "tok \<noteq> []"
  shows "(\<exists>rest. requests (adminAddDoctor f r w)
           = requests w @ \<lparr>req_method = POST, req_url = DOCTOR_API w @ ''/save/'' @ tok,
                           req_body = Some (form_doctor f)\<rparr> # rest)
       \<and> length (form_times f) = Suc (count_list (add_times f) CHR '','')"
proof
  show "\<exists>rest. requests (adminAddDoctor f r w)
           = requests w @ \<lparr>req_method = POST, req_url = DOCTOR_API w @ ''/save/'' @ tok,
                           req_body = Some (form_doctor f)\<rparr> # rest"
    using assms
    by (auto simp: adminAddDoctor_def adminAddDoctor_settle_def saveDoctor_def saveDoctor_request_def
                   closeModal_def world_simps split: prod.splits)
  show "length (form_times f) = Suc (count_list (add_times f) CHR '','')"
    by (simp add: form_times_def js_split_length)
qed

theorem adminAddDoctor_request_witness:
  "form_times \<lparr>add_name = ''A'', add_email = ''a@b'', add_phone = ''1'', add_password = ''p'',
      add_specialty = ''x'', add_times = []\<rparr> = [[]]"
  using adminAddDoctor_request [of "\<lparr>storage = [''userRole'' \<mapsto> ''admin'', ''token'' \<mapsto> ''t0''], api_base = [],        pathname = ''/pages/adminDashboard.html'', navigations = [], alerts = [], requests = [],        modal = None, header_div = Some HeaderEmpty, content = ContentBlank, inflight = []\<rparr>" "''t0''" "\<lparr>add_name = ''A'', add_email = ''a@b'', add_phone = ''1'', add_password = ''p'',       add_specialty = ''x'', add_times = []\<rparr>"]
  by (simp add: getItem_def form_times_def js_trim_def)

text \<open>
  C25. A successful save closes the modal, alerts the server's message and
  starts reloading the list: exactly two requests are sent, the POST and then the
  GET of all doctors, and the reload is left in flight.
\<close>

theorem adminAddDoctor_success:
  assumes "getItem ''token'' w = Some tok" and "tok \<noteq> []"
    and "success (fst (saveDoctor (form_doctor f) tok r w))"
  shows "modal (adminAddDoctor f r w) = None
       \<and> alerts (adminAddDoctor f r w)
           = alerts w @ [''Success! '' @ js_to_string (message (fst (saveDoctor (form_doctor f) tok r w)))]
       \<and> requests (adminAddDoctor f r w)
           = requests w @ [\<lparr>req_method = POST, req_url = DOCTOR_API w @ ''/save/'' @ tok,
                            req_body = Some (form_doctor f)\<rparr>,
                           \<lparr>req_method = GET, req_url = DOCTOR_API w, req_body = None\<rparr>]
       \<and> inflight (adminAddDoctor f r w) = inflight w @ [LoadCall]"
  using assms
  by (auto simp: adminAddDoctor_def adminAddDoctor_settle_def saveDoctor_def saveDoctor_request_def
                 closeModal_def DOCTOR_API_def world_simps split: prod.splits)

theorem adminAddDoctor_success_witness:
  "modal (adminAddDoctor \<lparr>add_name = ''A'', add_email = ''a@b'', add_phone = ''1'', add_password = ''p'', add_specialty = ''x'', add_times = ''09:00, 10:00''\<rparr> (Response 200 (JsonBody (JObj [])))
     \<lparr>storage = [''userRole'' \<mapsto> ''admin'', ''token'' \<mapsto> ''t0''], api_base = [],        pathname = ''/pages/adminDashboard.html'', navigations = [], alerts = [], requests = [],        modal = None, header_div = Some HeaderEmpty, content = ContentBlank, inflight = []\<rparr>) = None"
  using adminAddDoctor_success [of "\<lparr>storage = [''userRole'' \<mapsto> ''admin'', ''token'' \<mapsto> ''t0''], api_base = [],        pathname = ''/pages/adminDashboard.html'', navigations = [], alerts = [], requests = [],        modal = None, header_div = Some HeaderEmpty, content = ContentBlank, inflight = []\<rparr>" "''t0''" "\<lparr>add_name = ''A'', add_email = ''a@b'', add_phone = ''1'', add_password = ''p'', add_specialty = ''x'', add_times = ''09:00, 10:00''\<rparr>" "Response 200 (JsonBody (JObj []))"]
  by (simp add: getItem_def saveDoctor_def saveDoctor_settle_def mutation_envelope_def resp_ok_def)

end
