(* ===== verification/Admin_Page.thy ===== *)
theory Admin_Page
  imports Admin_Dashboard "HOL-Library.Sublist"
begin

text \<open>
  adminDashboard.js as a running page. The module looks up the search bar and the
  two filter selects when it loads (an element the page lacks is \<open>null\<close>);
  \<open>window.onload\<close> attaches the listeners of the elements present and starts
  loadDoctorCards. The page's state adds to \<open>admin_page\<close> the three inputs'
  values (\<open>None\<close> for a missing element), whether the Add Doctor button exists,
  and the listeners attached. filterDoctorsOnChange reads all three inputs before
  its \<open>try\<close> block and sends its request; the answers of the calls in flight
  arrive in any order (\<open>admin_run\<close>). The add-doctor form's save is a call in
  flight like the others, and so is the reload it starts on success, and so is
  the delete of a card's doctor. \<open>admin_step\<close> is one event of the page (a
  user action, or the answer to the \<open>k\<close>-th call in flight) and
  \<open>admin_trace\<close> runs a list of them, so a particular interleaving can be
  stated as the list of its events.

  The cards are DOM elements, and \<open>card.remove()\<close> acts on the element the
  listener closed over. \<open>panel_nodes\<close> names the elements on the panel, one
  per card in order, and \<open>next_node\<close> is the next fresh name. Every answer of a
  load or a filter rewrites the panel (\<open>innerHTML\<close> and new cards, or a
  message), so its elements are new (\<open>mount\<close>); an element taken off the
  panel stays off, and removing it again does nothing.
\<close>

datatype admin_listener = AddDocClick | SearchInput | TimeChange | SpecialtyChange

record admin_live = admin_page +
  searchBar :: "string option"
  timeFilter :: "string option"
  specialtyFilter :: "string option"
  addDocBtn :: bool
  listeners :: "admin_listener list"
  panel_nodes :: "nat list"
  next_node :: nat

text \<open>\<open>if (el) el.addEventListener(...)\<close>.\<close>

definition listen :: "bool \<Rightarrow> admin_listener \<Rightarrow> 'a admin_live_scheme \<Rightarrow> 'a admin_live_scheme" where
  "listen present l w = (if present then w\<lparr>listeners := listeners w @ [l]\<rparr> else w)"

definition adminOnload :: "'a admin_live_scheme \<Rightarrow> 'a admin_live_scheme" where
  "adminOnload w =
     (let w1 = listen (addDocBtn w) AddDocClick w;
          w2 = loadDoctorCards_start w1;
          w3 = listen (searchBar w2 \<noteq> None) SearchInput w2;
          w4 = listen (timeFilter w3 \<noteq> None) TimeChange w3 in
      listen (specialtyFilter w4 \<noteq> None) SpecialtyChange w4)"

definition null_value_error :: js_exn where
  "null_value_error = JsError ''Cannot read properties of null (reading value)''"

text \<open>
  The first lines of filterDoctorsOnChange: \<open>searchBar.value.trim()\<close>,
  \<open>timeFilter.value\<close>, \<open>specialtyFilter.value\<close>, each throwing on a missing
  element; \<open>x || ''\<close> is the identity on strings.
\<close>

definition filter_read :: "'a admin_live_scheme \<Rightarrow> js_exn + string \<times> string \<times> string" where
  "filter_read w =
     (case searchBar w of
        None \<Rightarrow> Inl null_value_error
      | Some v \<Rightarrow>
          (case timeFilter w of
             None \<Rightarrow> Inl null_value_error
           | Some t \<Rightarrow>
               (case specialtyFilter w of
                  None \<Rightarrow> Inl null_value_error
                | Some sp \<Rightarrow> Inr (js_trim v, t, sp))))"

text \<open>
  filterDoctorsOnChange up to its \<open>await\<close>: the inputs are read, filterDoctors
  sends its request, and the call is in flight. An exception here is outside the
  \<open>try\<close>: the promise rejects and nobody handles it.
\<close>

definition filterDoctorsOnChange_start :: "'a admin_live_scheme \<Rightarrow> js_exn + 'a admin_live_scheme" where
  "filterDoctorsOnChange_start w =
     (case filter_read w of
        Inl e \<Rightarrow> Inl e
      | Inr (n, t, sp) \<Rightarrow>
          Inr ((send \<lparr>req_method = GET, req_url = filter_url w n t sp, req_body = None\<rparr> w)
                 \<lparr>inflight := inflight w @ [FilterCall n t sp]\<rparr>))"

text \<open>A listener run: a rejected promise leaves the page as it was.\<close>

definition filter_event :: "'a admin_live_scheme \<Rightarrow> 'a admin_live_scheme" where
  "filter_event w = (case filterDoctorsOnChange_start w of Inl e \<Rightarrow> w | Inr w1 \<Rightarrow> w1)"

text \<open>The continuation of a call in flight when its answer arrives.\<close>

fun settle_call :: "admin_call \<Rightarrow> fetch_result \<Rightarrow> 'a admin_page_scheme \<Rightarrow> 'a admin_page_scheme" where
  "settle_call LoadCall r w = loadDoctorCards_settle (getDoctors_settle r) w"
| "settle_call (FilterCall n t sp) r w =
     (let (result, w1) = filter_settle r w in filterDoctorsOnChange_settle result w1)"
| "settle_call (SaveCall d tok) r w = adminAddDoctor_settle (saveDoctor_settle r) w"
| "settle_call (DeleteCall n d tok) r w = deleteClick_settle d w"

text \<open>The panel's elements after a load or filter answer has rewritten it.\<close>

definition mount :: "'a admin_live_scheme \<Rightarrow> 'a admin_live_scheme" where
  "mount w =
     (case content w of
        ContentCards cs \<Rightarrow>
          w\<lparr>panel_nodes := [next_node w ..< next_node w + length cs], next_node := next_node w + length cs\<rparr>
      | _ \<Rightarrow> w\<lparr>panel_nodes := []\<rparr>)"

text \<open>\<open>card.remove()\<close> on element \<open>n\<close>: its card leaves the panel if it is still on it.\<close>

definition card_remove :: "nat \<Rightarrow> 'a admin_live_scheme \<Rightarrow> 'a admin_live_scheme" where
  "card_remove n w =
     (case content w of
        ContentCards cs \<Rightarrow>
          w\<lparr>content := ContentCards (map fst (filter (\<lambda>p. snd p \<noteq> n) (zip cs (panel_nodes w)))),
            panel_nodes := filter (\<lambda>m. m \<noteq> n) (panel_nodes w)\<rparr>
      | _ \<Rightarrow> w)"

text \<open>
  The delete button of the \<open>i\<close>-th card on the panel, up to the listener's
  \<open>await\<close>: the delete is in flight with the card's element.
\<close>

definition deleteCardClick_start :: "bool \<Rightarrow> nat \<Rightarrow> 'a admin_live_scheme \<Rightarrow> 'a admin_live_scheme" where
  "deleteCardClick_start confirmed i w =
     (case content w of
        ContentCards cs \<Rightarrow>
          (if i < length cs \<and> card_action (cs ! i) = DeleteDoctorBtn then
             (case deleteClick_start confirmed (card_doctor (cs ! i)) w of
                (None, w1) \<Rightarrow> w1
              | (Some tok, w1) \<Rightarrow>
                  w1\<lparr>inflight := inflight w @ [DeleteCall (panel_nodes w ! i) (card_doctor (cs ! i)) tok]\<rparr>)
           else w)
      | _ \<Rightarrow> w)"

text \<open>
  An answer handled on the running page: the continuation of its call, then the
  DOM's part, new elements for a rewritten panel or the removal of the deleted
  card's element.
\<close>

definition settle_live :: "admin_call \<Rightarrow> fetch_result \<Rightarrow> 'a admin_live_scheme \<Rightarrow> 'a admin_live_scheme" where
  "settle_live c r w =
     (case c of
        DeleteCall n d tok \<Rightarrow> card_remove n (settle_call c r w)
      | SaveCall d tok \<Rightarrow> settle_call c r w
      | _ \<Rightarrow> mount (settle_call c r w))"

text \<open>
  The runs of the page from its load: the user clicks Add Doctor, types in the
  search bar, changes a filter, submits the add-doctor form, deletes a card; any
  call in flight may be answered next.
\<close>

inductive admin_run :: "admin_live \<Rightarrow> bool" where
  onload: "listeners w = [] \<Longrightarrow> inflight w = [] \<Longrightarrow> requests w = [] \<Longrightarrow>
     content w = ContentBlank \<Longrightarrow> panel_nodes w = [] \<Longrightarrow> admin_run (adminOnload w)"
| add_click: "admin_run w \<Longrightarrow> AddDocClick \<in> set (listeners w) \<Longrightarrow> admin_run (openModal ''addDoctor'' w)"
| search_input: "admin_run w \<Longrightarrow> SearchInput \<in> set (listeners w) \<Longrightarrow>
     admin_run (filter_event (w\<lparr>searchBar := Some v\<rparr>))"
| time_change: "admin_run w \<Longrightarrow> TimeChange \<in> set (listeners w) \<Longrightarrow>
     admin_run (filter_event (w\<lparr>timeFilter := Some t\<rparr>))"
| specialty_change: "admin_run w \<Longrightarrow> SpecialtyChange \<in> set (listeners w) \<Longrightarrow>
     admin_run (filter_event (w\<lparr>specialtyFilter := Some sp\<rparr>))"
| add_doctor: "admin_run w \<Longrightarrow> admin_run (adminAddDoctor_start f w)"
| delete_card: "admin_run w \<Longrightarrow> admin_run (deleteCardClick_start confirmed i w)"
| settle: "admin_run w \<Longrightarrow> inflight w = xs @ c # ys \<Longrightarrow>
     admin_run (settle_live c r (w\<lparr>inflight := xs @ ys\<rparr>))"

text \<open>The same moves as events, and a run as the list of its events.\<close>

datatype admin_event = AddClick | TypeSearch string | PickTime string | PickSpecialty string
  | SubmitAdd doctor_form | DeleteClick bool nat | Answer nat fetch_result

fun admin_step :: "admin_event \<Rightarrow> admin_live \<Rightarrow> admin_live option" where
  "admin_step AddClick w =
     (if AddDocClick \<in> set (listeners w) then Some (openModal ''addDoctor'' w) else None)"
| "admin_step (TypeSearch v) w =
     (if SearchInput \<in> set (listeners w) then Some (filter_event (w\<lparr>searchBar := Some v\<rparr>)) else None)"
| "admin_step (PickTime t) w =
     (if TimeChange \<in> set (listeners w) then Some (filter_event (w\<lparr>timeFilter := Some t\<rparr>)) else None)"
| "admin_step (PickSpecialty sp) w =
     (if SpecialtyChange \<in> set (listeners w) then Some (filter_event (w\<lparr>specialtyFilter := Some sp\<rparr>)) else None)"
| "admin_step (SubmitAdd f) w = Some (adminAddDoctor_start f w)"
| "admin_step (DeleteClick confirmed i) w = Some (deleteCardClick_start confirmed i w)"
| "admin_step (Answer k r) w =
     (if k < length (inflight w) then
        Some (settle_live (inflight w ! k) r (w\<lparr>inflight := take k (inflight w) @ drop (Suc k) (inflight w)\<rparr>))
      else None)"

fun admin_trace :: "admin_event list \<Rightarrow> admin_live \<Rightarrow> admin_live option" where
  "admin_trace [] w = Some w"
| "admin_trace (e # es) w = (case admin_step e w of None \<Rightarrow> None | Some w' \<Rightarrow> admin_trace es w')"

text \<open>
  The endpoints of spec section 7 that the admin page may call, under the
  configured base: \<open>GET /doctor\<close>, \<open>GET /doctor/filter/{name}/{time}/{specialty}\<close>
  (three path segments, each a valid percent-encoding), \<open>POST /doctor/save/{token}\<close>
  with a doctor object as the add-doctor form builds it (six members, the
  available times an array of strings), and \<open>DELETE /doctor/{doctorId}/{token}\<close>,
  without a body; the token in a path is the stored token, and is not empty.
\<close>

definition doctor_save_schema :: "(string \<times> field_type) list" where
  "doctor_save_schema =
     [(''name'', FStr), (''email'', FStr), (''phone'', FStr), (''password'', FStr),
      (''specialty'', FStr), (''availableTimes'', FStrArr)]"

definition admin_request_ok :: "string \<Rightarrow> string option \<Rightarrow> http_request \<Rightarrow> bool" where
  "admin_request_ok base tok x \<longleftrightarrow>
     (let api = base @ ''/doctor'' in
      case req_method x of
        GET \<Rightarrow> req_body x = None
               \<and> (req_url x = api \<or> parse_filter_url (api @ ''/filter/'') (req_url x) \<noteq> None)
      | POST \<Rightarrow>
          (case tok of
             None \<Rightarrow> False
           | Some t \<Rightarrow> t \<noteq> [] \<and> req_url x = api @ ''/save/'' @ t
               \<and> (case req_body x of Some b \<Rightarrow> has_schema doctor_save_schema b | None \<Rightarrow> False))
      | DELETE \<Rightarrow>
          (case tok of
             None \<Rightarrow> False
           | Some t \<Rightarrow> t \<noteq> [] \<and> req_body x = None \<and> prefix (api @ ''/'') (req_url x)
               \<and> suffix (''/'' @ t) (req_url x) \<and> length api + 2 + length t \<le> length (req_url x)))"

text \<open>
  A step of the page that keeps the base URL and the store, and only adds
  requests of those kinds to the log.
\<close>

definition log_extends :: "'a admin_page_scheme \<Rightarrow> 'a admin_page_scheme \<Rightarrow> bool" where
  "log_extends w w' \<longleftrightarrow> api_base w' = api_base w \<and> storage w' = storage w
     \<and> (\<exists>xs. requests w' = requests w @ xs \<and> list_all (admin_request_ok (api_base w) (getItem ''token'' w)) xs)"

definition admin_inv :: "'a admin_page_scheme \<Rightarrow> bool" where
  "admin_inv w \<longleftrightarrow> list_all (admin_request_ok (api_base w) (getItem ''token'' w)) (requests w)"

text \<open>
  The panel's elements match its cards one to one, are pairwise distinct, and
  are below the next fresh name.
\<close>

definition panel_inv :: "'a admin_live_scheme \<Rightarrow> bool" where
  "panel_inv w \<longleftrightarrow>
     (case content w of ContentCards cs \<Rightarrow> length (panel_nodes w) = length cs | _ \<Rightarrow> panel_nodes w = [])
     \<and> distinct (panel_nodes w) \<and> (\<forall>m \<in> set (panel_nodes w). m < next_node w)"

text \<open>
  The admin dashboard before \<open>window.onload\<close>, with an admin session stored,
  every element present and the API at the page's own origin: the start of the
  runs stated below.
\<close>

abbreviation admin_page0 :: admin_live where
  "admin_page0 \<equiv> \<lparr>storage = [''userRole'' \<mapsto> ''admin'', ''token'' \<mapsto> ''t0''], api_base = [], pathname = ''/pages/adminDashboard.html'', navigations = [], alerts = [], requests = [], modal = None, header_div = Some HeaderEmpty, content = ContentBlank, inflight = [], searchBar = Some [], timeFilter = Some [], specialtyFilter = Some [], addDocBtn = True, listeners = [], panel_nodes = [], next_node = 0\<rparr>"

section \<open>Lemmas on the page\<close>

lemma live_frame [simp]:
  "searchBar (send x w) = searchBar w" "timeFilter (send x w) = timeFilter w"
  "specialtyFilter (send x w) = specialtyFilter w" "listeners (send x w) = listeners w"
  "addDocBtn (send x w) = addDocBtn w"
  by (simp_all add: send_def)

lemma listen_fields [simp]:
  "requests (listen b l w) = requests w" "inflight (listen b l w) = inflight w"
  "content (listen b l w) = content w" "api_base (listen b l w) = api_base w"
  "storage (listen b l w) = storage w"
  "searchBar (listen b l w) = searchBar w" "timeFilter (listen b l w) = timeFilter w"
  "specialtyFilter (listen b l w) = specialtyFilter w" "addDocBtn (listen b l w) = addDocBtn w"
  "listeners (listen b l w) = listeners w @ (if b then [l] else [])"
  by (simp_all add: listen_def)

lemma loadDoctorCards_start_live [simp]:
  "searchBar (loadDoctorCards_start w) = searchBar w" "timeFilter (loadDoctorCards_start w) = timeFilter w"
  "specialtyFilter (loadDoctorCards_start w) = specialtyFilter w"
  "listeners (loadDoctorCards_start w) = listeners w"
  "api_base (loadDoctorCards_start w) = api_base w"
  by (simp_all add: loadDoctorCards_start_def world_simps)

lemma node_frame [simp]:
  "panel_nodes (send x w) = panel_nodes w" "next_node (send x w) = next_node w"
  "panel_nodes (alert m w) = panel_nodes w" "next_node (alert m w) = next_node w"
  "panel_nodes (openModal n w) = panel_nodes w" "next_node (openModal n w) = next_node w"
  "panel_nodes (closeModal w) = panel_nodes w" "next_node (closeModal w) = next_node w"
  "panel_nodes (listen b l w) = panel_nodes w" "next_node (listen b l w) = next_node w"
  "panel_nodes (loadDoctorCards_start w) = panel_nodes w" "next_node (loadDoctorCards_start w) = next_node w"
  by (simp_all add: send_def alert_def openModal_def closeModal_def listen_def loadDoctorCards_start_def)

lemma filter_read_Inr:
  "filter_read w = Inr q \<longleftrightarrow>
     (\<exists>v t sp. searchBar w = Some v \<and> timeFilter w = Some t \<and> specialtyFilter w = Some sp
        \<and> q = (js_trim v, t, sp))"
  by (auto simp: filter_read_def split: option.splits)

lemma getItem_same_storage: "storage w' = storage w \<Longrightarrow> getItem k w' = getItem k w"
  by (simp add: getItem_def)

lemma log_extends_same:
  "api_base w' = api_base w \<Longrightarrow> storage w' = storage w \<Longrightarrow> requests w' = requests w \<Longrightarrow> log_extends w w'"
  unfolding log_extends_def by (intro conjI exI [of _ "[]"]) simp_all

lemma log_extends_one:
  "api_base w' = api_base w \<Longrightarrow> storage w' = storage w \<Longrightarrow> requests w' = requests w @ [x] \<Longrightarrow>
   admin_request_ok (api_base w) (getItem ''token'' w) x \<Longrightarrow> log_extends w w'"
  unfolding log_extends_def by (intro conjI exI [of _ "[x]"]) simp_all

lemma log_extends_trans:
  assumes "log_extends w w1" and "log_extends w1 w2"
  shows "log_extends w w2"
proof -
  from assms(1) obtain xs where b: "api_base w1 = api_base w" and st: "storage w1 = storage w"
    and r: "requests w1 = requests w @ xs" and ok: "list_all (admin_request_ok (api_base w) (getItem ''token'' w)) xs"
    unfolding log_extends_def by blast
  from assms(2) obtain xs' where b': "api_base w2 = api_base w1" and st': "storage w2 = storage w1"
    and r': "requests w2 = requests w1 @ xs'"
    and ok': "list_all (admin_request_ok (api_base w1) (getItem ''token'' w1)) xs'"
    unfolding log_extends_def by blast
  have "getItem ''token'' w1 = getItem ''token'' w" using st by (rule getItem_same_storage)
  then show ?thesis unfolding log_extends_def
    by (intro conjI exI [of _ "xs @ xs'"]) (use b b' st st' r r' ok ok' in simp_all)
qed

lemma log_extends_inv:
  assumes "log_extends w w'" and "admin_inv w"
  shows "admin_inv w'"
proof -
  from assms(1) obtain xs where b: "api_base w' = api_base w" and st: "storage w' = storage w"
    and r: "requests w' = requests w @ xs" and ok: "list_all (admin_request_ok (api_base w) (getItem ''token'' w)) xs"
    unfolding log_extends_def by blast
  have "getItem ''token'' w' = getItem ''token'' w" using st by (rule getItem_same_storage)
  with assms(2) b r ok show ?thesis by (simp add: admin_inv_def)
qed

lemma admin_inv_frame:
  "api_base w' = api_base w \<Longrightarrow> storage w' = storage w \<Longrightarrow> requests w' = requests w \<Longrightarrow>
   admin_inv w' = admin_inv w"
  by (simp add: admin_inv_def getItem_def)

lemma admin_inv_live_upd [simp]:
  "admin_inv (w\<lparr>inflight := fs\<rparr>) = admin_inv w" "admin_inv (w\<lparr>searchBar := v\<rparr>) = admin_inv w"
  "admin_inv (w\<lparr>timeFilter := t\<rparr>) = admin_inv w" "admin_inv (w\<lparr>specialtyFilter := sp\<rparr>) = admin_inv w"
  by (rule admin_inv_frame; simp)+

lemma filter_zip_remove_nth:
  assumes "length cs = length ns" and "distinct ns" and "j < length ns"
  shows "map fst (filter (\<lambda>p. snd p \<noteq> ns ! j) (zip cs ns)) = take j cs @ drop (Suc j) cs"
  using assms
proof (induction cs ns arbitrary: j rule: list_induct2)
  case Nil
  then show ?case by simp
next
  case (Cons c cs n ns)
  show ?case
  proof (cases j)
    case 0
    from Cons.prems have "\<forall>p \<in> set (zip cs ns). snd p \<noteq> n" by (auto dest: set_zip_rightD)
    with 0 Cons.hyps show ?thesis by (simp add: filter_True map_fst_zip)
  next
    case (Suc k)
    with Cons show ?thesis by auto
  qed
qed

lemma filter_remove_nth:
  "distinct ns \<Longrightarrow> j < length ns \<Longrightarrow> filter (\<lambda>m. m \<noteq> ns ! j) ns = take j ns @ drop (Suc j) ns"
proof (induction ns arbitrary: j)
  case Nil
  then show ?case by simp
next
  case (Cons n ns)
  then show ?case by (cases j) (auto simp: filter_id_conv)
qed

lemma filter_zip_snd:
  "length cs = length ns \<Longrightarrow>
   length (filter (\<lambda>p. snd p \<noteq> n) (zip cs ns)) = length (filter (\<lambda>m. m \<noteq> n) ns)"
  by (induction cs ns rule: list_induct2) auto

lemma panel_inv_frame:
  "content w' = content w \<Longrightarrow> panel_nodes w' = panel_nodes w \<Longrightarrow> next_node w' = next_node w \<Longrightarrow>
   panel_inv w' = panel_inv w"
  unfolding panel_inv_def by (simp only:)

lemma mount_panel_inv: "panel_inv (mount w)"
  by (auto simp: mount_def panel_inv_def split: admin_content.splits)

lemma card_remove_panel_inv: "panel_inv w \<Longrightarrow> panel_inv (card_remove n w)"
  by (auto simp: card_remove_def panel_inv_def filter_zip_snd split: admin_content.splits)

lemma form_doctor_schema: "has_schema doctor_save_schema (form_doctor f)"
  by (simp add: has_schema_def doctor_save_schema_def form_doctor_def field_ok_def is_jstr_def
                list_all_iff)

lemma doctor_list_request_ok:
  "admin_request_ok (api_base w) tok \<lparr>req_method = GET, req_url = DOCTOR_API w, req_body = None\<rparr>"
  by (simp add: admin_request_ok_def DOCTOR_API_def)

lemma filter_request_ok:
  "admin_request_ok (api_base w) tok \<lparr>req_method = GET, req_url = filter_url w n t sp, req_body = None\<rparr>"
  using parse_filter_url_filter_url [of w n t sp] by (simp add: admin_request_ok_def DOCTOR_API_def)

lemma save_request_ok:
  "tok \<noteq> [] \<Longrightarrow>
   admin_request_ok (api_base w) (Some tok) (saveDoctor_request (form_doctor f) tok w)"
  by (simp add: admin_request_ok_def saveDoctor_request_def DOCTOR_API_def form_doctor_schema)

lemma delete_request_ok:
  "tok \<noteq> [] \<Longrightarrow>
   admin_request_ok (api_base w) (Some tok) (deleteDoctor_request i tok w)"
  by (simp add: admin_request_ok_def deleteDoctor_request_def DOCTOR_API_def prefix_def suffix_def)

lemma loadDoctorCards_start_log: "log_extends w (loadDoctorCards_start w)"
  by (rule log_extends_one [where x = "\<lparr>req_method = GET, req_url = DOCTOR_API w, req_body = None\<rparr>"]) (simp_all add: world_simps doctor_list_request_ok)

lemma settle_call_log: "log_extends w (settle_call c r w)"
proof (cases c)
  case (SaveCall d tok)
  let ?w1 = "closeModal (alert (''Success! '' @ js_to_string (message (saveDoctor_settle r))) w)"
  have "log_extends w ?w1" by (rule log_extends_same) (simp_all add: closeModal_def world_simps)
  then have "log_extends w (loadDoctorCards_start ?w1)"
    using loadDoctorCards_start_log by (rule log_extends_trans)
  with SaveCall show ?thesis
    by (auto simp: adminAddDoctor_settle_def world_simps intro: log_extends_same)
qed (simp_all add: split_def Let_def deleteClick_settle_def world_simps log_extends_same)

lemma adminOnload_log: "log_extends w (adminOnload w)"
  by (rule log_extends_one [where x = "\<lparr>req_method = GET, req_url = DOCTOR_API w, req_body = None\<rparr>"]) (simp_all add: adminOnload_def Let_def doctor_list_request_ok [unfolded DOCTOR_API_def] DOCTOR_API_def
                    world_simps)

lemma openModal_log: "log_extends w (openModal n w)"
  by (rule log_extends_same) (simp_all add: openModal_def)

lemma filter_event_log: "log_extends w (filter_event w)"
proof (cases "filter_read w")
  case (Inl e)
  then show ?thesis by (simp add: filter_event_def filterDoctorsOnChange_start_def log_extends_same)
next
  case (Inr q)
  then obtain n t sp where q: "q = (n, t, sp)" by (cases q) auto
  show ?thesis
    by (rule log_extends_one [where x = "\<lparr>req_method = GET, req_url = filter_url w n t sp, req_body = None\<rparr>"])
       (use Inr q in \<open>simp_all add: filter_event_def filterDoctorsOnChange_start_def filter_request_ok
          world_simps\<close>)
qed

lemma adminAddDoctor_start_log: "log_extends w (adminAddDoctor_start f w)"
proof (cases "str_truthy (getItem ''token'' w)")
  case True
  then obtain tok where t: "getItem ''token'' w = Some tok" "tok \<noteq> []" by (auto simp: str_truthy_def)
  show ?thesis
    by (rule log_extends_one [where x = "saveDoctor_request (form_doctor f) tok w"])
       (use True t in \<open>simp_all add: adminAddDoctor_start_def Let_def save_request_ok world_simps\<close>)
next
  case False
  then show ?thesis by (simp add: adminAddDoctor_start_def Let_def log_extends_same world_simps)
qed

lemma deleteCardClick_start_log: "log_extends w (deleteCardClick_start confirmed i w)"
proof (cases "\<exists>cs. content w = ContentCards cs \<and> i < length cs \<and> card_action (cs ! i) = DeleteDoctorBtn
                   \<and> confirmed \<and> str_truthy (getItem ''token'' w)")
  case True
  then obtain cs where c: "content w = ContentCards cs" "i < length cs" "card_action (cs ! i) = DeleteDoctorBtn"
    and k: "confirmed" "str_truthy (getItem ''token'' w)" by blast
  from k(2) obtain tok where t: "getItem ''token'' w = Some tok" "tok \<noteq> []" by (auto simp: str_truthy_def)
  show ?thesis
    by (rule log_extends_one [where x = "deleteDoctor_request (js_prop (card_doctor (cs ! i)) ''doctorId'') tok w"])
       (use c k t in \<open>simp_all add: deleteCardClick_start_def deleteClick_start_def Let_def
          delete_request_ok world_simps\<close>)
next
  case False
  then show ?thesis
    by (auto simp: deleteCardClick_start_def deleteClick_start_def Let_def world_simps intro!: log_extends_same
             split: admin_content.splits)
qed

lemma settle_live_log: "log_extends w (settle_live c r w)"
proof -
  have m: "log_extends w' (mount w')" for w' :: "'a admin_live_scheme"
    by (rule log_extends_same) (simp_all add: mount_def split: admin_content.splits)
  have d: "log_extends w' (card_remove n w')" for w' :: "'a admin_live_scheme" and n
    by (rule log_extends_same) (simp_all add: card_remove_def split: admin_content.splits)
  show ?thesis
  proof (cases c)
    case LoadCall
    then have e: "settle_live c r w = mount (settle_call c r w)" by (simp add: settle_live_def)
    show ?thesis unfolding e by (rule log_extends_trans [OF settle_call_log m])
  next
    case (FilterCall n t sp)
    then have e: "settle_live c r w = mount (settle_call c r w)" by (simp add: settle_live_def)
    show ?thesis unfolding e by (rule log_extends_trans [OF settle_call_log m])
  next
    case (SaveCall d tok)
    then have e: "settle_live c r w = settle_call c r w" by (simp add: settle_live_def)
    show ?thesis unfolding e by (rule settle_call_log)
  next
    case (DeleteCall n d tok)
    then have e: "settle_live c r w = card_remove n (settle_call c r w)" by (simp add: settle_live_def)
    show ?thesis unfolding e by (rule log_extends_trans [OF settle_call_log d])
  qed
qed

lemma panel_inv_steps:
  "panel_inv (adminOnload w) = panel_inv w" "panel_inv (openModal nm w) = panel_inv w"
  "panel_inv (filter_event w) = panel_inv w" "panel_inv (adminAddDoctor_start f w) = panel_inv w"
  "panel_inv (deleteCardClick_start confirmed i w) = panel_inv w"
  "panel_inv (adminAddDoctor_settle res w) = panel_inv w"
  "panel_inv (deleteClick_settle d w) = panel_inv w"
  subgoal by (rule panel_inv_frame) (simp_all add: adminOnload_def Let_def world_simps)
  subgoal by (rule panel_inv_frame) (simp_all add: openModal_def)
  subgoal by (rule panel_inv_frame)
      (auto simp: filter_event_def filterDoctorsOnChange_start_def world_simps split: sum.splits prod.splits)
  subgoal by (rule panel_inv_frame) (simp_all add: adminAddDoctor_start_def Let_def world_simps)
  subgoal by (rule panel_inv_frame)
      (auto simp: deleteCardClick_start_def deleteClick_start_def Let_def world_simps
            split: prod.splits option.splits admin_content.splits)
  subgoal by (rule panel_inv_frame) (simp_all add: adminAddDoctor_settle_def closeModal_def world_simps)
  subgoal by (rule panel_inv_frame) (simp_all add: deleteClick_settle_def world_simps)
  done

lemma panel_inv_upd [simp]:
  "panel_inv (w\<lparr>inflight := fs\<rparr>) = panel_inv w"
  "panel_inv (w\<lparr>searchBar := v\<rparr>) = panel_inv w" "panel_inv (w\<lparr>timeFilter := t\<rparr>) = panel_inv w"
  "panel_inv (w\<lparr>specialtyFilter := sp\<rparr>) = panel_inv w"
  by (rule panel_inv_frame; simp)+

lemma settle_live_panel_inv: "panel_inv w \<Longrightarrow> panel_inv (settle_live c r w)"
  by (cases c) (simp_all add: settle_live_def mount_panel_inv card_remove_panel_inv panel_inv_steps)

lemma step_inv:
  assumes "log_extends w w'" and "panel_inv w' = panel_inv w" and "admin_inv w \<and> panel_inv w"
  shows "admin_inv w' \<and> panel_inv w'"
  using assms log_extends_inv by blast

lemma admin_run_inv:
  assumes "admin_run w"
  shows "admin_inv w \<and> panel_inv w"
  using assms
proof (induction rule: admin_run.induct)
  case (onload w)
  then have "admin_inv w \<and> panel_inv w" by (simp add: admin_inv_def panel_inv_def)
  then show ?case by (rule step_inv [OF adminOnload_log panel_inv_steps(1)])
next
  case (add_click w)
  then show ?case by (intro step_inv [OF openModal_log panel_inv_steps(2)])
next
  case (search_input w v)
  then show ?case by (intro step_inv [OF filter_event_log panel_inv_steps(3)]) simp
next
  case (time_change w t)
  then show ?case by (intro step_inv [OF filter_event_log panel_inv_steps(3)]) simp
next
  case (specialty_change w sp)
  then show ?case by (intro step_inv [OF filter_event_log panel_inv_steps(3)]) simp
next
  case (add_doctor w f)
  then show ?case by (intro step_inv [OF adminAddDoctor_start_log panel_inv_steps(4)])
next
  case (delete_card w confirmed i)
  then show ?case by (intro step_inv [OF deleteCardClick_start_log panel_inv_steps(5)])
next
  case (settle w xs c ys r)
  from settle.IH have "admin_inv (w\<lparr>inflight := xs @ ys\<rparr>)" by simp
  then have "admin_inv (settle_live c r (w\<lparr>inflight := xs @ ys\<rparr>))" by (rule log_extends_inv [OF settle_live_log])
  moreover have "panel_inv (settle_live c r (w\<lparr>inflight := xs @ ys\<rparr>))"
    using settle.IH by (simp add: settle_live_panel_inv)
  ultimately show ?case by simp
qed

lemma admin_step_run: "admin_run w \<Longrightarrow> admin_step e w = Some w' \<Longrightarrow> admin_run w'"
proof (cases e)
  case (Answer k r)
  assume run: "admin_run w" and st: "admin_step e w = Some w'"
  with Answer have k: "k < length (inflight w)" by (simp split: if_splits)
  then have "inflight w = take k (inflight w) @ inflight w ! k # drop (Suc k) (inflight w)"
    by (simp add: id_take_nth_drop)
  from admin_run.settle [OF run this, of r] st Answer k show ?thesis by simp
qed (auto split: if_splits intro: admin_run.intros)

lemma admin_trace_run: "admin_run w \<Longrightarrow> admin_trace es w = Some w' \<Longrightarrow> admin_run w'"
proof (induction es arbitrary: w)
  case Nil
  then show ?case by simp
next
  case (Cons e es)
  then show ?case by (auto split: option.splits intro: admin_step_run)
qed

lemma option_case_conj:
  "(case x of None \<Rightarrow> False | Some w \<Rightarrow> P w) \<Longrightarrow> (\<And>w. x = Some w \<Longrightarrow> Q w) \<Longrightarrow>
   (case x of None \<Rightarrow> False | Some w \<Rightarrow> Q w \<and> P w)"
  by (cases x) simp_all

lemma admin_page0_run: "admin_run (adminOnload admin_page0)"
  by (rule admin_run.onload) simp_all

section \<open>Properties of the running admin page\<close>

text \<open>
  C26. window.onload attaches exactly the listeners of the elements the page has,
  in the order of the code (Add Doctor click, search input, time change,
  specialty change), sends one request, the GET of all doctors, and leaves that
  load in flight; the panel is untouched until its answer arrives.
\<close>

theorem adminOnload_wiring:
  "listeners (adminOnload w) = listeners w @ (if addDocBtn w then [AddDocClick] else [])
       @ (if searchBar w \<noteq> None then [SearchInput] else [])
       @ (if timeFilter w \<noteq> None then [TimeChange] else [])
       @ (if specialtyFilter w \<noteq> None then [SpecialtyChange] else [])
   \<and> requests (adminOnload w) = requests w @ [\<lparr>req_method = GET, req_url = DOCTOR_API w, req_body = None\<rparr>]
   \<and> inflight (adminOnload w) = inflight w @ [LoadCall]
   \<and> content (adminOnload w) = content w"
  by (simp add: adminOnload_def Let_def DOCTOR_API_def world_simps)

text \<open>
  C27. The search and filter listeners are attached one by one, each when its own
  element exists, but the handler reads all three inputs before its \<open>try\<close>:
  on a page that lacks any one of them, every filter event throws a TypeError
  that nothing catches, sends no request and leaves the page as it was.
\<close>

theorem filter_event_missing_input:
  assumes "searchBar w = None \<or> timeFilter w = None \<or> specialtyFilter w = None"
  shows "filterDoctorsOnChange_start w = Inl null_value_error \<and> filter_event w = w"
  using assms by (auto simp: filterDoctorsOnChange_start_def filter_event_def filter_read_def
                     split: option.splits)

theorem filter_event_missing_input_witness:
  "filter_event (admin_page0\<lparr>timeFilter := None, searchBar := Some ''ann''\<rparr>)
     = admin_page0\<lparr>timeFilter := None, searchBar := Some ''ann''\<rparr>"
  using filter_event_missing_input [of "admin_page0\<lparr>timeFilter := None, searchBar := Some ''ann''\<rparr>"]
  by simp

text \<open>
  C28. Nothing orders the filter requests in flight (spec section 5). In this run
  the admin types "a" and then "an"; the answer to "an" (only Ann) arrives
  first and the panel shows it; then the older answer to "a" (Ada and Ann)
  arrives and replaces it. With nothing left in flight the search bar says "an"
  and the panel lists Ada, who does not match it.
\<close>

theorem admin_run_stale_filter:
  "case admin_trace [Answer 0 (NetworkError ''down''), TypeSearch ''a'', TypeSearch ''an'',
          Answer 1 (Response 200 (JsonBody (JObj [(''doctors'', JArr [JObj [(''doctorId'', JStr ''2''), (''name'', JStr ''Ann''), (''availableTimes'', JArr [])]])]))), Answer 0 (Response 200 (JsonBody (JObj [(''doctors'', JArr [JObj [(''doctorId'', JStr ''1''), (''name'', JStr ''Ada''), (''availableTimes'', JArr [])], JObj [(''doctorId'', JStr ''2''), (''name'', JStr ''Ann''), (''availableTimes'', JArr [])]])])))] (adminOnload admin_page0) of
     None \<Rightarrow> False
   | Some w \<Rightarrow> admin_run w \<and> inflight w = [] \<and> searchBar w = Some ''an''
       \<and> (case content w of ContentCards cs \<Rightarrow> map card_name cs = [''Ada'', ''Ann''] | _ \<Rightarrow> False)"
proof -
  let ?es = "[Answer 0 (NetworkError ''down''), TypeSearch ''a'', TypeSearch ''an'',
          Answer 1 (Response 200 (JsonBody (JObj [(''doctors'', JArr [JObj [(''doctorId'', JStr ''2''), (''name'', JStr ''Ann''), (''availableTimes'', JArr [])]])]))), Answer 0 (Response 200 (JsonBody (JObj [(''doctors'', JArr [JObj [(''doctorId'', JStr ''1''), (''name'', JStr ''Ada''), (''availableTimes'', JArr [])], JObj [(''doctorId'', JStr ''2''), (''name'', JStr ''Ann''), (''availableTimes'', JArr [])]])])))]"
  have ev: "case admin_trace ?es (adminOnload admin_page0) of
     None \<Rightarrow> False
   | Some w \<Rightarrow> inflight w = [] \<and> searchBar w = Some ''an''
       \<and> (case content w of ContentCards cs \<Rightarrow> map card_name cs = [''Ada'', ''Ann''] | _ \<Rightarrow> False)"
    by (simp add: adminOnload_def Let_def listen_def loadDoctorCards_start_def send_def settle_live_def mount_def
         loadDoctorCards_settle_def getDoctors_settle_def resp_ok_def or_default_def renderDoctorCards_def
         createDoctorCard_def js_prop_def getItem_def filter_event_def filterDoctorsOnChange_start_def
         filter_read_def js_trim_def js_is_space_def filter_settle_def filterDoctorsOnChange_settle_def
         deleteCardClick_start_def deleteClick_start_def deleteClick_settle_def card_remove_def role_action_def
         str_truthy_def alert_def text_content_def js_to_string_def deleteDoctor_request_def)
  then show ?thesis by (rule option_case_conj) (rule admin_trace_run [OF admin_page0_run])
qed

text \<open>
  C29. The request log of the admin page keeps to the endpoints of spec section
  7: in every run, every request sent is \<open>GET /doctor\<close>, a
  \<open>GET /doctor/filter/{name}/{time}/{specialty}\<close> with three percent-encoded
  segments, \<open>POST /doctor/save/{token}\<close> whose body is a doctor object with the
  members name, email, phone, password and specialty (strings) and
  availableTimes (an array of strings), or \<open>DELETE /doctor/{doctorId}/{token}\<close>
  without a body, under the configured base; the token in a path is the one
  stored, and no POST or DELETE is sent without a non-empty stored token.
\<close>

theorem admin_requests_typed:
  assumes "admin_run w"
  shows "list_all (admin_request_ok (api_base w) (getItem ''token'' w)) (requests w)"
  using admin_run_inv [OF assms] by (simp add: admin_inv_def)

theorem admin_requests_typed_witness:
  "list_all (admin_request_ok [] (Some ''t0''))
     (requests (adminAddDoctor_start \<lparr>add_name = ''A'', add_email = ''a@b'', add_phone = ''1'', add_password = ''p'', add_specialty = ''x'', add_times = ''09:00,10:00''\<rparr> (adminOnload admin_page0)))"
proof -
  have "admin_run (adminAddDoctor_start \<lparr>add_name = ''A'', add_email = ''a@b'', add_phone = ''1'', add_password = ''p'', add_specialty = ''x'', add_times = ''09:00,10:00''\<rparr> (adminOnload admin_page0))"
    using admin_page0_run by (rule admin_run.add_doctor)
  from admin_requests_typed [OF this] show ?thesis
    by (simp add: adminAddDoctor_start_def adminOnload_def Let_def listen_def loadDoctorCards_start_def
                  send_def getItem_def str_truthy_def)
qed

text \<open>
  C30. Spec section 8: the answer to a card's delete removes exactly the card
  clicked from the displayed set. In every run, when the element of the card now
  at position j is the one the delete closed over, handling the answer (any
  answer) alerts success and takes exactly that card off the panel, wherever
  other deletions have moved it, and sends nothing.
\<close>

theorem deleteCall_removes_clicked:
  assumes "admin_run w" and "content w = ContentCards cs" and "j < length cs"
  shows "content (settle_live (DeleteCall (panel_nodes w ! j) d tok) r w) = ContentCards (take j cs @ drop (Suc j) cs)
       \<and> panel_nodes (settle_live (DeleteCall (panel_nodes w ! j) d tok) r w)
           = take j (panel_nodes w) @ drop (Suc j) (panel_nodes w)
       \<and> alerts (settle_live (DeleteCall (panel_nodes w ! j) d tok) r w)
           = alerts w @ [''Doctor '' @ js_to_string (js_prop d ''name'') @ '' successfully deleted.'']
       \<and> requests (settle_live (DeleteCall (panel_nodes w ! j) d tok) r w) = requests w"
proof -
  have "panel_inv w" using admin_run_inv [OF assms(1)] by simp
  with assms(2) have l: "length cs = length (panel_nodes w)" and dn: "distinct (panel_nodes w)"
    by (simp_all add: panel_inv_def)
  with assms(3) have j: "j < length (panel_nodes w)" by simp
  show ?thesis
    using assms(2) filter_zip_remove_nth [OF l dn j] filter_remove_nth [OF dn j]
    by (simp add: settle_live_def card_remove_def deleteClick_settle_def world_simps)
qed

theorem deleteCall_removes_clicked_witness:
  "content (settle_live (DeleteCall (panel_nodes (settle_live LoadCall (Response 200 (JsonBody (JObj [(''doctors'', JArr [JObj [(''doctorId'', JStr ''1''), (''name'', JStr ''Ada''), (''availableTimes'', JArr [])]])]))) ((adminOnload admin_page0)\<lparr>inflight := []\<rparr>)) ! 0) (JObj [(''doctorId'', JStr ''1''), (''name'', JStr ''Ada''), (''availableTimes'', JArr [])]) ''t0'') (NetworkError ''down'') (settle_live LoadCall (Response 200 (JsonBody (JObj [(''doctors'', JArr [JObj [(''doctorId'', JStr ''1''), (''name'', JStr ''Ada''), (''availableTimes'', JArr [])]])]))) ((adminOnload admin_page0)\<lparr>inflight := []\<rparr>)))
     = ContentCards []"
proof -
  have i1: "inflight (adminOnload admin_page0) = [] @ LoadCall # []"
    by (simp add: adminOnload_def Let_def listen_def loadDoctorCards_start_def send_def)
  have r2: "admin_run (settle_live LoadCall (Response 200 (JsonBody (JObj [(''doctors'', JArr [JObj [(''doctorId'', JStr ''1''), (''name'', JStr ''Ada''), (''availableTimes'', JArr [])]])]))) ((adminOnload admin_page0)\<lparr>inflight := []\<rparr>))" using admin_run.settle [OF admin_page0_run i1] by simp
  have c2: "content (settle_live LoadCall (Response 200 (JsonBody (JObj [(''doctors'', JArr [JObj [(''doctorId'', JStr ''1''), (''name'', JStr ''Ada''), (''availableTimes'', JArr [])]])]))) ((adminOnload admin_page0)\<lparr>inflight := []\<rparr>)) = ContentCards [projr (createDoctorCard (JObj [(''doctorId'', JStr ''1''), (''name'', JStr ''Ada''), (''availableTimes'', JArr [])]) (adminOnload admin_page0))]"
    by (simp add: adminOnload_def Let_def listen_def loadDoctorCards_start_def send_def settle_live_def mount_def
         loadDoctorCards_settle_def getDoctors_settle_def resp_ok_def or_default_def renderDoctorCards_def
         createDoctorCard_def js_prop_def getItem_def filter_event_def filterDoctorsOnChange_start_def
         filter_read_def js_trim_def js_is_space_def filter_settle_def filterDoctorsOnChange_settle_def
         deleteCardClick_start_def deleteClick_start_def deleteClick_settle_def card_remove_def role_action_def
         str_truthy_def alert_def text_content_def js_to_string_def deleteDoctor_request_def)
  from deleteCall_removes_clicked [OF r2 c2, of 0] show ?thesis by simp
qed

text \<open>
  C31. The removal acts on the element, not on the doctor. In this run the
  panel lists Ada; the admin types "A" in the search bar, so the filter request
  is sent, and then deletes Ada's card, so the DELETE is sent after it. The
  server answers the filter request before it has deleted Ada, and that answer
  arrives first: the panel is rewritten with a new card for Ada. Then the
  delete's answer arrives, and \<open>card.remove()\<close> acts on the old, detached
  element. With nothing left in flight the page has alerted that Ada was deleted
  and still shows her card.
\<close>

theorem admin_run_deleted_card_shown:
  "case admin_trace [Answer 0 (Response 200 (JsonBody (JObj [(''doctors'', JArr [JObj [(''doctorId'', JStr ''1''), (''name'', JStr ''Ada''), (''availableTimes'', JArr [])]])]))), TypeSearch ''A'', DeleteClick True 0, Answer 0 (Response 200 (JsonBody (JObj [(''doctors'', JArr [JObj [(''doctorId'', JStr ''1''), (''name'', JStr ''Ada''), (''availableTimes'', JArr [])]])]))),
          Answer 0 (Response 200 (JsonBody (JObj [])))] (adminOnload admin_page0) of
     None \<Rightarrow> False
   | Some w \<Rightarrow> admin_run w \<and> inflight w = [] \<and> map req_method (requests w) = [GET, GET, DELETE]
       \<and> ''Doctor Ada successfully deleted.'' \<in> set (alerts w)
       \<and> (case content w of ContentCards cs \<Rightarrow> map card_name cs = [''Ada''] | _ \<Rightarrow> False)"
proof -
  let ?es = "[Answer 0 (Response 200 (JsonBody (JObj [(''doctors'', JArr [JObj [(''doctorId'', JStr ''1''), (''name'', JStr ''Ada''), (''availableTimes'', JArr [])]])]))), TypeSearch ''A'', DeleteClick True 0, Answer 0 (Response 200 (JsonBody (JObj [(''doctors'', JArr [JObj [(''doctorId'', JStr ''1''), (''name'', JStr ''Ada''), (''availableTimes'', JArr [])]])]))),
          Answer 0 (Response 200 (JsonBody (JObj [])))]"
  have ev: "case admin_trace ?es (adminOnload admin_page0) of
     None \<Rightarrow> False
   | Some w \<Rightarrow> inflight w = [] \<and> map req_method (requests w) = [GET, GET, DELETE]
       \<and> ''Doctor Ada successfully deleted.'' \<in> set (alerts w)
       \<and> (case content w of ContentCards cs \<Rightarrow> map card_name cs = [''Ada''] | _ \<Rightarrow> False)"
    by (simp add: adminOnload_def Let_def listen_def loadDoctorCards_start_def send_def settle_live_def mount_def
         loadDoctorCards_settle_def getDoctors_settle_def resp_ok_def or_default_def renderDoctorCards_def
         createDoctorCard_def js_prop_def getItem_def filter_event_def filterDoctorsOnChange_start_def
         filter_read_def js_trim_def js_is_space_def filter_settle_def filterDoctorsOnChange_settle_def
         deleteCardClick_start_def deleteClick_start_def deleteClick_settle_def card_remove_def role_action_def
         str_truthy_def alert_def text_content_def js_to_string_def deleteDoctor_request_def)
  then show ?thesis by (rule option_case_conj) (rule admin_trace_run [OF admin_page0_run])
qed

end
