(* ===== verification/Doctor_Dashboard.thy ===== *)
theory Doctor_Dashboard
  imports Header
begin

text \<open>
  doctorDashboard.js: the doctor's appointment table. The module captures
  \<open>doctorId\<close>, \<open>token\<close> and \<open>today\<close> when it loads and keeps two mutable
  variables, \<open>selectedDate\<close> and \<open>patientName\<close>. \<open>loadAppointments\<close> is
  asynchronous: it shows "Loading" and calls \<open>getAllAppointments\<close>
  (appointmentServices.js, not in the repository), and when that call settles it fills
  the table from the answer. Its two halves are \<open>loadAppointments_start\<close> and
  \<open>loadAppointments_finish\<close>; the calls in flight are the list
  \<open>pending\<close>, in the order they were issued. The search box, the Today
  button and the date picker each update the variables and start a load; nothing
  cancels or orders the calls in flight, so they may settle in any order. The
  field \<open>shown\<close> is instrumentation, not program state: the query whose
  answer the table shows.
\<close>

record query =
  q_doctorId :: "string option"
  q_date :: string
  q_patientName :: "string option"
  q_token :: "string option"

text \<open>The patient object built from one appointment (createPatientRow's argument).\<close>

record patient_row =
  row_id :: jsval
  row_name :: jsval
  row_phone :: jsval
  row_email :: jsval
  row_prescription :: jsval

datatype table_view = TableEmpty | TableMessage string | TableRows "patient_row list"

record doctor_page = header_page +
  dd_doctorId :: "string option"
  dd_token :: "string option"
  today :: string
  selectedDate :: string
  patientName :: "string option"
  table :: table_view
  pending :: "query list"
  shown :: "query option"

definition current_query :: "'a doctor_page_scheme \<Rightarrow> query" where
  "current_query w =
     \<lparr>q_doctorId = dd_doctorId w, q_date = selectedDate w, q_patientName = patientName w,
      q_token = dd_token w\<rparr>"

definition loadAppointments_start :: "'a doctor_page_scheme \<Rightarrow> 'a doctor_page_scheme" where
  "loadAppointments_start w =
     (if \<not> str_truthy (dd_token w) then
        w\<lparr>table := TableMessage ''Authentication token missing. Please log in again.''\<rparr>
      else
        w\<lparr>table := TableMessage ''Loading appointments...'', pending := pending w @ [current_query w]\<rparr>)"

text \<open>One appointment to its patient object; reading a field of \<open>null\<close> throws.\<close>

definition appt_row :: "json \<Rightarrow> js_exn + patient_row" where
  "appt_row appt =
     (if appt = JNull then Inl (JsError ''Cannot read properties of null (reading patientId)'')
      else Inr \<lparr>row_id = js_prop appt ''patientId'', row_name = js_prop appt ''patientName'',
                row_phone = js_prop appt ''patientPhone'', row_email = js_prop appt ''patientEmail'',
                row_prescription = js_or (js_prop appt ''prescriptionLink'') (Some (JStr ''#''))\<rparr>)"

fun appt_rows :: "json list \<Rightarrow> js_exn + patient_row list" where
  "appt_rows [] = Inr []"
| "appt_rows (a # as) =
     (case appt_row a of
        Inl e \<Rightarrow> Inl e
      | Inr r \<Rightarrow> (case appt_rows as of Inl e \<Rightarrow> Inl e | Inr rs \<Rightarrow> Inr (r # rs)))"

definition load_error_msg :: string where
  "load_error_msg = ''Error loading appointments. Try again later.''"

text \<open>
  The continuation of loadAppointments once the call for \<open>q\<close> has settled with
  \<open>answer\<close> (the resolved value, or the thrown error). The empty-table message
  reads the module's \<open>selectedDate\<close> as it is now.
\<close>

definition loadAppointments_finish ::
  "query \<Rightarrow> js_exn + jsval \<Rightarrow> 'a doctor_page_scheme \<Rightarrow> 'a doctor_page_scheme" where
  "loadAppointments_finish q answer w =
     (let w1 = w\<lparr>shown := Some q\<rparr> in
      case answer of
        Inl e \<Rightarrow> w1\<lparr>table := TableMessage load_error_msg\<rparr>
      | Inr appointments \<Rightarrow>
          (if \<not> truthy appointments \<or> map_option js_length appointments = Some (Some 0) then
             w1\<lparr>table := TableMessage (''No appointments found for ''
                  @ (if selectedDate w = today w then ''today'' else selectedDate w) @ ''.'')\<rparr>
           else
             (case appointments of
                Some (JArr as) \<Rightarrow>
                  (case appt_rows as of
                     Inl e \<Rightarrow> w1\<lparr>table := TableMessage load_error_msg\<rparr>
                   | Inr rows \<Rightarrow> w1\<lparr>table := TableRows rows\<rparr>)
              | _ \<Rightarrow> w1\<lparr>table := TableMessage load_error_msg\<rparr>)))"

definition searchInput :: "string \<Rightarrow> 'a doctor_page_scheme \<Rightarrow> 'a doctor_page_scheme" where
  "searchInput value w =
     (let searchValue = js_trim value in
      loadAppointments_start (w\<lparr>patientName := (if searchValue \<noteq> [] then Some searchValue else None)\<rparr>))"

definition todayClick :: "'a doctor_page_scheme \<Rightarrow> 'a doctor_page_scheme" where
  "todayClick w = loadAppointments_start (w\<lparr>selectedDate := today w\<rparr>)"

definition dateChange :: "string \<Rightarrow> 'a doctor_page_scheme \<Rightarrow> 'a doctor_page_scheme" where
  "dateChange d w = loadAppointments_start (w\<lparr>selectedDate := d\<rparr>)"

text \<open>The page as the module leaves it when it has loaded (before DOMContentLoaded).\<close>

definition dd_init ::
  "string option \<Rightarrow> string option \<Rightarrow> string \<Rightarrow> header_page \<Rightarrow> doctor_page" where
  "dd_init doctorId token day p =
     \<lparr>storage = storage p, api_base = api_base p, pathname = pathname p,
      navigations = navigations p, alerts = alerts p, requests = requests p, modal = modal p,
      header_div = header_div p,
      dd_doctorId = doctorId, dd_token = token, today = day, selectedDate = day,
      patientName = None, table = TableEmpty, pending = [], shown = None\<rparr>"

text \<open>
  The runs of the page: DOMContentLoaded starts a load, the user types, clicks
  Today or picks a date, and any call in flight may settle next, with any answer.
\<close>

inductive dd_reach :: "doctor_page \<Rightarrow> bool" where
  dom_loaded: "dd_reach (loadAppointments_start (dd_init i t d p))"
| search: "dd_reach w \<Longrightarrow> dd_reach (searchInput v w)"
| today_btn: "dd_reach w \<Longrightarrow> dd_reach (todayClick w)"
| date_pick: "dd_reach w \<Longrightarrow> dd_reach (dateChange d w)"
| settle: "dd_reach w \<Longrightarrow> pending w = xs @ q # ys \<Longrightarrow>
     dd_reach (loadAppointments_finish q a (w\<lparr>pending := xs @ ys\<rparr>))"

text \<open>The same runs when the calls settle in the order they were issued.\<close>

inductive dd_fifo :: "doctor_page \<Rightarrow> bool" where
  dom_loaded: "dd_fifo (loadAppointments_start (dd_init i t d p))"
| search: "dd_fifo w \<Longrightarrow> dd_fifo (searchInput v w)"
| today_btn: "dd_fifo w \<Longrightarrow> dd_fifo (todayClick w)"
| date_pick: "dd_fifo w \<Longrightarrow> dd_fifo (dateChange d w)"
| settle: "dd_fifo w \<Longrightarrow> pending w = q # ys \<Longrightarrow>
     dd_fifo (loadAppointments_finish q a (w\<lparr>pending := ys\<rparr>))"

section \<open>Lemmas on the dashboard's steps\<close>

text \<open>
  The invariant of in-order settling: without a token nothing is ever in flight or
  shown; with calls in flight the last one issued asks for the current query;
  with none in flight the table shows nothing yet or the current query's answer.
\<close>

definition fifo_inv :: "doctor_page \<Rightarrow> bool" where
  "fifo_inv w \<longleftrightarrow>
     (\<not> str_truthy (dd_token w) \<longrightarrow> pending w = [] \<and> shown w = None)
     \<and> (pending w = [] \<longrightarrow> shown w = None \<or> shown w = Some (current_query w))
     \<and> (pending w \<noteq> [] \<longrightarrow> last (pending w) = current_query w)"

lemma current_query_upd [simp]:
  "current_query (w\<lparr>table := x\<rparr>) = current_query w"
  "current_query (w\<lparr>pending := qs\<rparr>) = current_query w"
  "current_query (w\<lparr>shown := sq\<rparr>) = current_query w"
  by (simp_all add: current_query_def)

lemma loadAppointments_finish_fields [simp]:
  "pending (loadAppointments_finish q a w) = pending w"
  "shown (loadAppointments_finish q a w) = Some q"
  "dd_token (loadAppointments_finish q a w) = dd_token w"
  "current_query (loadAppointments_finish q a w) = current_query w"
  by (auto simp: loadAppointments_finish_def Let_def
           split: sum.splits option.splits json.splits if_splits)

lemma loadAppointments_start_fields:
  "dd_token (loadAppointments_start w) = dd_token w"
  "shown (loadAppointments_start w) = shown w"
  "current_query (loadAppointments_start w) = current_query w"
  "pending (loadAppointments_start w)
     = (if str_truthy (dd_token w) then pending w @ [current_query w] else pending w)"
  by (simp_all add: loadAppointments_start_def)

lemma fifo_inv_start:
  assumes "\<not> str_truthy (dd_token w) \<longrightarrow> pending w = [] \<and> shown w = None"
  shows "fifo_inv (loadAppointments_start w)"
  using assms by (auto simp: fifo_inv_def loadAppointments_start_fields)

lemma fifo_inv_no_token:
  "fifo_inv w \<Longrightarrow> \<not> str_truthy (dd_token w) \<longrightarrow> pending w = [] \<and> shown w = None"
  by (simp add: fifo_inv_def)

lemma fifo_inv_settle:
  assumes "fifo_inv w" and "pending w = q # ys"
  shows "fifo_inv (loadAppointments_finish q a (w\<lparr>pending := ys\<rparr>))"
proof -
  have tok: "str_truthy (dd_token w)" using assms by (auto simp: fifo_inv_def)
  have "last (q # ys) = current_query w" using assms by (simp add: fifo_inv_def)
  then show ?thesis using tok by (cases ys) (auto simp: fifo_inv_def)
qed

lemma dd_fifo_fifo_inv:
  assumes "dd_fifo w"
  shows "fifo_inv w"
  using assms
proof (induction rule: dd_fifo.induct)
  case (dom_loaded i t d p)
  show ?case by (rule fifo_inv_start) (simp add: dd_init_def)
next
  case (search w v)
  with fifo_inv_no_token show ?case
    unfolding searchInput_def Let_def by (intro fifo_inv_start) simp
next
  case (today_btn w)
  with fifo_inv_no_token show ?case
    unfolding todayClick_def by (intro fifo_inv_start) simp
next
  case (date_pick w d)
  with fifo_inv_no_token show ?case
    unfolding dateChange_def by (intro fifo_inv_start) simp
next
  case (settle w q ys a)
  from settle.IH settle.hyps(2) show ?case by (rule fifo_inv_settle)
qed

text \<open>
  C32. Nothing orders the appointment calls in flight: a run exists in which the
  doctor types a patient name while the first load is in flight, the answers
  arrive in the opposite order, and with nothing left in flight the table shows
  the answer for the old query (no name filter), not for the current one.
\<close>

theorem dd_reach_stale_table:
  "\<exists>w. dd_reach w \<and> pending w = [] \<and> shown w \<noteq> None \<and> shown w \<noteq> Some (current_query w)"
proof -
  let ?w0 = "loadAppointments_start (dd_init (Some ''3'') (Some ''t0'') ''2025-01-01'' \<lparr>storage = [''userRole'' \<mapsto> ''doctor'', ''token'' \<mapsto> ''t0''], api_base = [], pathname = ''/pages/doctorDashboard.html'', navigations = [], alerts = [], requests = [], modal = None, header_div = Some HeaderEmpty\<rparr>)"
  let ?w1 = "searchInput ''ann'' ?w0"
  let ?q0 = "\<lparr>q_doctorId = Some ''3'', q_date = ''2025-01-01'', q_patientName = None, q_token = Some ''t0''\<rparr>"
  let ?q1 = "\<lparr>q_doctorId = Some ''3'', q_date = ''2025-01-01'', q_patientName = Some ''ann'', q_token = Some ''t0''\<rparr>"
  let ?a = "Inr (Some (JArr [])) :: js_exn + jsval"
  let ?w2 = "loadAppointments_finish ?q1 ?a (?w1\<lparr>pending := [?q0]\<rparr>)"
  let ?w3 = "loadAppointments_finish ?q0 ?a (?w2\<lparr>pending := []\<rparr>)"
  have p1: "pending ?w1 = [?q0] @ ?q1 # []"
    by (simp add: Let_def searchInput_def loadAppointments_start_def dd_init_def current_query_def js_trim_def
                  js_is_space_def)
  have r1: "dd_reach ?w1" by (rule dd_reach.search [OF dd_reach.dom_loaded])
  have r2: "dd_reach ?w2" using dd_reach.settle [OF r1 p1] by simp
  have p2: "pending ?w2 = [] @ ?q0 # []" by simp
  have r3: "dd_reach ?w3" using dd_reach.settle [OF r2 p2] by simp
  have "current_query ?w3 = current_query ?w1" by simp
  also have "\<dots> = ?q1"
    by (simp add: Let_def searchInput_def loadAppointments_start_def dd_init_def current_query_def js_trim_def
                  js_is_space_def)
  finally have "current_query ?w3 = ?q1" .
  with r3 show ?thesis by (intro exI [of _ ?w3]) auto
qed

text \<open>
  C33. When the calls settle in the order they were issued, the table is never
  stale once nothing is in flight: it shows nothing yet or the answer for the
  current date and name filter.
\<close>

theorem dd_fifo_shows_current:
  assumes "dd_fifo w" and "pending w = []"
  shows "shown w = None \<or> shown w = Some (current_query w)"
proof -
  have "fifo_inv w" using assms(1) by (rule dd_fifo_fifo_inv)
  with assms(2) show ?thesis by (simp add: fifo_inv_def)
qed

theorem dd_fifo_shows_current_witness:
  "let w = loadAppointments_finish \<lparr>q_doctorId = Some ''3'', q_date = ''2025-01-01'', q_patientName = None, q_token = Some ''t0''\<rparr> (Inr (Some (JArr []))) ((loadAppointments_start (dd_init (Some ''3'') (Some ''t0'') ''2025-01-01'' \<lparr>storage = [''userRole'' \<mapsto> ''doctor'', ''token'' \<mapsto> ''t0''], api_base = [], pathname = ''/pages/doctorDashboard.html'', navigations = [], alerts = [], requests = [], modal = None, header_div = Some HeaderEmpty\<rparr>)) \<lparr>pending := []\<rparr>) in
     dd_fifo w \<and> pending w = [] \<and> (shown w = None \<or> shown w = Some (current_query w))"
proof -
  let ?w0 = "loadAppointments_start (dd_init (Some ''3'') (Some ''t0'') ''2025-01-01'' \<lparr>storage = [''userRole'' \<mapsto> ''doctor'', ''token'' \<mapsto> ''t0''], api_base = [], pathname = ''/pages/doctorDashboard.html'', navigations = [], alerts = [], requests = [], modal = None, header_div = Some HeaderEmpty\<rparr>)"
  let ?q0 = "\<lparr>q_doctorId = Some ''3'', q_date = ''2025-01-01'', q_patientName = None, q_token = Some ''t0''\<rparr>"
  let ?wf = "loadAppointments_finish ?q0 (Inr (Some (JArr []))) (?w0\<lparr>pending := []\<rparr>)"
  have p0: "pending ?w0 = ?q0 # []"
    by (simp add: loadAppointments_start_def dd_init_def current_query_def)
  have f: "dd_fifo ?wf" using dd_fifo.settle [OF dd_fifo.dom_loaded p0] by simp
  have p: "pending ?wf = []" by simp
  have "shown ?wf = None \<or> shown ?wf = Some (current_query ?wf)"
    using dd_fifo_shows_current [OF f p] .
  with f p show ?thesis unfolding Let_def by blast
qed

text \<open>
  Without a token captured at load, loading appointments issues no call and
  the table says the token is missing.
\<close>

theorem loadAppointments_start_without_token:
  assumes "\<not> str_truthy (dd_token w)"
  shows "pending (loadAppointments_start w) = pending w
       \<and> table (loadAppointments_start w) = TableMessage ''Authentication token missing. Please log in again.''"
  using assms by (simp add: loadAppointments_start_def)

theorem loadAppointments_start_without_token_witness:
  "pending (loadAppointments_start (dd_init (Some ''3'') None ''2025-01-01'' \<lparr>storage = [''userRole'' \<mapsto> ''doctor'', ''token'' \<mapsto> ''t0''], api_base = [], pathname = ''/pages/doctorDashboard.html'', navigations = [], alerts = [], requests = [], modal = None, header_div = Some HeaderEmpty\<rparr>)) = []"
  using loadAppointments_start_without_token [of "dd_init (Some ''3'') None ''2025-01-01'' \<lparr>storage = [''userRole'' \<mapsto> ''doctor'', ''token'' \<mapsto> ''t0''], api_base = [], pathname = ''/pages/doctorDashboard.html'', navigations = [], alerts = [], requests = [], modal = None, header_div = Some HeaderEmpty\<rparr>"]
  by (simp add: dd_init_def)

text \<open>
  An empty answer is reported for the selected day, as "today" when the
  selected date is today's; the table is a message, not an empty list of rows.
\<close>

theorem loadAppointments_finish_empty:
  "table (loadAppointments_finish q (Inr (Some (JArr []))) w)
     = TableMessage (''No appointments found for ''
         @ (if selectedDate w = today w then ''today'' else selectedDate w) @ ''.'')"
  by (simp add: loadAppointments_finish_def)

text \<open>
  Typing in the search box filters by the trimmed text, or by no name when
  the trimmed text is empty, and (with a token) issues exactly one call for that
  query.
\<close>

theorem searchInput_query:
  assumes "str_truthy (dd_token w)"
  shows "patientName (searchInput v w) = (if js_trim v = [] then None else Some (js_trim v))
       \<and> pending (searchInput v w) = pending w @ [current_query (searchInput v w)]"
  using assms by (simp add: Let_def searchInput_def loadAppointments_start_def current_query_def)

theorem searchInput_query_witness:
  "patientName (searchInput ''  ann '' (dd_init (Some ''3'') (Some ''t0'') ''2025-01-01'' \<lparr>storage = [''userRole'' \<mapsto> ''doctor'', ''token'' \<mapsto> ''t0''], api_base = [], pathname = ''/pages/doctorDashboard.html'', navigations = [], alerts = [], requests = [], modal = None, header_div = Some HeaderEmpty\<rparr>))
     = Some ''ann''"
  using searchInput_query [of "dd_init (Some ''3'') (Some ''t0'') ''2025-01-01'' \<lparr>storage = [''userRole'' \<mapsto> ''doctor'', ''token'' \<mapsto> ''t0''], api_base = [], pathname = ''/pages/doctorDashboard.html'', navigations = [], alerts = [], requests = [], modal = None, header_div = Some HeaderEmpty\<rparr>" "''  ann ''"]
  by (simp add: dd_init_def js_trim_def js_is_space_def)

end
