(* ===== verification/Footer.thy ===== *)
theory Footer
  imports Browser
begin

text \<open>
  components/footer.js: \<open>renderFooter\<close> looks up the element \<open>#footer\<close>; if
  the page has none it logs an error and returns, otherwise it replaces the
  element's content with a fixed markup, which the module renders once when it is
  loaded. The markup is modelled by its parts: the logo image, the copyright
  line and the three link columns with their headings, labels and targets.
  Unlike the header, the footer reads nothing: not the session, not the page.
\<close>

record footer_link =
  link_label :: string
  link_href :: string

record footer_column =
  col_heading :: string
  col_links :: "footer_link list"

record footer_markup =
  logo_src :: string
  logo_alt :: string
  copyright :: string
  columns :: "footer_column list"

datatype footer_view = FooterEmpty | FooterRendered footer_markup

text \<open>A page that loads footer.js: \<open>None\<close> when it has no element \<open>#footer\<close>.\<close>

record footer_page = browser +
  footer_div :: "footer_view option"

definition footer_column_of :: "string \<Rightarrow> string list \<Rightarrow> footer_column" where
  "footer_column_of h ls = \<lparr>col_heading = h, col_links = map (\<lambda>l. \<lparr>link_label = l, link_href = ''#''\<rparr>) ls\<rparr>"

definition footerContent :: footer_markup where
  "footerContent =
     \<lparr>logo_src = ''../assets/images/logo/logo.png'', logo_alt = ''Hospital CMS Logo'',
      copyright = CHR 0xA9 # '' Copyright 2025. All Rights Reserved by Hospital CMS.'',
      columns = [footer_column_of ''Company'' [''About'', ''Careers'', ''Press''],
                 footer_column_of ''Support'' [''Account'', ''Help Center'', ''Contact Us''],
                 footer_column_of ''Legals'' [''Terms & Conditions'', ''Privacy Policy'', ''Licensing'']]\<rparr>"

definition renderFooter :: "'a footer_page_scheme \<Rightarrow> 'a footer_page_scheme" where
  "renderFooter w =
     (case footer_div w of
        None \<Rightarrow> w
      | Some _ \<Rightarrow> w\<lparr>footer_div := Some (FooterRendered footerContent)\<rparr>)"

end
