(* ===== verification/Spec2Isabelle.thy ===== *)
theory Spec2Isabelle
  imports Roles Admin_Page Doctor_Dashboard Footer
begin

text \<open>
  \<^bold>\<open>A verification library for the Hospital CMS browser client.\<close>

  The program is the JavaScript client under
  src/app/src/main/resources/static/js/. It runs in the browser. It keeps the
  session in localStorage (keys userRole, token, doctorId, patientId). It talks
  to the Spring back end through fetch, and it renders the pages' dynamic parts.
  The parts and how they interact:

  \<^item> components/header.js renders the header of every page from the session.
    It is also the session check: an authenticated role without a token is
    treated as expired.
  \<^item> services/index.js is the role-selection page: selectRole and the admin
    and doctor login handlers. These write the session and navigate to a
    dashboard, whose page load runs header.js again.
  \<^item> services/doctorServices.js is the API layer for doctors. It exports
    getDoctors, deleteDoctor, saveDoctor and filterDoctors.
  \<^item> components/doctorCard.js builds one card per doctor with a
    role-dependent action. Its click listeners call the API layer.
  \<^item> adminDashboard.js loads, filters and renders the cards and adds a
    doctor. It calls the API layer and the card builder.
  \<^item> doctorDashboard.js is the doctor's appointment table: date picker,
    name search and asynchronous loads.
  \<^item> components/footer.js inserts the footer's fixed markup into #footer,
    if the page has that element.

  \<^bold>\<open>How the code is modelled.\<close> The embedding is shallow and every
  definition is executable. The browser is explicit state: the record
  Browser.browser holds localStorage as a map, the path, and the effects
  requested so far as lists (navigations, alerts, requests sent) plus the open
  modal. Page-specific state extends it:
  \<^item> Header.header_page adds the header element;
  \<^item> Admin_Dashboard.admin_page adds the content panel and the calls in
    flight; Admin_Page.admin_live adds the inputs and the listeners attached;
  \<^item> Doctor_Dashboard.doctor_page adds the module variables;
  \<^item> Footer.footer_page adds the footer element.
  Handlers are polymorphic in the record's extension, so one definition serves
  every page that calls it.

  A fetch outcome (transport failure, or a status and a body that may not be
  JSON) is an input of the handler that awaits it. An async function is its
  synchronous part, which sends its request, and its \<open>_settle\<close>
  continuation; run to its end it is the composition of the two. Likewise the answer of a
  confirm dialog and the result of a call into a module that is not in the
  repository are inputs. A thrown JavaScript error is a value:
  \<^item> \<open>js_exn + 'a\<close> where a caller catches it;
  \<^item> the caught branch of the handler where the code catches it.

  \<^bold>\<open>Theories and what they model:\<close>
  \<^item> Prelude: the rule collections (storage_simps, world_simps,
    envelope_simps) and String.prototype trim, split, join and endsWith, with
    their algebra.
  \<^item> Js_Value: parsed JSON values, truthiness, \<open>||\<close>, property reads
    that throw on null, and String(v).
  \<^item> Browser: localStorage getItem, setItem and removeItem; alert;
    location.href; fetch requests; the modal.
  \<^item> Index: index.js (selectRole, login_flow, adminLoginHandler,
    doctorLoginHandler).
  \<^item> Header: header.js (renderHeader and its steps, logout, logoutPatient,
    and every header control as headerClick).
  \<^item> Session: the session state machine of the spec (section 4.1) as the
    inductive relations session_reach (reachable pages) and session_step (one
    move). A page load runs renderHeader and follows its redirect; the
    browser's redirect loop is the partial function load_settled. Steps are
    role choices, logins and header clicks, and each step loads the page the
    handler navigated to.
  \<^item> Roles: the spec's five-tag role variant (sections 3 and 9) with an
    enum instance, and the abstraction sess_abs of a page to (role, token
    held). The session machine's events are a datatype sess_event, executed
    by exec_event exactly as session_step takes them (session_step_event).
    Each event is labelled by sess_label with its move of spec 4.1
    (sess_move), and role_move says what each move does to the abstract
    session: a login sets the role and the token, logout clears both,
    logoutPatient keeps the patient role without a token, a role choice keeps
    the token, a page load demotes an authenticated role without a token.
  \<^item> Doctor_Services: doctorServices.js, plus encodeURIComponent as the
    browser's UTF-8 percent-encoding with its inverse decodeURIComponent.
  \<^item> Doctor_Card: doctorCard.js (createDoctorCard, the delete listener and
    both booking listeners).
  \<^item> Admin_Dashboard: adminDashboard.js's handlers (render_cards is the
    forEach of renderDoctorCards; loadDoctorCards, filterDoctorsOnChange and
    adminAddDoctor, each as its synchronous part and its continuation;
    adminAddDoctor leaves its reload in flight, as the code does not await it).
    saveDoctor and deleteDoctor are split the same way in Doctor_Services, and
    the card's delete listener in Doctor_Card.
  \<^item> Admin_Page: adminDashboard.js as a running page: the module's DOM
    lookups, window.onload's listener wiring, the filter handler's reads
    before its try block, and the runs admin_run. In a run, loads, filters,
    saves and card deletions are calls in flight whose answers arrive in any
    order (settle_live). The cards' DOM elements are named (panel_nodes;
    mount gives a rewritten panel new ones), so that card.remove() after the
    delete's await acts on the element the listener closed over (card_remove).
  \<^item> Doctor_Dashboard: doctorDashboard.js.
    \<^item> loadAppointments is split at its await into loadAppointments_start
      and loadAppointments_finish, and the calls in flight are a list.
    \<^item> dd_reach lets any call in flight settle next.
    \<^item> dd_fifo lets them settle only in issue order.
  \<^item> Footer: footer.js (footerContent as structured markup, renderFooter).

  \<^bold>\<open>What the lemmas show.\<close>
  \<^item> Functional behaviour of each handler on every branch, errors included.
    Examples: login success and failure, deleteDoctor on 2xx, non-2xx and
    non-JSON answers, the card's action for each role.
  \<^item> Invariants by rule induction:
    \<^item> over session_reach, a header showing a login-only control is shown
      only while a token is stored, and more strongly the header shown is
      always the one renderHeader would render from the store as it is now
      (spec 4.3's re-render obligation);
    \<^item> over dd_fifo, with calls settling in order, the table shows the
      answer for the current query;
    \<^item> over admin_run, the panel's element names match its cards and
      are distinct (panel_inv), so the answer of a delete removes exactly the
      card clicked (deleteCall_removes_clicked).
  \<^item> Refinement: for every event, the abstract session after it is
    role_move of the event's label applied to the abstract session before it
    (session_event_refines). From it, only an admin or doctor login makes a
    token appear and no step enters the logged-in patient role.
  \<^item> A type invariant: in every admin_run, each request sent is one of the
    doctor API's endpoints of spec section 6 (admin_request_ok): GET of the
    list or of a filter URL that parses back into its three segments; POST to
    save/<token> of the stored non-empty token, with a body of exactly the
    members of doctor_save_schema and their JSON types; DELETE of
    <id>/<token> under the base, without a body.
  \<^item> Traces: admin_step executes one user action or one answer on the
    live admin page (None when the listener is absent or no such call is in
    flight), and admin_trace folds it over a list of events. Every trace
    from the loaded page is an admin_run (admin_trace_run).
  \<^item> Bounds: the filter URL is at most six characters per character of the
    search terms longer than the API prefix plus 19
    (filter_url_length_bound). An Isabelle char is a code point below 256, so
    it has at most two UTF-8 bytes, each percent-encoded as three characters;
    a blank term becomes 'all'.
  \<^item> Termination: the redirect-following page load returns after at most
    one redirect, and equals the one-redirect visit the session machine uses.
  \<^item> A roundtrip: decoding the segments of the filter URL gives back the
    search terms, for any characters. This rests on decodeURIComponent
    inverting encodeURIComponent on every string.
  \<^item> Reachable counterexamples to promises of the spec:
    \<^item> a token stored with no role, reached from an empty store
      (session_reach_token_without_role);
    \<^item> a stale appointment table when answers arrive out of order;
    \<^item> a stale admin panel: after an explicit trace of five events, with
      nothing in flight, the search bar reads one query and the panel lists
      the answer for an earlier one (admin_run_stale_filter);
    \<^item> a filter event lost to a TypeError on a page lacking one input;
    \<^item> a deleted doctor still shown after the page alerted the deletion: in
      an explicit trace, a filter answer requested before the delete
      re-renders the panel after it, and nothing is left in flight
      (admin_run_deleted_card_shown).
  \<^item> The cross-component runs below: login to dashboard, logout to the
    root page.

  No loop of the client can run forever. The forEach loops are structural
  recursion (render_cards, appt_rows, the encoders), so no fuel is used. The
  one loop that is not the client's, the browser following the navigations a
  page requests while it loads, is a partial_function in the option monad, and
  its termination is proved (load_settled_visit). The asynchronous
  interleavings are step relations, not bounded searches.

  \<^bold>\<open>Not modelled.\<close>
  \<^item> console logging and the DOM markup beyond what a claim reads. The
    header is the list of its controls; a card is its texts and its action; the
    appointment table is a message or its rows; the footer is its logo,
    copyright line and link columns.
  \<^item> Modules that the sources import but that are not in the repository:
    modals.js, util.js, config.js, loggedPatient.js, patientServices.js,
    appointmentServices.js, patientRowComponent.js. openModal and closeModal
    are modelled from the spec as showing or hiding one named modal. The
    results of the other modules are inputs.
  \<^item> Several of those import paths do not resolve in this source tree. The
    model assumes that the modules load.
  \<^item> The booking listeners' awaits (getPatientData) are atomic in
    Doctor_Card's model: their pages (patient dashboards) are not in the
    repository. Outside the admin page, deleteClick is the delete listener
    run to its end.

  \<^bold>\<open>Plan for further work.\<close>
  \<^item> A sequencing fix (request numbers, spec section 9) as a reference
    definition, with the proof that it restores the current-query invariant
    under any order of answers.
  \<^item> The patient pages once their modules are present.
\<close>

section \<open>Runs across components\<close>

text \<open>
  C34. Logging in as admin with a 2xx answer that carries a non-empty token ends
  on the admin dashboard. index.js stores the session and navigates; the
  dashboard's header.js accepts the session and renders the admin's controls
  (Add Doctor, Logout); the token and the role are stored.
\<close>

theorem admin_login_opens_dashboard:
  assumes "resp_ok status" and "js_get data ''token'' = Inr (Some (JStr t))" and "t \<noteq> []"
  shows "pathname (after w (adminLoginHandler u p (Response status (JsonBody data)) w))
           = ''/pages/adminDashboard.html''
       \<and> header_div (after w (adminLoginHandler u p (Response status (JsonBody data)) w))
           = Some (HeaderNav [AddDocBtn, LogoutLink])
       \<and> getItem ''token'' (after w (adminLoginHandler u p (Response status (JsonBody data)) w)) = Some t
       \<and> getItem ''userRole'' (after w (adminLoginHandler u p (Response status (JsonBody data)) w))
           = Some ''admin''"
proof -
  have "login_token (Response status (JsonBody data)) = Some (Some (JStr t))"
    using assms by (simp add: login_token_def)
  then have w1: "adminLoginHandler u p (Response status (JsonBody data)) w
      = navigate ''/pages/adminDashboard.html'' (setItem ''userRole'' ''admin'' (setItem ''token'' t
          (send (login_request ''/admin'' (JObj [(''username'', JStr u), (''password'', JStr p)]) w) w)))"
    by (simp add: adminLoginHandler_def login_flow_success)
  show ?thesis
    unfolding w1 using assms(3)
    by (simp add: after_def visit_def loadPage_def Let_def renderHeader_def js_endsWith_def
                  session_expired_def nav_items_def storage_simps world_simps)
qed

theorem admin_login_opens_dashboard_witness:
  "header_div (after \<lparr>storage = Map.empty, api_base = [], pathname = ''/'', navigations = [],
        alerts = [], requests = [], modal = Some ''adminLogin'', header_div = Some HeaderEmpty\<rparr>
      (adminLoginHandler ''root'' ''pw'' (Response 200 (JsonBody (JObj [(''token'', JStr ''tok'')])))
        \<lparr>storage = Map.empty, api_base = [], pathname = ''/'', navigations = [],
         alerts = [], requests = [], modal = Some ''adminLogin'', header_div = Some HeaderEmpty\<rparr>))
   = Some (HeaderNav [AddDocBtn, LogoutLink])"
  using admin_login_opens_dashboard [of 200 "JObj [(''token'', JStr ''tok'')]" "''tok''"
      "\<lparr>storage = Map.empty, api_base = [], pathname = ''/'', navigations = [],
        alerts = [], requests = [], modal = Some ''adminLogin'', header_div = Some HeaderEmpty\<rparr>"
      "''root''" "''pw''"]
  by (simp add: resp_ok_def)

text \<open>
  C35. Clicking the header's Logout link from any page ends on the root page.
  header.js's logout clears the session and navigates, and the root page's
  header.js shows the logo only; no token and no role is stored.
\<close>

theorem logout_click_lands_on_root:
  "pathname (after w (headerClick True no_buttons LogoutLink w)) = ''/''
   \<and> header_div (after w (headerClick True no_buttons LogoutLink w)) = Some HeaderLogo
   \<and> getItem ''token'' (after w (headerClick True no_buttons LogoutLink w)) = None
   \<and> getItem ''userRole'' (after w (headerClick True no_buttons LogoutLink w)) = None"
  by (simp add: logout_def after_def visit_def loadPage_def Let_def renderHeader_def js_endsWith_def
                storage_simps world_simps)

end
